(* ===== verification/Prelude.thy ===== *)
theory Prelude
  imports Complex_Main
begin

text \<open>
  Shared vocabulary of the Facility development. The program (src/Facility.py) keeps its
  data in four SQLite tables reached through \<open>run_query\<close>; every table has a
  \<open>PRIMARY KEY\<close> column, every \<open>INSERT\<close> may raise \<open>sqlite3.IntegrityError\<close> on a
  duplicate key, and every statement is committed at once. This theory holds:
  \<^item> \<open>py_error\<close>, the Python exceptions the program can raise (\<open>UnidentifiedImageError\<close> is
    PIL's, raised through \<open>st.image\<close> on invoice bytes that are not an image), and \<open>outcome\<close>, the
    result of one Streamlit rerun: the state reached and, when the rerun stopped on an
    uncaught exception, that exception (committed statements stay committed);
  \<^item> a table as the list of its rows in insertion (rowid) order with a key selector, and
    the three SQL shapes the program uses on it: \<open>INSERT\<close> with the primary-key check,
    \<open>UPDATE ... WHERE key = ?\<close>, and the single-row \<open>SELECT ... WHERE key = ?\<close>;
  \<^item> the generic lemmas on these operations, collected in \<open>table_simps\<close>.
\<close>

named_theorems table_simps "characteristic equations of the table operations"
named_theorems outcome_simps "equations of the rerun outcome combinators"

section \<open>Exceptions and rerun outcomes\<close>

datatype py_error = IntegrityError | TypeError | KeyError | UnidentifiedImageError

datatype 'a outcome = Normal 'a | Raised py_error 'a

primrec outcome_state :: "'a outcome \<Rightarrow> 'a" where
  "outcome_state (Normal a) = a"
| "outcome_state (Raised e a) = a"

primrec outcome_error :: "'a outcome \<Rightarrow> py_error option" where
  "outcome_error (Normal a) = None"
| "outcome_error (Raised e a) = Some e"

text \<open>A statement that raises changes nothing; the rerun stops there with the state so far.\<close>

definition of_sql :: "py_error + 'a \<Rightarrow> 'a \<Rightarrow> 'a outcome" where
  "of_sql r a = (case r of Inl e \<Rightarrow> Raised e a | Inr a' \<Rightarrow> Normal a')"

text \<open>Sequencing of two parts of one rerun: an exception skips the rest.\<close>

primrec and_then :: "'a outcome \<Rightarrow> ('a \<Rightarrow> 'a outcome) \<Rightarrow> 'a outcome" where
  "and_then (Normal a) f = f a"
| "and_then (Raised e a) f = Raised e a"

section \<open>Tables with a primary key\<close>

definition tbl_insert :: "('r \<Rightarrow> 'k) \<Rightarrow> 'r \<Rightarrow> 'r list \<Rightarrow> py_error + 'r list" where
  "tbl_insert key r rs = (if key r \<in> set (map key rs) then Inl IntegrityError else Inr (rs @ [r]))"

definition tbl_update :: "('r \<Rightarrow> 'k) \<Rightarrow> 'k \<Rightarrow> ('r \<Rightarrow> 'r) \<Rightarrow> 'r list \<Rightarrow> 'r list" where
  "tbl_update key k f rs = map (\<lambda>r. if key r = k then f r else r) rs"

definition tbl_lookup :: "('r \<Rightarrow> 'k) \<Rightarrow> 'k \<Rightarrow> 'r list \<Rightarrow> 'r option" where
  "tbl_lookup key k rs = find (\<lambda>r. key r = k) rs"

text \<open>The primary-key constraint: no two rows share a key.\<close>

definition pk_ok :: "('r \<Rightarrow> 'k) \<Rightarrow> 'r list \<Rightarrow> bool" where
  "pk_ok key rs = distinct (map key rs)"

definition keeps_key :: "('r \<Rightarrow> 'k) \<Rightarrow> ('r \<Rightarrow> 'r) \<Rightarrow> bool" where
  "keeps_key key f = (\<forall>r. key (f r) = key r)"

section \<open>Lemmas on outcomes\<close>

lemma of_sql_simps [simp, outcome_simps]:
  "of_sql (Inl e) a = Raised e a" "of_sql (Inr a') a = Normal a'"
  by (simp_all add: of_sql_def)

lemma and_then_Normal_iff [outcome_simps]:
  "and_then x f = Normal b \<longleftrightarrow> (\<exists>a. x = Normal a \<and> f a = Normal b)"
  by (cases x) auto

lemma outcome_state_and_then [outcome_simps]:
  "outcome_state (and_then x f) =
     (case x of Normal a \<Rightarrow> outcome_state (f a) | Raised e a \<Rightarrow> a)"
  by (cases x) auto

lemma outcome_error_Some [outcome_simps]: "outcome_error x = Some e \<longleftrightarrow> (\<exists>a. x = Raised e a)"
  by (cases x) auto

lemma outcome_error_None [outcome_simps]: "outcome_error x = None \<longleftrightarrow> (\<exists>a. x = Normal a)"
  by (cases x) auto

lemma outcome_state_map_outcome [simp, outcome_simps]: "outcome_state (map_outcome f x) = f (outcome_state x)"
  by (cases x) simp_all

lemma outcome_cases_state:
  assumes "\<And>a. x = Normal a \<Longrightarrow> P a" and "\<And>e a. x = Raised e a \<Longrightarrow> P a"
  shows "P (outcome_state x)"
  using assms by (cases x) auto

section \<open>Lemmas on tables\<close>

lemma tbl_insert_Inr [table_simps]:
  "tbl_insert key r rs = Inr rs' \<longleftrightarrow> key r \<notin> key ` set rs \<and> rs' = rs @ [r]"
  by (auto simp: tbl_insert_def)

lemma tbl_insert_Inl [table_simps]:
  "tbl_insert key r rs = Inl e \<longleftrightarrow> key r \<in> key ` set rs \<and> e = IntegrityError"
  by (auto simp: tbl_insert_def)

lemma pk_ok_Nil [simp, table_simps]: "pk_ok key []"
  by (simp add: pk_ok_def)

lemma pk_ok_snoc [table_simps]:
  "pk_ok key (rs @ [r]) \<longleftrightarrow> pk_ok key rs \<and> key r \<notin> key ` set rs"
  by (auto simp: pk_ok_def)

lemma pk_ok_tbl_insert:
  "pk_ok key rs \<Longrightarrow> tbl_insert key r rs = Inr rs' \<Longrightarrow> pk_ok key rs'"
  by (auto simp: tbl_insert_Inr pk_ok_snoc)

lemma map_key_tbl_update [simp, table_simps]:
  "keeps_key key f \<Longrightarrow> map key (tbl_update key k f rs) = map key rs"
  by (induction rs) (auto simp: tbl_update_def keeps_key_def)

lemma pk_ok_tbl_update [simp, table_simps]:
  "keeps_key key f \<Longrightarrow> pk_ok key (tbl_update key k f rs) = pk_ok key rs"
  by (simp add: pk_ok_def)

lemma length_tbl_update [simp, table_simps]: "length (tbl_update key k f rs) = length rs"
  by (simp add: tbl_update_def)

lemma tbl_update_absent [table_simps]:
  "k \<notin> key ` set rs \<Longrightarrow> tbl_update key k f rs = rs"
  by (induction rs) (auto simp: tbl_update_def)

lemma set_tbl_update [table_simps]:
  "set (tbl_update key k f rs) = (\<lambda>r. if key r = k then f r else r) ` set rs"
  by (simp add: tbl_update_def)

lemma tbl_update_append [table_simps]:
  "tbl_update key k f (rs @ qs) = tbl_update key k f rs @ tbl_update key k f qs"
  by (simp add: tbl_update_def)

lemma tbl_lookup_Some_mem:
  "tbl_lookup key k rs = Some r \<Longrightarrow> r \<in> set rs \<and> key r = k"
  by (auto simp: tbl_lookup_def find_Some_iff)

lemma tbl_lookup_None [table_simps]:
  "tbl_lookup key k rs = None \<longleftrightarrow> k \<notin> key ` set rs"
  by (auto simp: tbl_lookup_def find_None_iff)

lemma tbl_lookup_pk [table_simps]:
  "pk_ok key rs \<Longrightarrow> r \<in> set rs \<Longrightarrow> tbl_lookup key (key r) rs = Some r"
proof (induction rs)
  case Nil
  then show ?case by simp
next
  case (Cons q rs)
  then show ?case by (auto simp: pk_ok_def tbl_lookup_def)
qed

lemma tbl_lookup_iff:
  "pk_ok key rs \<Longrightarrow> tbl_lookup key k rs = Some r \<longleftrightarrow> r \<in> set rs \<and> key r = k"
  using tbl_lookup_Some_mem tbl_lookup_pk by metis

lemma tbl_lookup_snoc [table_simps]:
  "tbl_lookup key k (rs @ [r]) =
     (case tbl_lookup key k rs of None \<Rightarrow> (if key r = k then Some r else None) | Some q \<Rightarrow> Some q)"
  by (induction rs) (auto simp: tbl_lookup_def)

lemma tbl_lookup_tbl_update [table_simps]:
  "keeps_key key f \<Longrightarrow>
   tbl_lookup key k' (tbl_update key k f rs) =
     (if k' = k then map_option f (tbl_lookup key k' rs) else tbl_lookup key k' rs)"
  by (induction rs) (auto simp: tbl_update_def tbl_lookup_def keeps_key_def)

lemma tbl_update_map_ident [table_simps]:
  "(\<And>r. r \<in> set rs \<Longrightarrow> key r = k \<Longrightarrow> f r = r) \<Longrightarrow> tbl_update key k f rs = rs"
  by (induction rs) (auto simp: tbl_update_def)

lemma tbl_update_other_mem:
  "r \<in> set rs \<Longrightarrow> key r \<noteq> k \<Longrightarrow> r \<in> set (tbl_update key k f rs)"
  by (force simp: set_tbl_update)

lemma tbl_lookup_filter_pk:
  "pk_ok key rs \<Longrightarrow> tbl_lookup key k (filter Q rs) = Some r \<Longrightarrow> tbl_lookup key k rs = Some r"
  using tbl_lookup_Some_mem tbl_lookup_pk by fastforce

lemma list_all_tbl_update:
  "list_all P rs \<Longrightarrow> (\<And>r. r \<in> set rs \<Longrightarrow> key r = k \<Longrightarrow> P (f r)) \<Longrightarrow> list_all P (tbl_update key k f rs)"
  by (auto simp: list_all_iff set_tbl_update)

lemma pk_unique: "pk_ok key rs \<Longrightarrow> q \<in> set rs \<Longrightarrow> r \<in> set rs \<Longrightarrow> key q = key r \<Longrightarrow> q = r"
  by (auto simp: pk_ok_def dest: inj_onD [OF distinct_map [THEN iffD1, THEN conjunct2]])

text \<open>A row found by key among the rows of a query is the only row of the table with that key.\<close>

lemma tbl_lookup_filter:
  assumes "pk_ok key rs" and "tbl_lookup key k (filter Q rs) = Some r"
  shows "r \<in> set rs \<and> Q r \<and> key r = k \<and> (\<forall>q \<in> set rs. key q = k \<longrightarrow> q = r)"
  using assms tbl_lookup_Some_mem [OF assms(2)] pk_unique [OF assms(1)] by auto

lemma tbl_lookup_filter_shown:
  assumes "k \<in> set (map key (filter Q rs))"
  shows "\<exists>r. tbl_lookup key k (filter Q rs) = Some r"
proof -
  from assms have "tbl_lookup key k (filter Q rs) \<noteq> None"
    by (simp add: tbl_lookup_None)
  then show ?thesis by blast
qed

end
