(* ===== verification/Model.thy ===== *)
theory Model
  imports Prelude "HOL-Library.List_Lexorder" "HOL-Library.Char_ord"
begin

text \<open>
  The data of src/Facility.py: the fixed string vocabularies of the program (request and
  payment statuses, user roles, request categories) as datatypes with their text as the
  code writes it, the rows of the four tables and the cart entries as records, the
  catalogue constants \<open>STATIONARY_ITEMS\<close> and \<open>CATEGORY_OPTIONS\<close>, and the two
  string functions the code uses on user input and in messages: \<open>str.lower\<close> and
  \<open>str(int)\<close>.
\<close>

section \<open>Status, role and category vocabularies\<close>

text \<open>
  Every value the program stores in a \<open>status\<close> column (of \<open>requests\<close> or of
  \<open>payments\<close>) or compares one with. \<open>Ready_for_Accounts\<close> and \<open>Paid\<close> are written
  only to \<open>payments.status\<close>, but the SAC savings report and the HOD spend report also
  look for them in \<open>requests.status\<close>.
\<close>

datatype status =
    Pending_Dept_HOD | Pending_Admin | Pending_SS_HOD | Pending_SAC | Pending_ED
  | Pending_GMD | Approved | Declined | Completed_Fulfilled | Completed_Resolved
  | Ready_for_Accounts | Paid

fun status_text :: "status \<Rightarrow> string" where
  "status_text Pending_Dept_HOD = ''Pending Dept HOD''"
| "status_text Pending_Admin = ''Pending Admin''"
| "status_text Pending_SS_HOD = ''Pending SS HOD''"
| "status_text Pending_SAC = ''Pending SAC''"
| "status_text Pending_ED = ''Pending ED''"
| "status_text Pending_GMD = ''Pending GMD''"
| "status_text Approved = ''Approved''"
| "status_text Declined = ''Declined''"
| "status_text Completed_Fulfilled = ''Completed (Fulfilled)''"
| "status_text Completed_Resolved = ''Completed (Resolved)''"
| "status_text Ready_for_Accounts = ''Ready for Accounts''"
| "status_text Paid = ''Paid''"

text \<open>The roles of the \<open>users.role\<close> column: the superuser form's list and \<open>Superuser\<close>.\<close>

datatype role = Staff | Dept_HOD | Admin | SS_HOD | SAC | ED | GMD | Accounts | Superuser

fun role_text :: "role \<Rightarrow> string" where
  "role_text Staff = ''Staff''"
| "role_text Dept_HOD = ''Dept HOD''"
| "role_text Admin = ''Admin''"
| "role_text SS_HOD = ''SS HOD''"
| "role_text SAC = ''SAC''"
| "role_text ED = ''ED''"
| "role_text GMD = ''GMD''"
| "role_text Accounts = ''Accounts''"
| "role_text Superuser = ''Superuser''"

text \<open>The roles the superuser form offers (\<open>view_superuser\<close>), in its order.\<close>

definition creatable_roles :: "role list" where
  "creatable_roles = [Staff, Dept_HOD, Admin, SS_HOD, SAC, ED, GMD, Accounts]"

datatype category = Facility | Furniture | Communication | Stationary | Others

fun category_text :: "category \<Rightarrow> string" where
  "category_text Facility = ''Facility''"
| "category_text Furniture = ''Furniture''"
| "category_text Communication = ''Communication''"
| "category_text Stationary = ''Stationary''"
| "category_text Others = ''Others''"

section \<open>Catalogue constants\<close>

definition STATIONARY_ITEMS :: "string list" where
  "STATIONARY_ITEMS = sort [''05A Toner'', ''A4 Paper'', ''Biro'', ''Staplers'', ''Notepads'',
     ''File Folders'']"

fun CATEGORY_OPTIONS :: "category \<Rightarrow> string list" where
  "CATEGORY_OPTIONS Facility = [''Door Repair'', ''AC Repair'', ''Electrical'', ''Plumbing'', ''Generator'']"
| "CATEGORY_OPTIONS Furniture = [''Chair Repair'', ''Table Repair'', ''New Chair'']"
| "CATEGORY_OPTIONS Communication =
     [''CUG Issue'', ''Airtime Request'', ''Bulk SMS Recharge'', ''Internet Issue'']"
| "CATEGORY_OPTIONS Stationary = STATIONARY_ITEMS"
| "CATEGORY_OPTIONS Others = []"

text \<open>The keys of \<open>CATEGORY_OPTIONS\<close> in dict order: the category select box.\<close>

definition category_keys :: "category list" where
  "category_keys = [Facility, Furniture, Communication, Stationary, Others]"

section \<open>Rows and cart entries\<close>

text \<open>
  A row of each table, with the columns of \<open>init_db\<close> in order. A \<open>REAL\<close> column is a
  \<open>real\<close> (the program only compares and subtracts amounts; float rounding is not
  modelled), a \<open>BLOB\<close> that may be \<open>NULL\<close> is a \<open>string option\<close>, the
  \<open>force_reset\<close> flag is the \<open>INTEGER\<close> it is stored as.
\<close>

record user =
  username :: string
  password :: string
  role :: role
  name :: string
  email :: string
  dept :: string
  hod_email :: string
  force_reset :: int

record request =
  req_id :: string
  user_key :: string
  requester_name :: string
  department :: string
  approver_email :: string
  category :: category
  item :: string
  status :: status
  amount :: real
  initial_cost :: real
  vendor :: string
  invoice_img :: "string option"
  sac_note :: string
  date :: string

record payment =
  payment_id :: string
  pay_req_id :: string
  pay_amount :: real
  pay_status :: status
  pay_vendor :: string

record audit_entry =
  audit_id :: nat
  timestamp :: string
  audit_user :: string
  action :: string
  details :: string

text \<open>A cart entry: the dict \<open>{"type": cat, "item": sel, "qty": qty}\<close>.\<close>

record cart_item =
  item_type :: category
  item_name :: string
  qty :: int

section \<open>String helpers: str.lower and str(int)\<close>

text \<open>
  \<open>str.lower\<close> on the ASCII range (HOL characters are bytes; Python also lowers
  non-ASCII letters, which the model leaves unchanged).
\<close>

definition lower_char :: "char \<Rightarrow> char" where
  "lower_char c = (let n = (of_char c :: nat) in if 65 \<le> n \<and> n \<le> 90 then char_of (n + 32) else c)"

definition py_lower :: "string \<Rightarrow> string" where
  "py_lower s = map lower_char s"

text \<open>\<open>str(n)\<close> for the integers of the program (quantities in f-strings).\<close>

fun show_nat :: "nat \<Rightarrow> string" where
  "show_nat n = (if n < 10 then [char_of (48 + n)] else show_nat (n div 10) @ [char_of (48 + n mod 10)])"

definition show_int :: "int \<Rightarrow> string" where
  "show_int i = (if i < 0 then CHR ''-'' # show_nat (nat (- i)) else show_nat (nat i))"

declare show_nat.simps [simp del]

section \<open>Lemmas on the vocabularies\<close>

lemma STATIONARY_ITEMS_eq:
  "STATIONARY_ITEMS = [''05A Toner'', ''A4 Paper'', ''Biro'', ''File Folders'', ''Notepads'', ''Staplers'']"
  by (simp add: STATIONARY_ITEMS_def)

lemma lower_char_idem [simp]: "lower_char (lower_char c) = lower_char c"
  by (simp add: lower_char_def Let_def)

lemma py_lower_idem [simp]: "py_lower (py_lower s) = py_lower s"
  by (simp add: py_lower_def comp_def)

lemma length_py_lower [simp]: "length (py_lower s) = length s"
  by (simp add: py_lower_def)

lemma py_lower_Nil_iff [simp]: "py_lower s = [] \<longleftrightarrow> s = []"
  by (simp add: py_lower_def)

end
