(* ===== verification/Store.thy ===== *)
theory Store
  imports Model "HOL-Library.Sublist"
begin

text \<open>
  The SQLite database of src/Facility.py (\<open>init_db\<close>, \<open>run_query\<close>, \<open>log_action\<close>,
  \<open>get_user\<close>). The database is a record of the four tables, each the list of its rows
  in rowid order. Every statement the program runs is one of the operations below:
  \<open>INSERT\<close> into a table with a primary key (which raises \<open>IntegrityError\<close> on a
  duplicate key and then changes nothing), \<open>UPDATE ... WHERE key = ?\<close>, the audit
  \<open>INSERT\<close> (AUTOINCREMENT key, never fails), and the single-row lookup of
  \<open>get_user\<close>. \<open>make_hash\<close> (SHA-256 hex digest) is not modelled: the hash function is
  the parameter \<open>h\<close> of every operation that hashes.
\<close>

type_synonym hash = "string \<Rightarrow> string"

record db =
  users :: "user list"
  requests :: "request list"
  audit :: "audit_entry list"
  payments :: "payment list"

text \<open>A database file in which \<open>CREATE TABLE IF NOT EXISTS\<close> has created empty tables.\<close>

definition empty_db :: db where
  "empty_db = \<lparr>users = [], requests = [], audit = [], payments = []\<rparr>"

section \<open>Hashing and the default superuser\<close>

definition check_hash :: "hash \<Rightarrow> string \<Rightarrow> string \<Rightarrow> bool" where
  "check_hash h pw hashed = (h pw = hashed)"

definition superuser_row :: "hash \<Rightarrow> user" where
  "superuser_row h = \<lparr>username = ''super'', password = h ''123'', role = Superuser,
     name = ''IT Admin'', email = ''it@co.com'', dept = ''IT'', hod_email = '''', force_reset = 0\<rparr>"

section \<open>Statements\<close>

definition get_user :: "db \<Rightarrow> string \<Rightarrow> user option" where
  "get_user d u = tbl_lookup username u (users d)"

definition init_db :: "hash \<Rightarrow> db \<Rightarrow> db" where
  "init_db h d =
     (case get_user d ''super'' of
        None \<Rightarrow> d\<lparr>users := users d @ [superuser_row h]\<rparr>
      | Some _ \<Rightarrow> d)"

definition log_action :: "string \<Rightarrow> string \<Rightarrow> string \<Rightarrow> string \<Rightarrow> db \<Rightarrow> db" where
  "log_action ts u act det d =
     d\<lparr>audit := audit d @ [\<lparr>audit_id = Suc (length (audit d)), timestamp = ts, audit_user = u,
        action = act, details = det\<rparr>]\<rparr>"

definition insert_user :: "user \<Rightarrow> db \<Rightarrow> py_error + db" where
  "insert_user u d = map_sum id (\<lambda>us. d\<lparr>users := us\<rparr>) (tbl_insert username u (users d))"

definition set_user :: "string \<Rightarrow> (user \<Rightarrow> user) \<Rightarrow> db \<Rightarrow> db" where
  "set_user k f d = d\<lparr>users := tbl_update username k f (users d)\<rparr>"

definition insert_request :: "request \<Rightarrow> db \<Rightarrow> py_error + db" where
  "insert_request r d = map_sum id (\<lambda>rs. d\<lparr>requests := rs\<rparr>) (tbl_insert req_id r (requests d))"

definition set_request :: "string \<Rightarrow> (request \<Rightarrow> request) \<Rightarrow> db \<Rightarrow> db" where
  "set_request k f d = d\<lparr>requests := tbl_update req_id k f (requests d)\<rparr>"

text \<open>\<open>UPDATE requests SET status = ? WHERE id = ?\<close>, the commonest statement.\<close>

definition set_status :: "string \<Rightarrow> status \<Rightarrow> db \<Rightarrow> db" where
  "set_status k st d = set_request k (\<lambda>r. r\<lparr>status := st\<rparr>) d"

definition insert_payment :: "payment \<Rightarrow> db \<Rightarrow> py_error + db" where
  "insert_payment p d = map_sum id (\<lambda>ps. d\<lparr>payments := ps\<rparr>) (tbl_insert payment_id p (payments d))"

definition set_payment :: "string \<Rightarrow> (payment \<Rightarrow> payment) \<Rightarrow> db \<Rightarrow> db" where
  "set_payment k f d = d\<lparr>payments := tbl_update payment_id k f (payments d)\<rparr>"

section \<open>Well-formedness\<close>

text \<open>
  The constraints of the schema: the three primary keys, and the AUTOINCREMENT ids of the
  audit trail, which are 1, 2, ... since no row is ever deleted.
\<close>

definition db_wf :: "db \<Rightarrow> bool" where
  "db_wf d \<longleftrightarrow> pk_ok username (users d) \<and> pk_ok req_id (requests d) \<and>
     pk_ok payment_id (payments d) \<and> map audit_id (audit d) = [1..<Suc (length (audit d))]"

section \<open>Effects of a sequence of inserts\<close>

text \<open>
  A handler that inserts request rows one by one, logging each, leaves either all of its
  rows appended (\<open>full_insert\<close>) or, after an \<open>IntegrityError\<close>, a prefix of them
  (\<open>only_inserts\<close>); the other tables are untouched and the audit trail only grows.
\<close>

definition full_insert :: "request list \<Rightarrow> db \<Rightarrow> db \<Rightarrow> bool" where
  "full_insert rs d d' \<longleftrightarrow> requests d' = requests d @ rs \<and> users d' = users d \<and>
     payments d' = payments d \<and> prefix (audit d) (audit d')"

definition only_inserts :: "request list \<Rightarrow> db \<Rightarrow> db \<Rightarrow> bool" where
  "only_inserts rs d d' \<longleftrightarrow> prefix (requests d) (requests d') \<and> prefix (requests d') (requests d @ rs) \<and>
     users d' = users d \<and> payments d' = payments d \<and> prefix (audit d) (audit d')"

text \<open>
  A sequence that stopped at its \<open>k\<close>-th insert: the first \<open>k\<close> rows are in the table
  and the id of row \<open>k\<close> was already taken.
\<close>

definition stopped_insert :: "request list \<Rightarrow> db \<Rightarrow> db \<Rightarrow> bool" where
  "stopped_insert rs d d' \<longleftrightarrow>
     (\<exists>k < length rs. requests d' = requests d @ take k rs \<and> req_id (rs ! k) \<in> req_id ` set (requests d')) \<and>
     users d' = users d \<and> payments d' = payments d \<and> prefix (audit d) (audit d')"

text \<open>What an insert-then-log step followed by more work leaves behind, on both outcomes.\<close>

definition insert_effect :: "request list \<Rightarrow> db \<Rightarrow> db outcome \<Rightarrow> bool" where
  "insert_effect rs d x = (case x of Normal d' \<Rightarrow> full_insert rs d d'
                                   | Raised err d' \<Rightarrow> err = IntegrityError \<and> stopped_insert rs d d')"

section \<open>Lemmas on the statements\<close>

lemmas store_frame_defs = log_action_def set_user_def set_request_def set_status_def set_payment_def

lemma insert_user_Inr [table_simps]:
  "insert_user u d = Inr d' \<longleftrightarrow> username u \<notin> username ` set (users d) \<and> d' = d\<lparr>users := users d @ [u]\<rparr>"
  by (auto simp: insert_user_def tbl_insert_def)

lemma insert_user_Inl [table_simps]:
  "insert_user u d = Inl e \<longleftrightarrow> username u \<in> username ` set (users d) \<and> e = IntegrityError"
  by (auto simp: insert_user_def tbl_insert_def)

lemma insert_request_Inr [table_simps]:
  "insert_request r d = Inr d' \<longleftrightarrow> req_id r \<notin> req_id ` set (requests d) \<and> d' = d\<lparr>requests := requests d @ [r]\<rparr>"
  by (auto simp: insert_request_def tbl_insert_def)

lemma insert_request_Inl [table_simps]:
  "insert_request r d = Inl e \<longleftrightarrow> req_id r \<in> req_id ` set (requests d) \<and> e = IntegrityError"
  by (auto simp: insert_request_def tbl_insert_def)

lemma insert_payment_Inr [table_simps]:
  "insert_payment p d = Inr d' \<longleftrightarrow> payment_id p \<notin> payment_id ` set (payments d) \<and> d' = d\<lparr>payments := payments d @ [p]\<rparr>"
  by (auto simp: insert_payment_def tbl_insert_def)

lemma insert_payment_Inl [table_simps]:
  "insert_payment p d = Inl e \<longleftrightarrow> payment_id p \<in> payment_id ` set (payments d) \<and> e = IntegrityError"
  by (auto simp: insert_payment_def tbl_insert_def)

lemma db_wf_empty: "db_wf empty_db"
  by (simp add: db_wf_def empty_db_def)

lemma db_wf_log_action: "db_wf d \<Longrightarrow> db_wf (log_action ts u a x d)"
  by (simp add: db_wf_def log_action_def)

lemma db_wf_insert_user: "db_wf d \<Longrightarrow> insert_user u d = Inr d' \<Longrightarrow> db_wf d'"
  by (auto simp: db_wf_def insert_user_Inr pk_ok_snoc)

lemma db_wf_insert_request: "db_wf d \<Longrightarrow> insert_request r d = Inr d' \<Longrightarrow> db_wf d'"
  by (auto simp: db_wf_def insert_request_Inr pk_ok_snoc)

lemma db_wf_insert_payment: "db_wf d \<Longrightarrow> insert_payment p d = Inr d' \<Longrightarrow> db_wf d'"
  by (auto simp: db_wf_def insert_payment_Inr pk_ok_snoc)

lemma db_wf_set_user: "db_wf d \<Longrightarrow> keeps_key username f \<Longrightarrow> db_wf (set_user k f d)"
  by (simp add: db_wf_def set_user_def)

lemma db_wf_set_request: "db_wf d \<Longrightarrow> keeps_key req_id f \<Longrightarrow> db_wf (set_request k f d)"
  by (simp add: db_wf_def set_request_def)

lemma db_wf_set_status: "db_wf d \<Longrightarrow> db_wf (set_status k st d)"
  by (simp add: set_status_def db_wf_set_request keeps_key_def)

lemma db_wf_set_payment: "db_wf d \<Longrightarrow> keeps_key payment_id f \<Longrightarrow> db_wf (set_payment k f d)"
  by (simp add: db_wf_def set_payment_def)

lemma get_user_init_db: "get_user (init_db h d) ''super'' \<noteq> None"
  by (auto simp: init_db_def get_user_def tbl_lookup_snoc superuser_row_def split: option.splits)

lemma init_db_present: "get_user d ''super'' \<noteq> None \<Longrightarrow> init_db h d = d"
  by (auto simp: init_db_def)

lemma db_wf_init_db: "db_wf d \<Longrightarrow> db_wf (init_db h d)"
  by (auto simp: init_db_def db_wf_def get_user_def tbl_lookup_None pk_ok_snoc superuser_row_def
      split: option.splits)

lemma get_user_Some: "get_user d k = Some u \<Longrightarrow> u \<in> set (users d) \<and> username u = k"
  unfolding get_user_def by (rule tbl_lookup_Some_mem)

lemma get_user_set_user:
  "keeps_key username f \<Longrightarrow>
   get_user (set_user k f d) k' = (if k' = k then map_option f (get_user d k') else get_user d k')"
  by (simp add: get_user_def set_user_def tbl_lookup_tbl_update)

lemma get_user_insert_user:
  "insert_user u d = Inr d' \<Longrightarrow> get_user d k \<noteq> None \<Longrightarrow> get_user d' k = get_user d k"
  by (auto simp: insert_user_Inr get_user_def tbl_lookup_snoc split: option.splits)

lemma users_unchanged [simp]:
  "users (log_action ts u a x d) = users d" "users (set_request k f d) = users d"
  "users (set_status k st d) = users d" "users (set_payment k g d) = users d"
  by (simp_all add: store_frame_defs)
section \<open>Lemmas on insert sequences\<close>

lemma full_insert_Nil [simp]: "full_insert [] d d"
  by (simp add: full_insert_def)

lemma full_insert_only_inserts: "full_insert rs d d' \<Longrightarrow> only_inserts rs d d'"
  by (simp add: full_insert_def only_inserts_def)

lemma only_inserts_Nil [simp]: "only_inserts rs d d"
  by (simp add: only_inserts_def)

lemma only_inserts_seq: "full_insert rs1 d d1 \<Longrightarrow> only_inserts rs2 d1 d2 \<Longrightarrow> only_inserts (rs1 @ rs2) d d2"
  by (auto simp: full_insert_def only_inserts_def intro: prefix_order.trans dest: append_prefixD)

lemma full_insert_seq: "full_insert rs1 d d1 \<Longrightarrow> full_insert rs2 d1 d2 \<Longrightarrow> full_insert (rs1 @ rs2) d d2"
  by (auto simp: full_insert_def intro: prefix_order.trans)

lemma full_insert_log: "full_insert [] d (log_action ts x a y d)"
  by (simp add: full_insert_def log_action_def)

lemma insert_request_full: "insert_request r d = Inr d1 \<Longrightarrow> full_insert [r] d d1"
  by (auto simp: full_insert_def insert_request_Inr)

lemma insert_request_fresh:
  "req_id r \<notin> req_id ` set (requests d) \<Longrightarrow> insert_request r d = Inr (d\<lparr>requests := requests d @ [r]\<rparr>)"
  by (simp add: insert_request_Inr)

lemma insert_request_error: "insert_request r d = Inl err \<Longrightarrow> err = IntegrityError"
  by (simp add: insert_request_Inl)

lemma insert_log_full:
  "insert_request r d = Inr d1 \<Longrightarrow> full_insert [r] d (log_action ts x a y d1)"
  using full_insert_seq [OF insert_request_full full_insert_log] by simp

lemma stopped_insert_only_inserts: "stopped_insert rs d d' \<Longrightarrow> only_inserts rs d d'"
  by (auto simp: stopped_insert_def only_inserts_def take_is_prefix)

lemma stopped_insert_seq:
  assumes "full_insert rs1 d d1" and "stopped_insert rs2 d1 d2"
  shows "stopped_insert (rs1 @ rs2) d d2"
proof -
  from assms(2) obtain k where k: "k < length rs2" "requests d2 = requests d1 @ take k rs2"
    "req_id (rs2 ! k) \<in> req_id ` set (requests d2)"
    by (auto simp: stopped_insert_def)
  have "length rs1 + k < length (rs1 @ rs2)" "requests d2 = requests d @ take (length rs1 + k) (rs1 @ rs2)"
    "(rs1 @ rs2) ! (length rs1 + k) = rs2 ! k"
    using k assms(1) by (simp_all add: full_insert_def nth_append)
  with k assms show ?thesis
    unfolding stopped_insert_def full_insert_def by (metis prefix_order.trans)
qed

lemma stopped_insert_mono:
  assumes "stopped_insert rs d d'"
  shows "stopped_insert (rs @ qs) d d'"
proof -
  from assms obtain k where k: "k < length rs" "requests d' = requests d @ take k rs"
    "req_id (rs ! k) \<in> req_id ` set (requests d')"
    by (auto simp: stopped_insert_def)
  then have "k < length (rs @ qs)" "take k (rs @ qs) = take k rs" "(rs @ qs) ! k = rs ! k"
    by (simp_all add: nth_append)
  with k assms show ?thesis
    unfolding stopped_insert_def by metis
qed

lemma insert_effect_step:
  assumes "\<And>d1. insert_request r d = Inr d1 \<Longrightarrow> insert_effect rs (log_action ts x a y d1) (f d1)"
  shows "insert_effect (r # rs) d (and_then (of_sql (insert_request r d) d) f)"
proof (cases "insert_request r d")
  case (Inl err)
  then have "stopped_insert (r # rs) d d"
    by (auto simp: stopped_insert_def insert_request_Inl)
  with Inl show ?thesis
    using insert_request_error [OF Inl] by (simp add: insert_effect_def)
next
  case (Inr d1)
  have full: "full_insert [r] d (log_action ts x a y d1)"
    by (rule insert_log_full [OF Inr])
  from assms [OF Inr] show ?thesis
    using Inr full_insert_seq [OF full] stopped_insert_seq [OF full]
    by (simp add: insert_effect_def split: outcome.splits)
qed

lemma only_inserts_mono: "only_inserts rs d d' \<Longrightarrow> only_inserts (rs @ qs) d d'"
  by (auto simp: only_inserts_def intro: prefix_order.trans)

lemma insert_effect_and_then:
  assumes "insert_effect rs1 d x" and "\<And>d1. x = Normal d1 \<Longrightarrow> insert_effect rs2 d1 (f d1)"
  shows "insert_effect (rs1 @ rs2) d (and_then x f)"
  using assms full_insert_seq stopped_insert_seq stopped_insert_mono
  by (cases x) (fastforce simp: insert_effect_def split: outcome.splits)+

end
