(* ===== verification/Session.thy ===== *)
theory Session
  imports Store
begin

text \<open>
  The per-browser state of src/Facility.py (\<open>st.session_state\<close>, lines 108-112 and the
  keys \<open>login_function\<close> adds), the interactions a rerun can start with, the
  environment of a rerun (what \<open>uuid.uuid4()\<close>, \<open>datetime.date.today()\<close> and
  \<open>datetime.datetime.now()\<close> return), and the two forms of the authentication flow:
  \<open>login_function\<close> and \<open>change_password_flow\<close>, with the sidebar's logout button.
\<close>

section \<open>Session state\<close>

text \<open>
  \<open>user_role\<close> is \<open>""\<close> until the first login (\<open>None\<close> here); \<open>user_data\<close> is
  \<open>{}\<close> until then (\<open>None\<close>); \<open>user_name\<close> and \<open>user_email\<close> are absent until then.
\<close>

record session =
  cart :: "cart_item list"
  logged_in :: bool
  user_role :: "role option"
  current_user_key :: string
  user_data :: "user option"
  user_name :: "string option"
  user_email :: "string option"

definition init_session :: session where
  "init_session = \<lparr>cart = [], logged_in = False, user_role = None, current_user_key = '''',
     user_data = None, user_name = None, user_email = None\<rparr>"

section \<open>Interactions and the environment of a rerun\<close>

text \<open>
  A rerun of the script is started by one widget interaction: a form submitted or a
  button clicked, with the values of the form's inputs. The request-row buttons carry the
  request id of their key (\<open>key=f"y_{rid}"\<close> and so on). \<open>Approve\<close> and
  \<open>Decline\<close> are the buttons of both the HOD and the approver dashboards.
\<close>

datatype event =
    Login string string
  | ChangePassword string string
  | Logout
  | AddItem category string int
  | SubmitCart
  | Approve string
  | Decline string
  | Issue string
  | ResolveCUG string
  | Quote string string real "string option"
  | Validate string real string
  | MarkPaid string
  | CreateUser string string string string role string string
  | Refresh

text \<open>
  \<open>uuid k\<close> is the id \<open>str(uuid.uuid4())[:8]\<close> drawn by the \<open>k\<close>-th call in the
  rerun; \<open>today\<close> and \<open>now\<close> are the date and the timestamp strings of the rerun;
  \<open>image_ok b\<close> says whether \<open>st.image(BytesIO(b))\<close> can decode the bytes \<open>b\<close> (PIL
  raises \<open>UnidentifiedImageError\<close> otherwise). The decoder is part of the environment, so
  the properties below hold for every decoder.
\<close>

record env =
  uuid :: "nat \<Rightarrow> string"
  today :: string
  now :: string
  image_ok :: "string \<Rightarrow> bool"

section \<open>Login, password change, logout\<close>

definition login_function :: "hash \<Rightarrow> string \<Rightarrow> string \<Rightarrow> string \<Rightarrow> db \<Rightarrow> session \<Rightarrow> db \<times> session" where
  "login_function h ts u_in p d s =
     (let u = py_lower u_in in
      case get_user d u of
        Some usr \<Rightarrow>
          if check_hash h p (password usr) then
            (log_action ts (name usr) ''Login'' ''Success'' d,
             s\<lparr>logged_in := True, user_role := Some (role usr), user_name := Some (name usr),
               user_email := Some (email usr), current_user_key := u, user_data := Some usr\<rparr>)
          else (d, s)
      | None \<Rightarrow> (d, s))"

definition change_password_flow :: "hash \<Rightarrow> string \<Rightarrow> string \<Rightarrow> db \<Rightarrow> session \<Rightarrow> db \<times> session" where
  "change_password_flow h p1 p2 d s =
     (if p1 = p2 \<and> 0 < length p1 then
        (set_user (current_user_key s) (\<lambda>u. u\<lparr>password := h p1, force_reset := 0\<rparr>) d,
         s\<lparr>user_data := map_option (\<lambda>u. u\<lparr>force_reset := 0\<rparr>) (user_data s)\<rparr>)
      else (d, s))"

definition logout :: "session \<Rightarrow> session" where
  "logout s = s\<lparr>logged_in := False\<rparr>"

section \<open>Properties of logging in\<close>

lemma check_hash_same [simp]: "check_hash h p (h p)"
  by (simp add: check_hash_def)

text \<open>
  C27: logging in does not depend on the case of the username typed: the
  outcome for \<open>u\<close> and for its lowercase form is the same, on every database and session.
\<close>

theorem login_case_insensitive: "login_function h ts u p d s = login_function h ts (py_lower u) p d s"
  by (simp add: login_function_def)

text \<open>
  C26: after a successful password change (both entries equal and not
  empty), logging in with the new password as the same (lowercase) username succeeds and
  loads the user with the new password hash and the reset flag cleared.
\<close>

theorem change_password_then_login:
  assumes usr: "get_user d (current_user_key s) = Some usr"
    and low: "py_lower (current_user_key s) = current_user_key s" and p: "p \<noteq> []"
    and cp: "change_password_flow h p p d s = (d', s')"
  shows "logged_in (snd (login_function h ts (current_user_key s) p d' s2)) \<and>
         user_data (snd (login_function h ts (current_user_key s) p d' s2)) =
           Some (usr\<lparr>password := h p, force_reset := 0\<rparr>)"
proof -
  from p cp have d': "d' = set_user (current_user_key s) (\<lambda>u. u\<lparr>password := h p, force_reset := 0\<rparr>) d"
    by (simp add: change_password_flow_def)
  have "get_user d' (current_user_key s) = Some (usr\<lparr>password := h p, force_reset := 0\<rparr>)"
    using usr by (simp add: d' get_user_set_user keeps_key_def)
  with low show ?thesis
    by (simp add: login_function_def)
qed

end
