(* ===== verification/Cart.thy ===== *)
theory Cart
  imports Session
begin

text \<open>
  The staff side of src/Facility.py: the cart of \<open>view_staff_portal\<close> and
  \<open>process_cart_submission\<close>, which turns the cart into request rows. All stationery
  entries become one request (\<open>"Pending Admin"\<close>, vendor \<open>"Store"\<close>); every other
  entry becomes a request of its own, routed to the department HOD except a CUG issue,
  which goes to the admin directly. Every insert is committed at once, so an
  \<open>IntegrityError\<close> on a duplicate 8-character id stops the submission half way, with
  the rows inserted so far kept and the cart not cleared.
\<close>

section \<open>Adding to the cart\<close>

text \<open>
  What the widgets of the portal can submit: an option of the category's select box (any
  text for \<open>Others\<close>), and a quantity of at least 1 for stationery (the
  \<open>number_input\<close> has \<open>min_value = 1\<close>); other categories keep \<open>qty = 1\<close>.
\<close>

definition widget_input_ok :: "category \<Rightarrow> string \<Rightarrow> int \<Rightarrow> bool" where
  "widget_input_ok cat sel q =
     ((cat = Others \<or> sel \<in> set (CATEGORY_OPTIONS cat)) \<and> (cat = Stationary \<longrightarrow> 1 \<le> q))"

definition add_item :: "category \<Rightarrow> string \<Rightarrow> int \<Rightarrow> session \<Rightarrow> session" where
  "add_item cat sel q s =
     (let qty = (if cat = Stationary then q else 1) in
      if sel \<noteq> [] then s\<lparr>cart := cart s @ [\<lparr>item_type = cat, item_name = sel, qty = qty\<rparr>]\<rparr> else s)"

section \<open>Submitting the cart\<close>

text \<open>\<open>", ".join(...)\<close> and the description of the merged stationery request.\<close>

fun join :: "string \<Rightarrow> string list \<Rightarrow> string" where
  "join sep [] = []"
| "join sep [x] = x"
| "join sep (x # y # zs) = x @ sep @ join sep (y # zs)"

definition stationary_desc :: "cart_item list \<Rightarrow> string" where
  "stationary_desc its = join '', '' (map (\<lambda>i. item_name i @ '' ('' @ show_int (qty i) @ '')'') its)"

text \<open>The row both inserts write, with the columns the \<open>INSERT\<close> leaves out at their defaults.\<close>

definition new_request ::
  "string \<Rightarrow> user \<Rightarrow> category \<Rightarrow> string \<Rightarrow> status \<Rightarrow> string \<Rightarrow> string \<Rightarrow> request" where
  "new_request rid u cat it st vend dt =
     \<lparr>req_id = rid, user_key = username u, requester_name = name u, department = dept u,
      approver_email = hod_email u, category = cat, item = it, status = st, amount = 0,
      initial_cost = 0, vendor = vend, invoice_img = None, sac_note = '''', date = dt\<rparr>"

text \<open>The routing of a non-stationery entry, with the source's order of the two tests.\<close>

definition initial_status :: "cart_item \<Rightarrow> status" where
  "initial_status i =
     (let st = (if item_type i = Communication \<and> item_name i = ''CUG Issue'' then Pending_Admin
                else Pending_Dept_HOD)
      in if item_type i = Stationary then Pending_Admin else st)"

definition submit_stationary :: "env \<Rightarrow> user \<Rightarrow> cart_item list \<Rightarrow> db \<Rightarrow> db outcome" where
  "submit_stationary e u its d =
     and_then
       (of_sql (insert_request
          (new_request (uuid e 0) u Stationary (stationary_desc its) Pending_Admin ''Store'' (today e)) d) d)
       (\<lambda>d'. Normal (log_action (now e) (name u) ''Request'' (''Stationary #'' @ uuid e 0) d'))"

text \<open>The loop over the other entries; \<open>k\<close> counts the \<open>uuid4\<close> calls made so far.\<close>

fun submit_others ::
  "env \<Rightarrow> nat \<Rightarrow> user \<Rightarrow> cart_item list \<Rightarrow> db \<Rightarrow> db outcome" where
  "submit_others e k u [] d = Normal d"
| "submit_others e k u (i # is) d =
     and_then
       (of_sql (insert_request
          (new_request (uuid e k) u (item_type i) (item_name i) (initial_status i) ''Pending'' (today e)) d) d)
       (\<lambda>d'. submit_others e (Suc k) u is
          (log_action (now e) (name u) ''Request'' (category_text (item_type i) @ '' #'' @ uuid e k) d'))"

definition process_cart_submission ::
  "env \<Rightarrow> user \<Rightarrow> db \<Rightarrow> session \<Rightarrow> (db \<times> session) outcome" where
  "process_cart_submission e u d s =
     (if cart s = [] then Normal (d, s) else
      let stat = filter (\<lambda>i. item_type i = Stationary) (cart s);
          others = filter (\<lambda>i. item_type i \<noteq> Stationary) (cart s);
          first = (if stat \<noteq> [] then submit_stationary e u stat d
                   else Normal d);
          k = (if stat \<noteq> [] then 1 else 0)
      in case and_then first (submit_others e k u others) of
           Normal d' \<Rightarrow> Normal (d', s\<lparr>cart := []\<rparr>)
         | Raised err d' \<Rightarrow> Raised err (d', s))"

text \<open>
  The staff portal: the Add button (ignored when the widgets could not have produced the
  input, or when \<open>sel\<close> is empty) and the Submit button, which exists only while the
  cart is not empty.
\<close>

definition view_staff_portal :: "env \<Rightarrow> user \<Rightarrow> event \<Rightarrow> db \<Rightarrow> session \<Rightarrow> (db \<times> session) outcome" where
  "view_staff_portal e u ev d s =
     (case ev of
        AddItem cat sel q \<Rightarrow>
          Normal (d, if widget_input_ok cat sel q then add_item cat sel q s else s)
      | SubmitCart \<Rightarrow> if cart s \<noteq> [] then process_cart_submission e u d s else Normal (d, s)
      | _ \<Rightarrow> Normal (d, s))"

section \<open>Specification of a submission\<close>

text \<open>
  The rows a submission writes, in order: the merged stationery row first (drawing
  \<open>uuid 0\<close>), then one row per other entry, and the number of ids it draws;
  \<open>ids_fresh\<close> says that the drawn ids are distinct and unused.
\<close>

definition others_rows :: "env \<Rightarrow> nat \<Rightarrow> user \<Rightarrow> cart_item list \<Rightarrow> request list" where
  "others_rows e k u is =
     map (\<lambda>(j, i). new_request (uuid e j) u (item_type i) (item_name i) (initial_status i) ''Pending'' (today e))
       (enumerate k is)"

definition ids_fresh :: "env \<Rightarrow> nat \<Rightarrow> nat \<Rightarrow> db \<Rightarrow> bool" where
  "ids_fresh e k n d \<longleftrightarrow> distinct (map (uuid e) [k..<k + n]) \<and>
     list_all (\<lambda>j. uuid e j \<notin> req_id ` set (requests d)) [k..<k + n]"

definition stat_items :: "cart_item list \<Rightarrow> cart_item list" where
  "stat_items c = filter (\<lambda>i. item_type i = Stationary) c"

definition other_items :: "cart_item list \<Rightarrow> cart_item list" where
  "other_items c = filter (\<lambda>i. item_type i \<noteq> Stationary) c"

definition stat_row :: "env \<Rightarrow> user \<Rightarrow> cart_item list \<Rightarrow> request" where
  "stat_row e u its = new_request (uuid e 0) u Stationary (stationary_desc its) Pending_Admin ''Store'' (today e)"

definition cart_rows :: "env \<Rightarrow> user \<Rightarrow> cart_item list \<Rightarrow> request list" where
  "cart_rows e u c =
     (if stat_items c \<noteq> [] then stat_row e u (stat_items c) # others_rows e 1 u (other_items c)
      else others_rows e 0 u (other_items c))"

definition ids_needed :: "cart_item list \<Rightarrow> nat" where
  "ids_needed c = (if stat_items c \<noteq> [] then 1 else 0) + length (other_items c)"

definition cart_inserts :: "env \<Rightarrow> user \<Rightarrow> cart_item list \<Rightarrow> db \<Rightarrow> db outcome" where
  "cart_inserts e u c d =
     and_then (if stat_items c \<noteq> [] then submit_stationary e u (stat_items c) d else Normal d)
       (submit_others e (if stat_items c \<noteq> [] then 1 else 0) u (other_items c))"

section \<open>Lemmas on submission\<close>

lemma req_id_new_request [simp]: "req_id (new_request rid u c it st v dt) = rid"
  by (simp add: new_request_def)

lemma others_rows_Cons:
  "others_rows e k u (i # is) =
     new_request (uuid e k) u (item_type i) (item_name i) (initial_status i) ''Pending'' (today e)
     # others_rows e (Suc k) u is"
  by (simp add: others_rows_def)

lemma ids_fresh_ConsD:
  assumes "ids_fresh e k (Suc n) d" and "req_id r = uuid e k"
  shows "uuid e k \<notin> req_id ` set (requests d) \<and> ids_fresh e (Suc k) n (d\<lparr>requests := requests d @ [r]\<rparr>)"
proof -
  define L where "L = [Suc k..<Suc k + n]"
  have ups: "[k..<k + Suc n] = k # L"
    by (simp add: L_def upt_conv_Cons)
  from assms(1) have "distinct (map (uuid e) L)" and "uuid e k \<notin> uuid e ` set L" and
      "list_all (\<lambda>j. uuid e j \<notin> req_id ` set (requests d)) (k # L)"
    unfolding ids_fresh_def ups by auto
  with assms(2) have "uuid e k \<notin> req_id ` set (requests d) \<and> distinct (map (uuid e) L) \<and>
      list_all (\<lambda>j. uuid e j \<notin> req_id ` set (requests d @ [r])) L"
    by (auto simp: list_all_iff) (metis image_eqI)
  then show ?thesis
    unfolding ids_fresh_def L_def by simp
qed

lemma submit_others_effect: "insert_effect (others_rows e k u is) d (submit_others e k u is d)"
proof (induction "is" arbitrary: k d)
  case Nil
  then show ?case by (simp add: insert_effect_def others_rows_def)
next
  case (Cons i "is")
  then show ?case
    unfolding others_rows_Cons submit_others.simps by (rule insert_effect_step)
qed

lemma submit_stationary_effect: "insert_effect [stat_row e u its] d (submit_stationary e u its d)"
  unfolding submit_stationary_def stat_row_def
  by (rule insert_effect_step [where ts = "now e" and x = "name u" and a = "''Request''"
      and y = "''Stationary #'' @ uuid e 0"]) (simp add: insert_effect_def)

lemma req_id_stat_row [simp]: "req_id (stat_row e u its) = uuid e 0"
  by (simp add: stat_row_def)

lemma cart_rows_Nil [simp]: "cart_rows e u [] = []"
  by (simp add: cart_rows_def stat_items_def other_items_def others_rows_def)

lemma process_cart_submission_eq:
  "cart s \<noteq> [] \<Longrightarrow> process_cart_submission e u d s =
     (case cart_inserts e u (cart s) d of Normal d' \<Rightarrow> Normal (d', s\<lparr>cart := []\<rparr>)
                                      | Raised err d' \<Rightarrow> Raised err (d', s))"
  by (simp add: process_cart_submission_def cart_inserts_def stat_items_def other_items_def Let_def)

lemma cart_inserts_effect: "insert_effect (cart_rows e u c) d (cart_inserts e u c d)"
proof (cases "stat_items c = []")
  case True
  then show ?thesis
    using submit_others_effect [of e 0 u "other_items c" d] by (simp add: cart_rows_def cart_inserts_def)
next
  case False
  then show ?thesis
    using insert_effect_and_then [OF submit_stationary_effect submit_others_effect]
    by (simp add: cart_rows_def cart_inserts_def)
qed

lemma process_cart_submission_effect:
  "case process_cart_submission e u d s of
     Normal (d', s') \<Rightarrow> full_insert (cart_rows e u (cart s)) d d' \<and> s' = s\<lparr>cart := []\<rparr>
   | Raised err (d', s') \<Rightarrow> err = IntegrityError \<and> s' = s \<and> stopped_insert (cart_rows e u (cart s)) d d'"
proof (cases "cart s = []")
  case True
  then show ?thesis by (simp add: process_cart_submission_def)
next
  case False
  with cart_inserts_effect [of e u "cart s" d] show ?thesis
    by (simp add: process_cart_submission_eq insert_effect_def split: outcome.splits)
qed

lemma length_others_rows [simp]: "length (others_rows e k u is) = length is"
  by (simp add: others_rows_def)

lemma length_cart_rows [simp]: "length (cart_rows e u c) = ids_needed c"
  by (simp add: cart_rows_def ids_needed_def)

lemma submit_others_fresh:
  "ids_fresh e k (length is) d \<Longrightarrow> \<exists>d'. submit_others e k u is d = Normal d'"
proof (induction "is" arbitrary: k d)
  case Nil
  then show ?case by simp
next
  case (Cons i "is")
  let ?r = "new_request (uuid e k) u (item_type i) (item_name i) (initial_status i) ''Pending'' (today e)"
  from Cons.prems have "ids_fresh e k (Suc (length is)) d"
    by simp
  from ids_fresh_ConsD [OF this, of ?r]
  have fresh: "uuid e k \<notin> req_id ` set (requests d)"
    and rest: "ids_fresh e (Suc k) (length is) (d\<lparr>requests := requests d @ [?r]\<rparr>)"
    by simp_all
  have "ids_fresh e (Suc k) (length is) (log_action ts x a y (d\<lparr>requests := requests d @ [?r]\<rparr>))" for ts x a y
    using rest by (simp add: ids_fresh_def log_action_def)
  with Cons.IH fresh show ?case
    by (simp add: insert_request_fresh)
qed

text \<open>
  C5. Submitting a non-empty cart whose drawn ids are distinct and unused
  succeeds: the rerun ends normally, the cart is emptied, and the request table grows by
  exactly the rows of \<open>cart_rows\<close> (the merged stationery row, then one row per other
  entry), with users and payments untouched.
\<close>

theorem process_cart_submission_fresh:
  assumes "cart s \<noteq> []" and "ids_fresh e 0 (ids_needed (cart s)) d"
  shows "\<exists>d'. process_cart_submission e u d s = Normal (d', s\<lparr>cart := []\<rparr>) \<and>
           requests d' = requests d @ cart_rows e u (cart s) \<and> users d' = users d \<and>
           payments d' = payments d"
proof -
  have "\<exists>d'. cart_inserts e u (cart s) d = Normal d'"
  proof (cases "stat_items (cart s) = []")
    case True
    with assms(2) show ?thesis
      using submit_others_fresh by (simp add: ids_needed_def cart_inserts_def)
  next
    case False
    let ?r = "stat_row e u (stat_items (cart s))"
    from assms(2) False have "ids_fresh e 0 (Suc (length (other_items (cart s)))) d"
      by (simp add: ids_needed_def)
    from ids_fresh_ConsD [OF this, of ?r]
    have fresh: "uuid e 0 \<notin> req_id ` set (requests d)"
      and rest: "ids_fresh e 1 (length (other_items (cart s))) (d\<lparr>requests := requests d @ [?r]\<rparr>)"
      by simp_all
    have "ids_fresh e 1 (length (other_items (cart s))) (log_action ts x a y (d\<lparr>requests := requests d @ [?r]\<rparr>))"
      for ts x a y
      using rest by (simp add: ids_fresh_def log_action_def)
    with False fresh show ?thesis
      using submit_others_fresh
      by (simp add: cart_inserts_def submit_stationary_def stat_row_def [symmetric] insert_request_fresh)
  qed
  then obtain d' where "process_cart_submission e u d s = Normal (d', s\<lparr>cart := []\<rparr>)"
    using assms(1) by (auto simp: process_cart_submission_eq)
  with process_cart_submission_effect [where e = e and u = u and d = d and s = s] show ?thesis
    by (auto simp: full_insert_def)
qed

text \<open>
  C6. When a submission raises, the exception is \<open>IntegrityError\<close>, the session (and
  so the non-empty cart) is left as it was, and the submission stopped at some row
  \<open>k\<close> of \<open>cart_rows\<close> whose id was already taken: the \<open>k\<close> rows before it stay
  committed in the table, none after it is written, and users and payments are untouched.
\<close>

theorem process_cart_submission_raises:
  "process_cart_submission e u d s = Raised err (d', s') \<Longrightarrow>
   err = IntegrityError \<and> s' = s \<and> cart s' \<noteq> [] \<and>
   (\<exists>k < ids_needed (cart s). requests d' = requests d @ take k (cart_rows e u (cart s)) \<and>
      req_id (cart_rows e u (cart s) ! k) \<in> req_id ` set (requests d')) \<and>
   users d' = users d \<and> payments d' = payments d"
proof -
  assume eq: "process_cart_submission e u d s = Raised err (d', s')"
  with process_cart_submission_effect [where e = e and u = u and d = d and s = s]
  have "err = IntegrityError \<and> s' = s \<and> stopped_insert (cart_rows e u (cart s)) d d'" by simp
  moreover from eq have "cart s \<noteq> []" by (auto simp: process_cart_submission_def)
  ultimately show ?thesis by (simp add: stopped_insert_def)
qed

lemma others_rows_mem:
  "r \<in> set (others_rows e k u is) \<Longrightarrow>
   \<exists>j i. i \<in> set is \<and> r = new_request (uuid e j) u (item_type i) (item_name i) (initial_status i) ''Pending'' (today e)"
  unfolding others_rows_def enumerate_eq_zip by (auto dest: set_zip_rightD)

lemma initial_status_other:
  "item_type i \<noteq> Stationary \<Longrightarrow>
   initial_status i = (if item_type i = Communication \<and> item_name i = ''CUG Issue'' then Pending_Admin else Pending_Dept_HOD)"
  by (simp add: initial_status_def)

lemma cart_rows_route:
  assumes "r \<in> set (cart_rows e u c)"
  shows "user_key r = username u \<and> approver_email r = hod_email u \<and> amount r = 0 \<and>
    initial_cost r = 0 \<and> invoice_img r = None \<and> sac_note r = [] \<and>
    status r = (if category r = Stationary \<or> (category r = Communication \<and> item r = ''CUG Issue'')
                then Pending_Admin else Pending_Dept_HOD)"
proof -
  have "r = stat_row e u (stat_items c) \<or>
        (\<exists>j i. i \<in> set (other_items c) \<and>
           r = new_request (uuid e j) u (item_type i) (item_name i) (initial_status i) ''Pending'' (today e))"
    using assms by (auto simp: cart_rows_def split: if_splits dest!: others_rows_mem)
  then show ?thesis
    by (auto simp: new_request_def stat_row_def other_items_def initial_status_other)
qed

text \<open>
  C7. A submission that ends normally appends exactly \<open>ids_needed\<close> rows,
  each owned by the submitting user, addressed to that user's HOD email, and starting in
  "Pending Admin" when it is stationery or a Communication "CUG Issue", and in
  "Pending Dept HOD" otherwise.
\<close>

theorem submission_routes_rows:
  "process_cart_submission e u d s = Normal (d', s') \<Longrightarrow>
   \<exists>new. requests d' = requests d @ new \<and> length new = ids_needed (cart s) \<and>
     (\<forall>r \<in> set new. user_key r = username u \<and> approver_email r = hod_email u \<and>
        status r = (if category r = Stationary \<or> (category r = Communication \<and> item r = ''CUG Issue'')
                    then Pending_Admin else Pending_Dept_HOD))"
  using process_cart_submission_effect [where e = e and u = u and d = d and s = s]
  by (auto simp: full_insert_def dest: cart_rows_route)

end
