(* ===== verification/Dashboards.thy ===== *)
theory Dashboards
  imports Cart
begin

text \<open>
  The role dashboards of src/Facility.py (lines 202-376). Each dashboard runs its
  \<open>SELECT\<close> and renders one button (or form) per row; a click is seen by the rerun
  only if the rerun renders that button again, that is, only if the row is still among
  the rows of the dashboard's query at the time of the rerun. So every handler below
  first looks the clicked id up among its query's rows, and does nothing when it is not
  there. Each handler then runs the statements of its branch, in the source's order.
  The read-only report tabs (savings, spend, history) are modelled as the queries they run.
\<close>

section \<open>Queries\<close>

definition shown :: "string \<Rightarrow> request list \<Rightarrow> bool" where
  "shown rid rows = (rid \<in> set (map req_id rows))"

definition hod_tasks :: "string \<Rightarrow> db \<Rightarrow> request list" where
  "hod_tasks em d = filter (\<lambda>r. status r = Pending_Dept_HOD \<and> approver_email r = em) (requests d)"

definition admin_tasks :: "db \<Rightarrow> request list" where
  "admin_tasks d = filter (\<lambda>r. status r = Pending_Admin) (requests d)"

definition approver_tasks :: "status \<Rightarrow> db \<Rightarrow> request list" where
  "approver_tasks trig d = filter (\<lambda>r. status r = trig) (requests d)"

definition sac_tasks :: "db \<Rightarrow> request list" where
  "sac_tasks d = filter (\<lambda>r. status r = Pending_SAC) (requests d)"

text \<open>The accounts join: every payment still to pay with its request.\<close>

definition accounts_tasks :: "db \<Rightarrow> (payment \<times> request) list" where
  "accounts_tasks d =
     [(p, r). p \<leftarrow> payments d, r \<leftarrow> requests d, pay_req_id p = req_id r \<and> pay_status p = Ready_for_Accounts]"

section \<open>Handlers\<close>

definition view_hod_dashboard :: "user \<Rightarrow> event \<Rightarrow> db \<Rightarrow> db" where
  "view_hod_dashboard u ev d =
     (case ev of
        Approve rid \<Rightarrow> if shown rid (hod_tasks (email u) d) then set_status rid Pending_Admin d else d
      | Decline rid \<Rightarrow> if shown rid (hod_tasks (email u) d) then set_status rid Declined d else d
      | _ \<Rightarrow> d)"

text \<open>
  The admin's quote form: vendor, cost and invoice become the request's
  \<open>vendor\<close>, \<open>amount\<close>, \<open>initial_cost\<close> and \<open>invoice_img\<close> (the uploaded bytes).
\<close>

definition quote_update :: "string \<Rightarrow> real \<Rightarrow> string option \<Rightarrow> request \<Rightarrow> request" where
  "quote_update v c img q =
     q\<lparr>vendor := v, amount := c, initial_cost := c, invoice_img := img, status := Pending_SS_HOD\<rparr>"

definition view_admin_dashboard :: "event \<Rightarrow> db \<Rightarrow> db" where
  "view_admin_dashboard ev d =
     (case ev of
        Issue rid \<Rightarrow>
          (case tbl_lookup req_id rid (admin_tasks d) of
             Some r \<Rightarrow> if category r = Stationary then set_status rid Completed_Fulfilled d else d
           | None \<Rightarrow> d)
      | ResolveCUG rid \<Rightarrow>
          (case tbl_lookup req_id rid (admin_tasks d) of
             Some r \<Rightarrow> if category r \<noteq> Stationary \<and> item r = ''CUG Issue''
                       then set_status rid Completed_Resolved d else d
           | None \<Rightarrow> d)
      | Quote rid v c img \<Rightarrow>
          (case tbl_lookup req_id rid (admin_tasks d) of
             Some r \<Rightarrow> if category r \<noteq> Stationary \<and> v \<noteq> [] \<and> 0 < c \<and> img \<noteq> None
                       then set_request rid (quote_update v c img) d else d
           | None \<Rightarrow> d)
      | _ \<Rightarrow> d)"

text \<open>
  The SS HOD, ED, GMD, SAC and Accounts dashboards render the invoice of each row of their
  query with \<open>st.image(BytesIO(img))\<close> (lines 269, 299, 372) before that row's buttons.
  Bytes that are not an image make \<open>st.image\<close> raise, which ends the rerun: the buttons of
  that row and of every later row are never rendered, so a click on them is lost, and the
  rerun stops with \<open>UnidentifiedImageError\<close>. A click on an earlier row runs its statements
  and ends the rerun with \<open>st.rerun()\<close> before the bad row is reached. Empty bytes are
  skipped by \<open>if r['invoice_img']\<close>.
\<close>

definition renders :: "env \<Rightarrow> string option \<Rightarrow> bool" where
  "renders e img = (case img of None \<Rightarrow> True | Some b \<Rightarrow> b = [] \<or> image_ok e b)"

text \<open>The rows whose buttons a rerun renders: the rows before the first bad invoice.\<close>

definition rendered :: "env \<Rightarrow> ('r \<Rightarrow> string option) \<Rightarrow> 'r list \<Rightarrow> 'r list" where
  "rendered e img rows = takeWhile (\<lambda>r. renders e (img r)) rows"

text \<open>The end of a rendering loop in which no button was clicked.\<close>

definition loop_end :: "env \<Rightarrow> ('r \<Rightarrow> string option) \<Rightarrow> 'r list \<Rightarrow> db \<Rightarrow> db outcome" where
  "loop_end e img rows d =
     (if list_all (\<lambda>r. renders e (img r)) rows then Normal d else Raised UnidentifiedImageError d)"

text \<open>
  \<open>view_approver_dashboard(role, status_trigger, next_status, label)\<close>: the GMD's
  approval also inserts the payment row, after the status update has been committed.
\<close>

definition gmd_payment :: "env \<Rightarrow> request \<Rightarrow> payment" where
  "gmd_payment e r = \<lparr>payment_id = uuid e 0, pay_req_id = req_id r, pay_amount = amount r,
     pay_status = Ready_for_Accounts, pay_vendor = vendor r\<rparr>"

definition view_approver_dashboard ::
  "role \<Rightarrow> status \<Rightarrow> status \<Rightarrow> env \<Rightarrow> event \<Rightarrow> db \<Rightarrow> db outcome" where
  "view_approver_dashboard rl trig nxt e ev d =
     (let rows = approver_tasks trig d; vis = rendered e invoice_img rows in
      case ev of
        Approve rid \<Rightarrow>
          (case tbl_lookup req_id rid vis of
             Some r \<Rightarrow>
               if rl = GMD then
                 (let d1 = set_status (req_id r) Approved d
                  in of_sql (insert_payment (gmd_payment e r) d1) d1)
               else Normal (set_status (req_id r) nxt d)
           | None \<Rightarrow> loop_end e invoice_img rows d)
      | Decline rid \<Rightarrow>
          if shown rid vis then Normal (set_status rid Declined d) else loop_end e invoice_img rows d
      | _ \<Rightarrow> loop_end e invoice_img rows d)"

definition sac_update :: "real \<Rightarrow> string \<Rightarrow> request \<Rightarrow> request" where
  "sac_update c note q = q\<lparr>amount := c, sac_note := note, status := Pending_ED\<rparr>"

definition view_sac_dashboard :: "env \<Rightarrow> event \<Rightarrow> db \<Rightarrow> db outcome" where
  "view_sac_dashboard e ev d =
     (let rows = sac_tasks d; vis = rendered e invoice_img rows in
      case ev of
        Validate rid c note \<Rightarrow>
          if shown rid vis then Normal (set_request rid (sac_update c note) d)
          else loop_end e invoice_img rows d
      | _ \<Rightarrow> loop_end e invoice_img rows d)"

definition view_accounts :: "env \<Rightarrow> event \<Rightarrow> db \<Rightarrow> db outcome" where
  "view_accounts e ev d =
     (let rows = accounts_tasks d; vis = rendered e (invoice_img \<circ> snd) rows in
      case ev of
        MarkPaid pid \<Rightarrow>
          if pid \<in> set (map (payment_id \<circ> fst) vis)
          then Normal (set_payment pid (\<lambda>p. p\<lparr>pay_status := Paid\<rparr>) d)
          else loop_end e (invoice_img \<circ> snd) rows d
      | _ \<Rightarrow> loop_end e (invoice_img \<circ> snd) rows d)"

text \<open>
  The superuser's form: username lowered, temporary password hashed, \<open>force_reset = 1\<close>;
  the form needs a username and a password; a duplicate username raises
  \<open>IntegrityError\<close>, which the bare \<open>except\<close> catches ("Username exists").
\<close>

definition new_user_row ::
  "hash \<Rightarrow> string \<Rightarrow> string \<Rightarrow> string \<Rightarrow> string \<Rightarrow> role \<Rightarrow> string \<Rightarrow> string \<Rightarrow> user" where
  "new_user_row h u p n em r dp he =
     \<lparr>username = u, password = h p, role = r, name = n, email = em, dept = dp, hod_email = he,
      force_reset = 1\<rparr>"

definition view_superuser :: "hash \<Rightarrow> event \<Rightarrow> db \<Rightarrow> db" where
  "view_superuser h ev d =
     (case ev of
        CreateUser u_in p n em r dp he \<Rightarrow>
          (let u = py_lower u_in in
           if r \<in> set creatable_roles \<and> u \<noteq> [] \<and> p \<noteq> [] then
             (case insert_user (new_user_row h u p n em r dp he) d of Inl _ \<Rightarrow> d | Inr d' \<Rightarrow> d')
           else d)
      | _ \<Rightarrow> d)"

section \<open>Reports\<close>

definition staff_history :: "user \<Rightarrow> db \<Rightarrow> (string \<times> category \<times> string \<times> status) list" where
  "staff_history u d =
     map (\<lambda>r. (date r, category r, item r, status r)) (filter (\<lambda>r. user_key r = username u) (requests d))"

definition hod_spend :: "string \<Rightarrow> db \<Rightarrow> request list" where
  "hod_spend dp d = filter (\<lambda>r. department r = dp \<and> status r \<in> {Approved, Paid}) (requests d)"

definition savings_rows :: "db \<Rightarrow> request list" where
  "savings_rows d =
     filter (\<lambda>r. amount r < initial_cost r \<and>
                 status r \<in> {Approved, Paid, Ready_for_Accounts, Pending_ED, Pending_GMD}) (requests d)"

definition total_savings :: "db \<Rightarrow> real" where
  "total_savings d = sum_list (map (\<lambda>r. initial_cost r - amount r) (savings_rows d))"

section \<open>Lemmas on the handlers\<close>

lemma set_request_lookup:
  assumes "pk_ok req_id (requests d)" and "tbl_lookup req_id rid (filter Q (requests d)) = Some r"
    and "keeps_key req_id f"
  shows "tbl_lookup req_id rid (requests (set_request rid f d)) = Some (f r)"
  using assms tbl_lookup_filter_pk [OF assms(1,2)]
  by (simp add: set_request_def tbl_lookup_tbl_update)

lemma tbl_lookup_takeWhile:
  "tbl_lookup key k (takeWhile P rs) = Some r \<Longrightarrow> tbl_lookup key k rs = Some r"
  by (induction rs) (auto simp: tbl_lookup_def split: if_splits)

lemma tbl_lookup_rendered:
  "tbl_lookup key k (rendered e img rs) = Some r \<Longrightarrow> tbl_lookup key k rs = Some r"
  unfolding rendered_def by (rule tbl_lookup_takeWhile)

lemma set_rendered: "set (rendered e img rs) \<subseteq> set rs"
  by (auto simp: rendered_def dest: set_takeWhileD)

lemma shown_rendered: "shown rid (rendered e invoice_img rs) \<Longrightarrow> shown rid rs"
  using set_rendered by (fastforce simp: shown_def)

lemma rendered_all: "list_all (\<lambda>r. renders e (img r)) rs \<Longrightarrow> rendered e img rs = rs"
  by (simp add: rendered_def list_all_iff)

lemma loop_end_state [simp]: "outcome_state (loop_end e img rows d) = d"
  by (simp add: loop_end_def)

lemma loop_end_error: "outcome_error (loop_end e img rows d) = Some err \<Longrightarrow> err = UnidentifiedImageError"
  by (simp add: loop_end_def split: if_splits)

lemma loop_end_Cons_bad: "\<not> renders e (img q) \<Longrightarrow> loop_end e img (q # qs) d = Raised UnidentifiedImageError d"
  by (simp add: loop_end_def)

lemma rendered_Cons_bad: "\<not> renders e (img q) \<Longrightarrow> rendered e img (q # qs) = []"
  by (simp add: rendered_def)

section \<open>Properties of the handlers\<close>

text \<open>
  C11: a department head's buttons only act on the requests routed to that head
  and still waiting for the head: every other row of the table is left as it was.
\<close>

theorem hod_only_own_requests:
  assumes pk: "pk_ok req_id (requests d)" and r: "r \<in> set (requests d)"
    and other: "approver_email r \<noteq> email u \<or> status r \<noteq> Pending_Dept_HOD"
  shows "r \<in> set (requests (view_hod_dashboard u ev d))"
proof -
  have "r \<in> set (requests (set_status rid st d))" if "shown rid (hod_tasks (email u) d)" for rid st
  proof -
    from that obtain q where q: "q \<in> set (requests d)" "req_id q = rid"
      "status q = Pending_Dept_HOD" "approver_email q = email u"
      by (auto simp: shown_def hod_tasks_def)
    have "req_id r \<noteq> rid"
    proof
      assume "req_id r = rid"
      with q pk_unique [OF pk q(1) r] have "q = r" by simp
      with q other show False by simp
    qed
    with r show ?thesis
      by (simp add: set_status_def set_request_def tbl_update_other_mem)
  qed
  with r show ?thesis
    by (simp add: view_hod_dashboard_def split: event.splits)
qed

text \<open>
  C17: a valid quote on a request of the admin's queue (not stationery, vendor given,
  positive cost, invoice uploaded) writes vendor, cost and invoice into the row, sets the
  initial cost equal to the amount, and sends the request to the SS HOD.
\<close>

theorem admin_quote_sets_cost:
  assumes pk: "pk_ok req_id (requests d)" and r: "tbl_lookup req_id rid (admin_tasks d) = Some r"
    and ok: "category r \<noteq> Stationary" "v \<noteq> []" "0 < c" "img \<noteq> None"
  shows "tbl_lookup req_id rid (requests (view_admin_dashboard (Quote rid v c img) d)) =
    Some (r\<lparr>vendor := v, amount := c, initial_cost := c, invoice_img := img, status := Pending_SS_HOD\<rparr>)"
  using set_request_lookup [OF pk r [unfolded admin_tasks_def], of "quote_update v c img"] r ok
  by (simp add: view_admin_dashboard_def quote_update_def keeps_key_def)

text \<open>
  C18: a quote without a vendor, without an invoice or with a cost that is not
  positive is rejected ("Please fill all quote details") and changes nothing.
\<close>

theorem admin_quote_rejects:
  "\<not> (v \<noteq> [] \<and> 0 < c \<and> img \<noteq> None) \<Longrightarrow> view_admin_dashboard (Quote rid v c img) d = d"
  by (auto simp: view_admin_dashboard_def split: option.splits)

text \<open>
  C19: the SAC's validation of a request whose Validate button is rendered stores
  whatever cost the number input holds, with no bound at all: zero, negative, or above the
  admin's quote, and moves the request to the ED.
\<close>

theorem sac_validate_any_cost:
  assumes pk: "pk_ok req_id (requests d)"
    and r: "tbl_lookup req_id rid (rendered e invoice_img (sac_tasks d)) = Some r"
  shows "\<exists>d'. view_sac_dashboard e (Validate rid c nt) d = Normal d' \<and>
    tbl_lookup req_id rid (requests d') = Some (r\<lparr>amount := c, sac_note := nt, status := Pending_ED\<rparr>)"
proof -
  have "shown rid (rendered e invoice_img (sac_tasks d))"
    using tbl_lookup_Some_mem [OF r] by (auto simp: shown_def)
  with set_request_lookup [OF pk tbl_lookup_rendered [OF r, unfolded sac_tasks_def], of "sac_update c nt"]
  show ?thesis
    by (simp add: view_sac_dashboard_def sac_update_def keeps_key_def)
qed

text \<open>
  C16: the GMD's approval of a request whose Approve button is rendered, when the fresh
  payment id is unused, sets that request (and no other) to Approved and appends exactly
  one payment: the fresh id, the request's id, its current (negotiated) amount and its
  vendor, ready for accounts; users and audit trail are untouched.
\<close>

theorem gmd_approve_fresh:
  assumes pk: "pk_ok req_id (requests d)"
    and r: "tbl_lookup req_id rid (rendered e invoice_img (approver_tasks Pending_GMD d)) = Some r"
    and fresh: "uuid e 0 \<notin> payment_id ` set (payments d)"
  shows "\<exists>d'. view_approver_dashboard GMD Pending_GMD Approved e (Approve rid) d = Normal d' \<and>
    tbl_lookup req_id rid (requests d') = Some (r\<lparr>status := Approved\<rparr>) \<and>
    (\<forall>q \<in> set (requests d). req_id q \<noteq> rid \<longrightarrow> q \<in> set (requests d')) \<and>
    payments d' = payments d @ [\<lparr>payment_id = uuid e 0, pay_req_id = rid, pay_amount = amount r,
                                  pay_status = Ready_for_Accounts, pay_vendor = vendor r\<rparr>] \<and>
    users d' = users d \<and> audit d' = audit d"
proof -
  have r': "tbl_lookup req_id rid (filter (\<lambda>q. status q = Pending_GMD) (requests d)) = Some r"
    using tbl_lookup_rendered [OF r] by (simp add: approver_tasks_def)
  from tbl_lookup_Some_mem [OF r'] have rid: "req_id r = rid" by simp
  let ?d1 = "set_status rid Approved d"
  have eq: "view_approver_dashboard GMD Pending_GMD Approved e (Approve rid) d =
    Normal (?d1\<lparr>payments := payments d @ [gmd_payment e r]\<rparr>)"
    using r fresh rid
    by (simp add: view_approver_dashboard_def insert_payment_def tbl_insert_def set_status_def
        set_request_def gmd_payment_def Let_def)
  have "tbl_lookup req_id rid (requests ?d1) = Some (r\<lparr>status := Approved\<rparr>)"
    using set_request_lookup [OF pk r'] by (simp add: set_status_def keeps_key_def)
  moreover have "q \<in> set (requests ?d1)" if "q \<in> set (requests d)" "req_id q \<noteq> rid" for q
    using that by (simp add: set_status_def set_request_def tbl_update_other_mem)
  ultimately show ?thesis
    using eq rid by (simp add: gmd_payment_def set_status_def set_request_def)
qed

text \<open>
  C28: the superuser's form with an allowed role, a non-empty username and
  password and a username not yet taken appends exactly one user: the username in
  lowercase, the hashed temporary password, and the reset flag set.
\<close>

theorem create_user_appends:
  assumes "r \<in> set creatable_roles" "py_lower u \<noteq> []" "p \<noteq> []" "get_user d (py_lower u) = None"
  shows "users (view_superuser h (CreateUser u p n em r dp he) d) =
    users d @ [\<lparr>username = py_lower u, password = h p, role = r, name = n, email = em, dept = dp,
               hod_email = he, force_reset = 1\<rparr>]"
  using assms by (simp add: view_superuser_def insert_user_def tbl_insert_def get_user_def
      tbl_lookup_None new_user_row_def)

text \<open>
  C29: creating a user whose lowercase name is taken raises \<open>IntegrityError\<close>
  inside the form's \<open>try\<close> and leaves the database unchanged.
\<close>

theorem create_user_duplicate:
  "get_user d (py_lower u) \<noteq> None \<Longrightarrow> view_superuser h (CreateUser u p n em r dp he) d = d"
  by (auto simp: view_superuser_def insert_user_def tbl_insert_def get_user_def tbl_lookup_None
      new_user_row_def image_iff)

text \<open>
  C30: the superuser dashboard never creates another superuser: every user it
  adds has a role of the form's list and must change the temporary password.
\<close>

theorem superuser_creates_no_superuser:
  "usr \<in> set (users (view_superuser h ev d)) \<Longrightarrow> usr \<notin> set (users d) \<Longrightarrow>
   role usr \<noteq> Superuser \<and> force_reset usr = 1"
  by (auto simp: view_superuser_def insert_user_def tbl_insert_def new_user_row_def creatable_roles_def
      Let_def split: event.splits if_splits)

text \<open>
  C31: Mark Paid on a payment whose button is rendered ends normally, leaves the
  requests alone, and no payment with that id is left in the accounts queue.
\<close>

theorem mark_paid_clears_queue:
  assumes "pid \<in> set (map (payment_id \<circ> fst) (rendered e (invoice_img \<circ> snd) (accounts_tasks d)))"
  shows "\<exists>d'. view_accounts e (MarkPaid pid) d = Normal d' \<and>
    pid \<notin> set (map (payment_id \<circ> fst) (accounts_tasks d')) \<and> requests d' = requests d"
  using assms
  by (auto simp: view_accounts_def accounts_tasks_def set_payment_def set_tbl_update)

text \<open>
  C20: a row whose invoice is not an image blocks its dashboard: when it is the
  first row of an approver's queue, every rerun of that dashboard, whatever the event,
  raises \<open>UnidentifiedImageError\<close> and changes nothing, so no request of that queue can
  be approved or declined until the bytes change.
\<close>

theorem image_blocks_approver_queue:
  assumes "approver_tasks trig d = q # qs" and "\<not> renders e (invoice_img q)"
  shows "view_approver_dashboard rl trig nxt e ev d = Raised UnidentifiedImageError d"
  using assms
  by (simp add: view_approver_dashboard_def rendered_Cons_bad loop_end_Cons_bad shown_def
      tbl_lookup_def Let_def split: event.splits)

text \<open>C32: the SAC's total savings are never negative.\<close>

theorem total_savings_nonneg: "0 \<le> total_savings d"
  unfolding total_savings_def savings_rows_def by (rule sum_list_nonneg) auto

end
