(* ===== verification/Workflow.thy ===== *)
theory Workflow
  imports Model
begin

text \<open>
  The abstract specification of the approval workflow that the dashboards of
  src/Facility.py implement between them: which status a request may move to from which,
  and how the table of (request id, status) pairs may change in one rerun. The spec
  describes the chain as "department head, admin, SS HOD, SAC cost-review, ED, GMD,
  accounts"; the rules below are the transitions the handlers make, one rule per button.
  App.thy proves that every rerun of the program is a step of \<open>abs_step\<close>.
\<close>

section \<open>Transitions of one request\<close>

inductive route :: "status \<Rightarrow> status \<Rightarrow> bool" where
  hod_approve: "route Pending_Dept_HOD Pending_Admin"
| hod_decline: "route Pending_Dept_HOD Declined"
| admin_issue: "route Pending_Admin Completed_Fulfilled"
| admin_resolve: "route Pending_Admin Completed_Resolved"
| admin_quote: "route Pending_Admin Pending_SS_HOD"
| ss_hod_approve: "route Pending_SS_HOD Pending_SAC"
| ss_hod_decline: "route Pending_SS_HOD Declined"
| sac_validate: "route Pending_SAC Pending_ED"
| ed_approve: "route Pending_ED Pending_GMD"
| ed_decline: "route Pending_ED Declined"
| gmd_approve: "route Pending_GMD Approved"
| gmd_decline: "route Pending_GMD Declined"

code_pred route .

text \<open>The statuses a submission creates requests with.\<close>

definition entry_status :: "status \<Rightarrow> bool" where
  "entry_status s \<longleftrightarrow> s = Pending_Dept_HOD \<or> s = Pending_Admin"

definition terminal :: "status \<Rightarrow> bool" where
  "terminal s \<longleftrightarrow> s \<in> {Approved, Declined, Completed_Fulfilled, Completed_Resolved, Ready_for_Accounts, Paid}"

section \<open>Abstract step of the status table\<close>

text \<open>
  One rerun may change the status of existing requests only along \<open>route\<close>, keeps their
  ids and order, and appends new requests only in an entry status.
\<close>

definition abs_step :: "(string \<times> status) list \<Rightarrow> (string \<times> status) list \<Rightarrow> bool" where
  "abs_step xs ys \<longleftrightarrow>
     length xs \<le> length ys \<and>
     list_all2 (\<lambda>(k, s) (k', s'). k' = k \<and> (s' = s \<or> route s s')) xs (take (length xs) ys) \<and>
     list_all (\<lambda>(k, s). entry_status s) (drop (length xs) ys)"

section \<open>Lemmas on the workflow\<close>

inductive_cases route_from_DeptE: "route Pending_Dept_HOD t"
inductive_cases route_from_AdminE: "route Pending_Admin t"
inductive_cases route_to_ApprovedE: "route s Approved"

lemma route_iff:
  "route s t \<longleftrightarrow>
     (s = Pending_Dept_HOD \<and> (t = Pending_Admin \<or> t = Declined)) \<or>
     (s = Pending_Admin \<and> (t = Completed_Fulfilled \<or> t = Completed_Resolved \<or> t = Pending_SS_HOD)) \<or>
     (s = Pending_SS_HOD \<and> (t = Pending_SAC \<or> t = Declined)) \<or>
     (s = Pending_SAC \<and> t = Pending_ED) \<or>
     (s = Pending_ED \<and> (t = Pending_GMD \<or> t = Declined)) \<or>
     (s = Pending_GMD \<and> (t = Approved \<or> t = Declined))"
  by (auto elim: route.cases intro: route.intros)

lemma terminal_no_route: "terminal s \<Longrightarrow> \<not> route s t"
  by (auto simp: terminal_def route_iff)

lemma abs_step_refl [simp]: "abs_step xs xs"
  by (simp add: abs_step_def list_all2_refl split_def)

lemma abs_step_mem:
  assumes st: "abs_step xs ys" and k: "(k, s) \<in> set xs"
  shows "\<exists>s'. (k, s') \<in> set ys \<and> (s' = s \<or> route s s')"
proof -
  from k obtain i where i: "i < length xs" "xs ! i = (k, s)"
    by (auto simp: in_set_conv_nth)
  from st have len: "length xs \<le> length ys"
    and rel: "list_all2 (\<lambda>(k, s) (k', s'). k' = k \<and> (s' = s \<or> route s s')) xs (take (length xs) ys)"
    by (simp_all add: abs_step_def)
  from list_all2_nthD [OF rel i(1)] i len have "fst (ys ! i) = k \<and> (snd (ys ! i) = s \<or> route s (snd (ys ! i)))"
    by (auto split: prod.splits)
  moreover from i len have "ys ! i \<in> set ys" by simp
  ultimately show ?thesis
    by (metis prod.collapse)
qed

end
