(* ===== verification/App.thy ===== *)
theory App
  imports Dashboards Workflow "HOL-Library.AList"
begin

text \<open>
  The whole program: \<open>main()\<close> (lines 381-409) dispatching on the session's login
  state, the fresh \<open>force_reset\<close> flag and the role of the logged-in user, and one
  Streamlit rerun of the script, which first runs the module-level \<open>conn = init_db()\<close>
  and then \<open>main()\<close>. The application state is the database, shared by every browser
  session, and the \<open>st.session_state\<close> of each session, kept by session id (a session
  not yet seen has the state of lines 108-112). A rerun that raises leaves the committed
  statements in the database and the session state as far as it was written.
\<close>

section \<open>The router\<close>

definition dashboard :: "hash \<Rightarrow> env \<Rightarrow> user \<Rightarrow> event \<Rightarrow> db \<Rightarrow> session \<Rightarrow> (db \<times> session) outcome" where
  "dashboard h e u ev d s =
     (case role u of
        Staff \<Rightarrow> view_staff_portal e u ev d s
      | Dept_HOD \<Rightarrow> Normal (view_hod_dashboard u ev d, s)
      | Admin \<Rightarrow> Normal (view_admin_dashboard ev d, s)
      | SS_HOD \<Rightarrow> map_outcome (\<lambda>d'. (d', s)) (view_approver_dashboard SS_HOD Pending_SS_HOD Pending_SAC e ev d)
      | SAC \<Rightarrow> map_outcome (\<lambda>d'. (d', s)) (view_sac_dashboard e ev d)
      | ED \<Rightarrow> map_outcome (\<lambda>d'. (d', s)) (view_approver_dashboard ED Pending_ED Pending_GMD e ev d)
      | GMD \<Rightarrow> map_outcome (\<lambda>d'. (d', s)) (view_approver_dashboard GMD Pending_GMD Approved e ev d)
      | Accounts \<Rightarrow> map_outcome (\<lambda>d'. (d', s)) (view_accounts e ev d)
      | Superuser \<Rightarrow> Normal (view_superuser h ev d, s))"

text \<open>
  \<open>get_user\<close> returning \<open>None\<close> makes \<open>current_u_data['force_reset']\<close> raise
  \<open>TypeError\<close>; an empty \<open>user_data\<close> makes \<open>user['name']\<close> raise \<open>KeyError\<close>.
\<close>

definition main :: "hash \<Rightarrow> env \<Rightarrow> event \<Rightarrow> db \<Rightarrow> session \<Rightarrow> (db \<times> session) outcome" where
  "main h e ev d s =
     (if \<not> logged_in s then
        (case ev of Login u p \<Rightarrow> Normal (login_function h (now e) u p d s) | _ \<Rightarrow> Normal (d, s))
      else
        (case get_user d (current_user_key s) of
           None \<Rightarrow> Raised TypeError (d, s)
         | Some cu \<Rightarrow>
             if force_reset cu = 1 then
               (case ev of
                  ChangePassword p1 p2 \<Rightarrow> Normal (change_password_flow h p1 p2 d s)
                | _ \<Rightarrow> Normal (d, s))
             else
               (case user_data s of
                  None \<Rightarrow> Raised KeyError (d, s)
                | Some u \<Rightarrow>
                    (case ev of
                       Logout \<Rightarrow> Normal (d, logout s)
                     | _ \<Rightarrow> dashboard h e u ev d s))))"

section \<open>Reruns and runs\<close>

record app =
  store :: db
  sessions :: "(nat \<times> session) list"

definition session_of :: "app \<Rightarrow> nat \<Rightarrow> session" where
  "session_of a sid = (case map_of (sessions a) sid of None \<Rightarrow> init_session | Some s \<Rightarrow> s)"

definition init_app :: "hash \<Rightarrow> app" where
  "init_app h = \<lparr>store = init_db h empty_db, sessions = []\<rparr>"

definition rerun :: "hash \<Rightarrow> env \<Rightarrow> nat \<Rightarrow> event \<Rightarrow> app \<Rightarrow> app outcome" where
  "rerun h e sid ev a =
     map_outcome (\<lambda>(d', s'). \<lparr>store = d', sessions = AList.update sid s' (sessions a)\<rparr>)
       (main h e ev (init_db h (store a)) (session_of a sid))"

definition next_app :: "hash \<Rightarrow> env \<Rightarrow> nat \<Rightarrow> event \<Rightarrow> app \<Rightarrow> app" where
  "next_app h e sid ev a = outcome_state (rerun h e sid ev a)"

fun run :: "hash \<Rightarrow> (env \<times> nat \<times> event) list \<Rightarrow> app \<Rightarrow> app" where
  "run h [] a = a"
| "run h ((e, sid, ev) # evs) a = run h evs (next_app h e sid ev a)"

inductive reachable :: "hash \<Rightarrow> app \<Rightarrow> bool" for h :: hash where
  init: "reachable h (init_app h)"
| step: "reachable h a \<Longrightarrow> reachable h (next_app h e sid ev a)"

section \<open>Abstraction to the workflow\<close>

definition status_table :: "db \<Rightarrow> (string \<times> status) list" where
  "status_table d = map (\<lambda>r. (req_id r, status r)) (requests d)"

section \<open>Lemmas on runs\<close>

lemma reachable_run: "reachable h a \<Longrightarrow> reachable h (run h evs a)"
  by (induction h evs a rule: run.induct) (simp_all add: reachable.step)

lemma run_append: "run h (xs @ ys) a = run h ys (run h xs a)"
  by (induction h xs a rule: run.induct) simp_all

section \<open>Properties of the router and of reruns\<close>

text \<open>
  C15: while the user's row has \<open>force_reset = 1\<close>, the password form is the
  only thing the program shows: every event other than a password change leaves the
  database and the session as they were.
\<close>

theorem force_reset_gate:
  assumes "logged_in s" and "get_user d (current_user_key s) = Some cu" and "force_reset cu = 1"
    and "\<forall>p1 p2. ev \<noteq> ChangePassword p1 p2"
  shows "main h e ev d s = Normal (d, s)"
  using assms by (auto simp: main_def split: event.splits)

text \<open>
  C25: Logout only clears the \<open>logged_in\<close> flag: the cart of the session
  survives it and the next login in the same browser session, whoever logs in, so the next
  user of the session finds (and can submit) the previous user's cart.
\<close>

theorem cart_survives_logout_login:
  assumes "logged_in s" and "get_user d (current_user_key s) = Some cu" and "force_reset cu \<noteq> 1"
    and "user_data s = Some u"
  shows "main h e Logout d s = Normal (d, s\<lparr>logged_in := False\<rparr>) \<and>
         cart (snd (login_function h ts u' p' d (s\<lparr>logged_in := False\<rparr>))) = cart s"
  using assms by (simp add: main_def logout_def login_function_def Let_def split: option.splits)

end
