(* ===== verification/Invariants.thy ===== *)
theory Invariants
  imports App
begin

text \<open>
  The invariant of the application state that every rerun keeps, and the facts about
  single handlers it rests on. The invariant has three parts:
  \<^item> \<open>db_inv\<close>: the schema constraints (\<open>db_wf\<close>), the default superuser present, every
    request row consistent with its status (\<open>req_ok\<close>), and every payment row pointing
    at an approved request with the request's amount and vendor, at most one payment per
    request (\<open>pay_ok\<close>);
  \<^item> \<open>sess_ok\<close>: a logged-in session holds the snapshot of an existing user, with the
    same username, role, name, email, department and HOD email as the database row;
  \<^item> \<open>users_kept\<close>: between two states, user rows are only appended or changed in their
    password and reset flag.
\<close>

section \<open>Invariant\<close>

definition quoted :: "status \<Rightarrow> bool" where
  "quoted s \<longleftrightarrow> s \<in> {Pending_SS_HOD, Pending_SAC, Pending_ED, Pending_GMD, Approved}"

definition req_ok :: "request \<Rightarrow> bool" where
  "req_ok r \<longleftrightarrow>
     status r \<notin> {Ready_for_Accounts, Paid} \<and>
     (category r = Stationary \<longrightarrow> status r \<in> {Pending_Admin, Completed_Fulfilled}) \<and>
     (entry_status (status r) \<longrightarrow> amount r = 0 \<and> initial_cost r = 0 \<and> invoice_img r = None \<and> sac_note r = []) \<and>
     (quoted (status r) \<longrightarrow> vendor r \<noteq> [] \<and> 0 < initial_cost r \<and> invoice_img r \<noteq> None) \<and>
     (status r \<in> {Pending_SS_HOD, Pending_SAC} \<longrightarrow> amount r = initial_cost r)"

definition pays_for :: "payment \<Rightarrow> request \<Rightarrow> bool" where
  "pays_for p r \<longleftrightarrow> req_id r = pay_req_id p \<and> status r = Approved \<and> amount r = pay_amount p \<and>
     vendor r = pay_vendor p"

definition pay_ok :: "db \<Rightarrow> payment \<Rightarrow> bool" where
  "pay_ok d p \<longleftrightarrow> pay_status p \<in> {Ready_for_Accounts, Paid} \<and> list_ex (pays_for p) (requests d)"

definition db_inv :: "db \<Rightarrow> bool" where
  "db_inv d \<longleftrightarrow> db_wf d \<and> get_user d ''super'' \<noteq> None \<and> list_all req_ok (requests d) \<and>
     list_all (pay_ok d) (payments d) \<and> distinct (map pay_req_id (payments d))"

definition ident :: "user \<Rightarrow> string \<times> role \<times> string \<times> string \<times> string \<times> string" where
  "ident u = (username u, role u, name u, email u, dept u, hod_email u)"

definition sess_ok :: "db \<Rightarrow> session \<Rightarrow> bool" where
  "sess_ok d s \<longleftrightarrow> (logged_in s \<longrightarrow>
     (case user_data s of
        None \<Rightarrow> False
      | Some u \<Rightarrow> username u = current_user_key s \<and>
          (case get_user d (current_user_key s) of None \<Rightarrow> False | Some u' \<Rightarrow> ident u' = ident u)))"

definition users_kept :: "db \<Rightarrow> db \<Rightarrow> bool" where
  "users_kept d d' \<longleftrightarrow> prefix (map ident (users d)) (map ident (users d'))"

definition app_inv :: "app \<Rightarrow> bool" where
  "app_inv a \<longleftrightarrow> db_inv (store a) \<and> list_all (\<lambda>(sid, s). sess_ok (store a) s) (sessions a)"

text \<open>The three instances of \<open>view_approver_dashboard\<close> that \<open>main()\<close> calls.\<close>

definition approver_instance :: "role \<Rightarrow> status \<Rightarrow> status \<Rightarrow> bool" where
  "approver_instance rl trig nxt \<longleftrightarrow>
     (rl, trig, nxt) \<in> {(SS_HOD, Pending_SS_HOD, Pending_SAC), (ED, Pending_ED, Pending_GMD), (GMD, Pending_GMD, Approved)}"

section \<open>Lemmas on the invariant\<close>

lemma users_kept_refl [simp]: "users_kept d d"
  by (simp add: users_kept_def)

lemma users_kept_trans: "users_kept d1 d2 \<Longrightarrow> users_kept d2 d3 \<Longrightarrow> users_kept d1 d3"
  unfolding users_kept_def by (rule prefix_order.trans)

lemma users_kept_same: "users d' = users d \<Longrightarrow> users_kept d d'"
  by (simp add: users_kept_def)

lemma users_kept_insert_user: "insert_user u d = Inr d' \<Longrightarrow> users_kept d d'"
  by (auto simp: users_kept_def insert_user_Inr)

lemma users_kept_set_user:
  assumes "\<And>u. ident (f u) = ident u"
  shows "users_kept d (set_user k f d)"
proof -
  have "map ident (tbl_update username k f us) = map ident us" for us
    by (induction us) (simp_all add: tbl_update_def assms)
  then show ?thesis
    by (simp add: users_kept_def set_user_def)
qed

lemma get_user_kept:
  assumes "get_user d k = Some u" and "users_kept d d'" and "pk_ok username (users d')"
  shows "\<exists>u'. get_user d' k = Some u' \<and> ident u' = ident u"
proof -
  from assms(1) have u: "u \<in> set (users d)" "username u = k"
    by (simp_all add: get_user_Some)
  then obtain i where i: "i < length (users d)" "users d ! i = u"
    by (auto simp: in_set_conv_nth)
  from assms(2) obtain zs where zs: "map ident (users d') = map ident (users d) @ zs"
    by (auto simp: users_kept_def prefix_def)
  then have len: "i < length (users d')"
    using i(1) by (metis length_append length_map trans_less_add1)
  have "ident (users d' ! i) = ident u"
    using zs i len by (metis nth_append nth_map length_map)
  moreover have "users d' ! i \<in> set (users d')"
    using len by simp
  moreover from calculation have "username (users d' ! i) = k"
    using u(2) by (simp add: ident_def)
  ultimately show ?thesis
    using assms(3) tbl_lookup_pk [of username "users d'" "users d' ! i"]
    by (auto simp: get_user_def)
qed

lemma sess_ok_kept:
  "sess_ok d s \<Longrightarrow> users_kept d d' \<Longrightarrow> pk_ok username (users d') \<Longrightarrow> sess_ok d' s"
  by (auto simp: sess_ok_def split: option.splits dest: get_user_kept)

lemma super_kept:
  "get_user d ''super'' \<noteq> None \<Longrightarrow> users_kept d d' \<Longrightarrow> pk_ok username (users d') \<Longrightarrow>
   get_user d' ''super'' \<noteq> None"
  using get_user_kept by fastforce

lemma shown_row:
  "shown rid (filter Q rs) \<Longrightarrow> \<exists>r \<in> set rs. req_id r = rid \<and> Q r"
  by (auto simp: shown_def)

lemma pay_ok_update:
  assumes pk: "pk_ok req_id (requests d)" and r: "r \<in> set (requests d)" "status r \<noteq> Approved"
    and ok: "pay_ok d p"
  shows "pay_ok (d\<lparr>requests := tbl_update req_id (req_id r) f (requests d)\<rparr>) p"
proof -
  from ok obtain q where q: "q \<in> set (requests d)" "pays_for p q"
    by (auto simp: pay_ok_def list_ex_iff)
  then have "req_id q \<noteq> req_id r"
    using pk_unique [OF pk q(1) r(1)] r(2) by (auto simp: pays_for_def)
  with q have "q \<in> set (tbl_update req_id (req_id r) f (requests d))"
    by (force simp: set_tbl_update)
  with q(2) ok show ?thesis
    by (auto simp: pay_ok_def list_ex_iff)
qed

lemma db_inv_set_request:
  assumes inv: "db_inv d" and r: "r \<in> set (requests d)" "status r \<noteq> Approved"
    and key: "keeps_key req_id f" and ok: "req_ok (f r)"
  shows "db_inv (set_request (req_id r) f d)"
proof -
  have pk: "pk_ok req_id (requests d)"
    using inv by (simp add: db_inv_def db_wf_def)
  have rows: "list_all req_ok (tbl_update req_id (req_id r) f (requests d))"
  proof (rule list_all_tbl_update)
    show "list_all req_ok (requests d)"
      using inv by (simp add: db_inv_def)
    fix q assume "q \<in> set (requests d)" "req_id q = req_id r"
    then show "req_ok (f q)"
      using pk_unique [OF pk _ r(1)] ok by auto
  qed
  have pays: "list_all (pay_ok (set_request (req_id r) f d)) (payments d)"
    using inv pay_ok_update [OF pk r] by (auto simp: db_inv_def list_all_iff set_request_def)
  show ?thesis
    using inv key rows pays db_wf_set_request [of d f "req_id r"]
    by (simp add: db_inv_def set_request_def get_user_def)
qed

lemma db_inv_set_status:
  "db_inv d \<Longrightarrow> r \<in> set (requests d) \<Longrightarrow> status r \<noteq> Approved \<Longrightarrow> req_ok (r\<lparr>status := st\<rparr>) \<Longrightarrow>
   db_inv (set_status (req_id r) st d)"
  unfolding set_status_def by (rule db_inv_set_request) (simp_all add: keeps_key_def)


lemma db_inv_pk: "db_inv d \<Longrightarrow> pk_ok req_id (requests d)"
  by (simp add: db_inv_def db_wf_def)

lemma task_row:
  "db_inv d \<Longrightarrow> shown rid (filter Q (requests d)) \<Longrightarrow>
   \<exists>r \<in> set (requests d). req_id r = rid \<and> Q r \<and> req_ok r"
  by (auto simp: shown_def db_inv_def list_all_iff)

lemma lookup_row:
  assumes "db_inv d" and "tbl_lookup req_id rid (filter Q (requests d)) = Some r"
  shows "r \<in> set (requests d) \<and> req_id r = rid \<and> Q r \<and> req_ok r"
proof -
  from tbl_lookup_Some_mem [OF assms(2)] have "r \<in> set (requests d)" "Q r" "req_id r = rid"
    by simp_all
  with assms(1) show ?thesis
    by (simp add: db_inv_def list_all_iff)
qed

lemmas req_ok_defs = req_ok_def entry_status_def quoted_def

lemma view_hod_dashboard_inv:
  assumes inv: "db_inv d"
  shows "db_inv (view_hod_dashboard u ev d)"
proof -
  have step: "db_inv (set_status rid st d)"
    if "shown rid (hod_tasks (email u) d)" and "st = Pending_Admin \<or> st = Declined" for rid st
  proof -
    from task_row [OF inv] that(1) obtain r where r: "r \<in> set (requests d)" "req_id r = rid"
        "status r = Pending_Dept_HOD" "req_ok r"
      unfolding hod_tasks_def by blast
    then have "req_ok (r\<lparr>status := st\<rparr>)"
      using that(2) by (auto simp: req_ok_defs)
    with db_inv_set_status [OF inv r(1)] r(2,3) show ?thesis by simp
  qed
  show ?thesis
    using step inv by (simp add: view_hod_dashboard_def split: event.splits)
qed

lemma view_admin_dashboard_inv:
  assumes inv: "db_inv d"
  shows "db_inv (view_admin_dashboard ev d)"
proof -
  have row: "r \<in> set (requests d) \<and> req_id r = rid \<and> status r = Pending_Admin \<and> req_ok r"
    if "tbl_lookup req_id rid (admin_tasks d) = Some r" for rid r
    using lookup_row [OF inv] that unfolding admin_tasks_def by blast
  have issue: "db_inv (set_status rid Completed_Fulfilled d)"
    if "tbl_lookup req_id rid (admin_tasks d) = Some r" "category r = Stationary" for rid r
    using row [OF that(1)] that(2) db_inv_set_status [OF inv, of r Completed_Fulfilled]
    by (auto simp: req_ok_defs)
  have resolve: "db_inv (set_status rid Completed_Resolved d)"
    if "tbl_lookup req_id rid (admin_tasks d) = Some r" "category r \<noteq> Stationary" for rid r
    using row [OF that(1)] that(2) db_inv_set_status [OF inv, of r Completed_Resolved]
    by (auto simp: req_ok_defs)
  have quote: "db_inv (set_request rid (quote_update v c img) d)"
    if "tbl_lookup req_id rid (admin_tasks d) = Some r" "category r \<noteq> Stationary"
       "v \<noteq> []" "0 < c" "img \<noteq> None" for rid r v c img
    using row [OF that(1)] that(2-5)
      db_inv_set_request [OF inv, of r "quote_update v c img"]
    by (auto simp: req_ok_defs quote_update_def keeps_key_def)
  show ?thesis
  proof (cases ev)
    case (Issue rid)
    with inv issue show ?thesis
      by (auto simp: view_admin_dashboard_def split: option.splits)
  next
    case (ResolveCUG rid)
    with inv resolve show ?thesis
      by (auto simp: view_admin_dashboard_def split: option.splits)
  next
    case (Quote rid v c img)
    with inv quote show ?thesis
      by (auto simp: view_admin_dashboard_def split: option.splits)
  qed (simp_all add: view_admin_dashboard_def inv)
qed


lemma pay_ok_same_requests: "requests d' = requests d \<Longrightarrow> pay_ok d' = pay_ok d"
  by (simp add: pay_ok_def fun_eq_iff)

lemma unpaid_request:
  assumes inv: "db_inv d" and r: "r \<in> set (requests d)" "status r \<noteq> Approved"
  shows "req_id r \<notin> set (map pay_req_id (payments d))"
proof
  assume "req_id r \<in> set (map pay_req_id (payments d))"
  then obtain p where p: "p \<in> set (payments d)" "pay_req_id p = req_id r"
    by auto
  with inv obtain q where q: "q \<in> set (requests d)" "pays_for p q"
    by (auto simp: db_inv_def list_all_iff pay_ok_def list_ex_iff)
  with p have "q = r"
    using pk_unique [OF db_inv_pk [OF inv] q(1) r(1)] by (simp add: pays_for_def)
  with q r show False
    by (simp add: pays_for_def)
qed

lemma set_status_row_mem:
  "r \<in> set (requests d) \<Longrightarrow> r\<lparr>status := st\<rparr> \<in> set (requests (set_status (req_id r) st d))"
  by (force simp: set_status_def set_request_def set_tbl_update)

lemma gmd_approve_inv:
  assumes inv: "db_inv d" and r: "r \<in> set (requests d)" "status r = Pending_GMD" "req_ok r"
  shows "db_inv (outcome_state (of_sql (insert_payment (gmd_payment e r) (set_status (req_id r) Approved d))
           (set_status (req_id r) Approved d)))"
proof -
  let ?d1 = "set_status (req_id r) Approved d"
  let ?p = "gmd_payment e r"
  have inv1: "db_inv ?d1"
    using r by (intro db_inv_set_status [OF inv r(1)]) (auto simp: req_ok_defs)
  show ?thesis
  proof (cases "insert_payment ?p ?d1")
    case (Inl err)
    with inv1 show ?thesis by simp
  next
    case (Inr d2)
    then have d2: "d2 = ?d1\<lparr>payments := payments ?d1 @ [?p]\<rparr>"
      by (simp add: insert_payment_Inr)
    have "req_id r \<notin> set (map pay_req_id (payments ?d1))"
      using unpaid_request [OF inv r(1)] r(2) by (simp add: set_status_def set_request_def)
    moreover have "pay_ok ?d1 ?p"
    proof -
      have "pays_for ?p (r\<lparr>status := Approved\<rparr>)"
        by (simp add: pays_for_def gmd_payment_def)
      with set_status_row_mem [OF r(1), of Approved] show ?thesis
        unfolding pay_ok_def list_ex_iff by (auto simp: gmd_payment_def)
    qed
    moreover have "db_wf d2"
      using db_wf_insert_payment [OF _ Inr] inv1 by (simp add: db_inv_def)
    ultimately show ?thesis
      using inv1 Inr d2 pay_ok_same_requests [of d2 ?d1]
      by (simp add: db_inv_def get_user_def gmd_payment_def)
  qed
qed


text \<open>The three instances of the approver dashboard that \<open>main\<close> uses.\<close>

lemma approver_instance_cases:
  "approver_instance rl trig nxt \<Longrightarrow>
   (rl = SS_HOD \<and> trig = Pending_SS_HOD \<and> nxt = Pending_SAC) \<or>
   (rl = ED \<and> trig = Pending_ED \<and> nxt = Pending_GMD) \<or>
   (rl = GMD \<and> trig = Pending_GMD \<and> nxt = Approved)"
  by (simp add: approver_instance_def)

lemma req_ok_ss_sac: "req_ok r \<Longrightarrow> status r = Pending_SS_HOD \<Longrightarrow> req_ok (r\<lparr>status := Pending_SAC\<rparr>)"
  by (simp add: req_ok_defs)

lemma req_ok_ed_gmd: "req_ok r \<Longrightarrow> status r = Pending_ED \<Longrightarrow> req_ok (r\<lparr>status := Pending_GMD\<rparr>)"
  by (simp add: req_ok_defs)

lemma req_ok_Declined: "req_ok (r\<lparr>status := Declined\<rparr>) \<longleftrightarrow> category r \<noteq> Stationary"
  by (simp add: req_ok_defs)

lemma req_ok_stationary:
  "req_ok r \<Longrightarrow> category r = Stationary \<Longrightarrow> status r = Pending_Admin \<or> status r = Completed_Fulfilled"
  by (simp add: req_ok_def)

lemma view_approver_dashboard_inv:
  assumes inv: "db_inv d" and inst: "approver_instance rl trig nxt"
  shows "db_inv (outcome_state (view_approver_dashboard rl trig nxt e ev d))"
proof -
  have row: "r \<in> set (requests d) \<and> req_id r = rid \<and> status r = trig \<and> req_ok r"
    if "tbl_lookup req_id rid (approver_tasks trig d) = Some r" for rid r
    using lookup_row [OF inv] that unfolding approver_tasks_def by blast
  note cases = approver_instance_cases [OF inst]
  have approve: "db_inv (outcome_state (view_approver_dashboard rl trig nxt e (Approve rid) d))" for rid
  proof (cases "tbl_lookup req_id rid (rendered e invoice_img (approver_tasks trig d))")
    case None
    with inv show ?thesis by (simp add: view_approver_dashboard_def Let_def)
  next
    case (Some r)
    note r = row [OF tbl_lookup_rendered [OF Some]]
    show ?thesis
    proof (cases "rl = GMD")
      case True
      with cases r have "status r = Pending_GMD"
        by auto
      with r have "db_inv (outcome_state (of_sql (insert_payment (gmd_payment e r)
          (set_status (req_id r) Approved d)) (set_status (req_id r) Approved d)))"
        using gmd_approve_inv [OF inv] by blast
      with True Some show ?thesis
        by (simp add: view_approver_dashboard_def Let_def)
    next
      case False
      with cases r have "req_ok (r\<lparr>status := nxt\<rparr>)" "status r \<noteq> Approved"
        using req_ok_ss_sac req_ok_ed_gmd by auto
      with r have "db_inv (set_status (req_id r) nxt d)"
        using db_inv_set_status [OF inv] by blast
      with False Some show ?thesis
        by (simp add: view_approver_dashboard_def Let_def)
    qed
  qed
  have decline: "db_inv (set_status rid Declined d)" if "shown rid (approver_tasks trig d)" for rid
  proof -
    from task_row [OF inv] that obtain r where r: "r \<in> set (requests d)" "req_id r = rid"
        "status r = trig" "req_ok r"
      unfolding approver_tasks_def by blast
    with cases have na: "status r \<noteq> Approved" and "category r \<noteq> Stationary"
      using req_ok_stationary [of r] by auto
    then have "req_ok (r\<lparr>status := Declined\<rparr>)"
      by (simp add: req_ok_Declined)
    with na have "db_inv (set_status (req_id r) Declined d)"
      using db_inv_set_status [OF inv r(1)] by blast
    with r(2) show ?thesis by simp
  qed
  show ?thesis
  proof (cases ev)
    case (Approve rid)
    with approve show ?thesis by simp
  next
    case (Decline rid)
    with inv decline show ?thesis
      by (auto simp: view_approver_dashboard_def Let_def dest: shown_rendered)
  qed (simp_all add: view_approver_dashboard_def Let_def inv)
qed

lemma view_sac_dashboard_inv:
  assumes inv: "db_inv d"
  shows "db_inv (outcome_state (view_sac_dashboard e ev d))"
proof -
  have "db_inv (set_request rid (sac_update c nt) d)" if "shown rid (sac_tasks d)" for rid c nt
  proof -
    from task_row [OF inv] that obtain r where r: "r \<in> set (requests d)" "req_id r = rid"
        "status r = Pending_SAC" "req_ok r"
      unfolding sac_tasks_def by blast
    then have "req_ok (sac_update c nt r)"
      by (auto simp: req_ok_defs sac_update_def)
    with db_inv_set_request [OF inv r(1)] r(2,3) show ?thesis
      by (simp add: keeps_key_def sac_update_def)
  qed
  with inv show ?thesis
    by (auto simp: view_sac_dashboard_def Let_def split: event.splits dest: shown_rendered)
qed

lemma pays_for_pay_status [simp]: "pays_for (p\<lparr>pay_status := x\<rparr>) = pays_for p"
  by (simp add: pays_for_def fun_eq_iff)

lemma view_accounts_inv:
  assumes inv: "db_inv d"
  shows "db_inv (outcome_state (view_accounts e ev d))"
proof -
  let ?f = "\<lambda>p. p\<lparr>pay_status := Paid\<rparr>"
  have keys: "map pay_req_id (tbl_update payment_id pid ?f ps) = map pay_req_id ps" for pid ps
    by (induction ps) (simp_all add: tbl_update_def)
  from inv have pays: "list_all (pay_ok d) (payments d)"
    by (simp add: db_inv_def)
  have "list_all (pay_ok d) (tbl_update payment_id pid ?f (payments d))" for pid
    by (rule list_all_tbl_update [OF pays]) (use pays in \<open>auto simp: list_all_iff pay_ok_def\<close>)
  moreover have "pay_ok (set_payment pid ?f d) = pay_ok d" for pid
    by (rule pay_ok_same_requests) (simp add: set_payment_def)
  moreover have "db_wf (set_payment pid ?f d)" for pid
    using inv by (simp add: db_inv_def db_wf_set_payment keeps_key_def)
  ultimately have "db_inv (set_payment pid ?f d)" for pid
    using inv by (simp add: db_inv_def set_payment_def get_user_def keys)
  with inv show ?thesis
    by (simp add: view_accounts_def Let_def split: event.splits)
qed

lemma view_superuser_inv:
  assumes inv: "db_inv d"
  shows "db_inv (view_superuser h ev d) \<and> users_kept d (view_superuser h ev d)"
proof -
  have "db_inv d' \<and> users_kept d d'" if "insert_user u d = Inr d'" for u d'
  proof -
    have kept: "users_kept d d'" by (rule users_kept_insert_user [OF that])
    have wf: "db_wf d'" using inv db_wf_insert_user [OF _ that] by (simp add: db_inv_def)
    then have "pk_ok username (users d')"
      by (simp add: db_wf_def)
    with inv kept have "get_user d' ''super'' \<noteq> None"
      using super_kept [of d d'] by (simp add: db_inv_def)
    moreover have "pay_ok d' = pay_ok d"
      using that by (intro pay_ok_same_requests) (simp add: insert_user_Inr)
    ultimately show ?thesis
      using that wf kept inv by (auto simp: db_inv_def insert_user_Inr)
  qed
  with inv show ?thesis
    by (auto simp: view_superuser_def Let_def split: event.splits sum.splits)
qed


lemma prefix_list_all: "prefix xs ys \<Longrightarrow> list_all P ys \<Longrightarrow> list_all P xs"
  by (auto simp: prefix_def)

lemma cart_rows_req_ok: "list_all req_ok (cart_rows e u c)"
  unfolding list_all_iff by (auto dest!: cart_rows_route simp: req_ok_defs split: if_splits)

lemma db_inv_only_inserts:
  assumes inv: "db_inv d" and ins: "only_inserts rs d d'" and rows: "list_all req_ok rs" and wf: "db_wf d'"
  shows "db_inv d'"
proof -
  from ins have pre: "prefix (requests d) (requests d')" "prefix (requests d') (requests d @ rs)"
    and same: "users d' = users d" "payments d' = payments d"
    by (simp_all add: only_inserts_def)
  from inv rows have "list_all req_ok (requests d @ rs)"
    by (simp add: db_inv_def)
  with pre(2) have "list_all req_ok (requests d')"
    by (rule prefix_list_all)
  moreover have "list_all (pay_ok d') (payments d')"
    using inv same pre(1) set_mono_prefix [OF pre(1)]
    by (fastforce simp: db_inv_def list_all_iff pay_ok_def list_ex_iff)
  ultimately show ?thesis
    using inv same wf by (simp add: db_inv_def get_user_def)
qed

lemma submit_others_wf: "db_wf d \<Longrightarrow> db_wf (outcome_state (submit_others e k u is d))"
proof (induction "is" arbitrary: k d)
  case Nil
  then show ?case by simp
next
  case (Cons i "is")
  show ?case
  proof (cases "insert_request (new_request (uuid e k) u (item_type i) (item_name i) (initial_status i) ''Pending'' (today e)) d")
    case (Inl err)
    with Cons.prems show ?thesis by simp
  next
    case (Inr d1)
    have "db_wf (log_action ts x a y d1)" for ts x a y
      by (rule db_wf_log_action [OF db_wf_insert_request [OF Cons.prems Inr]])
    with Inr Cons.IH show ?thesis by simp
  qed
qed

lemma submit_stationary_wf:
  assumes wf: "db_wf d"
  shows "db_wf (outcome_state (submit_stationary e u its d))"
proof (cases "insert_request (stat_row e u its) d")
  case (Inl err)
  with wf show ?thesis
    by (simp add: submit_stationary_def stat_row_def [symmetric])
next
  case (Inr d1)
  have "db_wf (log_action ts x a y d1)" for ts x a y
    by (rule db_wf_log_action [OF db_wf_insert_request [OF wf Inr]])
  with Inr show ?thesis
    by (simp add: submit_stationary_def stat_row_def [symmetric])
qed

lemma cart_inserts_wf: "db_wf d \<Longrightarrow> db_wf (outcome_state (cart_inserts e u c d))"
proof -
  assume wf: "db_wf d"
  show ?thesis
  proof (cases "stat_items c = []")
    case True
    with wf submit_others_wf show ?thesis
      by (simp add: cart_inserts_def)
  next
    case False
    show ?thesis
    proof (cases "submit_stationary e u (stat_items c) d")
      case (Normal d1)
      with submit_stationary_wf [OF wf, of e u "stat_items c"] have "db_wf d1" by simp
      with Normal False submit_others_wf show ?thesis
        by (simp add: cart_inserts_def)
    next
      case (Raised err d1)
      with submit_stationary_wf [OF wf, of e u "stat_items c"] False show ?thesis
        by (simp add: cart_inserts_def)
    qed
  qed
qed

lemma sess_ok_cart [simp]: "sess_ok d (s\<lparr>cart := c\<rparr>) = sess_ok d s"
  by (simp add: sess_ok_def cong: option.case_cong)

lemma process_cart_submission_inv:
  assumes inv: "db_inv d" and out: "outcome_state (process_cart_submission e u d s) = (d', s')"
  shows "db_inv d' \<and> users d' = users d \<and> sess_ok d' s' = sess_ok d' s"
proof (cases "cart s = []")
  case True
  with inv out show ?thesis by (simp add: process_cart_submission_def)
next
  case False
  have eff: "only_inserts (cart_rows e u (cart s)) d d' \<and> (s' = s \<or> s' = s\<lparr>cart := []\<rparr>)"
    using process_cart_submission_effect [where e = e and u = u and d = d and s = s] out
    by (auto split: outcome.splits dest: full_insert_only_inserts stopped_insert_only_inserts)
  have "db_wf d'"
    using cart_inserts_wf [of d e u "cart s"] inv out False
    by (cases "cart_inserts e u (cart s) d") (auto simp: db_inv_def process_cart_submission_eq)
  with eff inv cart_rows_req_ok show ?thesis
    by (auto simp: only_inserts_def intro: db_inv_only_inserts)
qed


lemma db_inv_log_action: "db_inv d \<Longrightarrow> db_inv (log_action ts x a y d)"
proof -
  assume inv: "db_inv d"
  have "pay_ok (log_action ts x a y d) = pay_ok d"
    by (rule pay_ok_same_requests) (simp add: log_action_def)
  with inv db_wf_log_action show ?thesis
    by (simp add: db_inv_def log_action_def get_user_def)
qed

lemma login_function_inv:
  assumes inv: "db_inv d" and s: "sess_ok d s" and out: "login_function h ts u p d s = (d', s')"
  shows "db_inv d' \<and> sess_ok d' s' \<and> users_kept d d'"
proof (cases "get_user d (py_lower u)")
  case None
  with inv s out show ?thesis by (simp add: login_function_def)
next
  case (Some usr)
  then have usr: "username usr = py_lower u"
    by (simp add: get_user_Some)
  have same: "get_user (log_action ts x a y d) k = get_user d k" for x a y k
    by (simp add: get_user_def log_action_def)
  show ?thesis
  proof (cases "check_hash h p (password usr)")
    case True
    with Some out have "d' = log_action ts (name usr) ''Login'' ''Success'' d" and
      "s' = s\<lparr>logged_in := True, user_role := Some (role usr), user_name := Some (name usr),
               user_email := Some (email usr), current_user_key := py_lower u, user_data := Some usr\<rparr>"
      by (simp_all add: login_function_def)
    moreover have "users_kept d d'"
      using \<open>d' = _\<close> by (simp add: users_kept_def log_action_def)
    moreover have "sess_ok d' s'"
      using \<open>d' = _\<close> \<open>s' = _\<close> Some usr same by (simp add: sess_ok_def)
    ultimately show ?thesis
      using inv by (simp add: db_inv_log_action)
  next
    case False
    with Some inv s out show ?thesis by (simp add: login_function_def)
  qed
qed

lemma change_password_flow_inv:
  assumes inv: "db_inv d" and s: "sess_ok d s" and out: "change_password_flow h p1 p2 d s = (d', s')"
  shows "db_inv d' \<and> sess_ok d' s' \<and> users_kept d d'"
proof (cases "p1 = p2 \<and> 0 < length p1")
  case False
  with out have "d' = d" "s' = s"
    by (simp_all add: change_password_flow_def split: if_splits)
  with inv s show ?thesis by simp
next
  case True
  let ?f = "\<lambda>u. u\<lparr>password := h p1, force_reset := 0\<rparr>"
  from True have "p1 = p2" "p1 \<noteq> []" by auto
  with out have d': "d' = set_user (current_user_key s) ?f d"
    and s': "s' = s\<lparr>user_data := map_option (\<lambda>u. u\<lparr>force_reset := 0\<rparr>) (user_data s)\<rparr>"
    by (simp_all add: change_password_flow_def)
  have kept: "users_kept d d'"
    unfolding d' by (rule users_kept_set_user) (simp add: ident_def)
  have wf: "db_wf d'"
    using inv by (simp add: d' db_inv_def db_wf_set_user keeps_key_def)
  then have pk: "pk_ok username (users d')"
    by (simp add: db_wf_def)
  have "pay_ok d' = pay_ok d"
    by (rule pay_ok_same_requests) (simp add: d' set_user_def)
  moreover have "get_user d' ''super'' \<noteq> None"
    using inv kept pk super_kept [of d d'] by (simp add: db_inv_def)
  moreover have "sess_ok d' s'"
    using sess_ok_kept [OF s kept pk] by (auto simp: s' sess_ok_def ident_def split: option.splits)
  ultimately show ?thesis
    using inv wf kept by (simp add: db_inv_def d' set_user_def)
qed

section \<open>Preservation by the router and by reruns\<close>

lemma sess_ok_same_users: "users d' = users d \<Longrightarrow> sess_ok d' s = sess_ok d s"
proof -
  assume "users d' = users d"
  then have "get_user d' = get_user d" by (simp add: get_user_def fun_eq_iff)
  then show ?thesis by (simp only: sess_ok_def)
qed

lemma users_insert_payment: "insert_payment p d = Inr d' \<Longrightarrow> users d' = users d"
  by (auto simp: insert_payment_def tbl_insert_def split: if_splits)

lemma users_of_sql_insert_payment: "users (outcome_state (of_sql (insert_payment p d) d)) = users d"
  by (cases "insert_payment p d") (auto dest: users_insert_payment)

lemma users_dashboards:
  "users (view_hod_dashboard u ev d) = users d"
  "users (view_admin_dashboard ev d) = users d"
  "users (outcome_state (view_approver_dashboard rl trig nxt e ev d)) = users d"
  "users (outcome_state (view_sac_dashboard e ev d)) = users d"
  "users (outcome_state (view_accounts e ev d)) = users d"
  by (auto simp: view_hod_dashboard_def view_admin_dashboard_def view_approver_dashboard_def
      view_sac_dashboard_def view_accounts_def Let_def users_of_sql_insert_payment
      split: event.splits option.splits)

lemma sess_ok_add_item: "sess_ok d (add_item cat sel q s) = sess_ok d s"
  by (simp add: add_item_def Let_def sess_ok_cart)

lemma view_staff_portal_inv:
  assumes inv: "db_inv d" and s: "sess_ok d s"
    and out: "outcome_state (view_staff_portal e u ev d s) = (d', s')"
  shows "db_inv d' \<and> sess_ok d' s' \<and> users_kept d d'"
proof (cases "ev = SubmitCart \<and> cart s \<noteq> []")
  case True
  then have "outcome_state (process_cart_submission e u d s) = (d', s')"
    using out by (simp add: view_staff_portal_def)
  from process_cart_submission_inv [OF inv this]
  have "db_inv d'" and us: "users d' = users d" and "sess_ok d' s' = sess_ok d' s" by simp_all
  with sess_ok_same_users [OF us] s show ?thesis
    by (simp add: users_kept_same)
next
  case False
  with out have "d' = d" and "s' = s \<or> (\<exists>cat sel q. s' = add_item cat sel q s)"
    by (auto simp: view_staff_portal_def split: event.splits if_splits)
  with inv s show ?thesis
    by (auto simp: sess_ok_add_item)
qed

lemma dashboard_frame:
  assumes "db_inv d" and "sess_ok d s" and "db_inv d'" and "users d' = users d"
  shows "db_inv d' \<and> sess_ok d' s \<and> users_kept d d'"
  using assms sess_ok_same_users [OF assms(4)] by (simp add: users_kept_same)

lemma dashboard_inv:
  assumes inv: "db_inv d" and s: "sess_ok d s"
    and out: "outcome_state (dashboard h e u ev d s) = (d', s')"
  shows "db_inv d' \<and> sess_ok d' s' \<and> users_kept d d'"
proof (cases "role u")
  case Staff
  with out view_staff_portal_inv [OF inv s] show ?thesis by (simp add: dashboard_def)
next
  case Superuser
  with out have "d' = view_superuser h ev d" "s' = s" by (simp_all add: dashboard_def)
  moreover have "sess_ok (view_superuser h ev d) s"
    using view_superuser_inv [OF inv, of h ev] sess_ok_kept [OF s] by (simp add: db_inv_def db_wf_def)
  ultimately show ?thesis using view_superuser_inv [OF inv, of h ev] by simp
next
  case Dept_HOD
  with out have "d' = view_hod_dashboard u ev d" "s' = s" by (simp_all add: dashboard_def)
  with dashboard_frame [OF inv s view_hod_dashboard_inv [OF inv]] show ?thesis
    by (simp add: users_dashboards)
next
  case Admin
  with out have "d' = view_admin_dashboard ev d" "s' = s" by (simp_all add: dashboard_def)
  with dashboard_frame [OF inv s view_admin_dashboard_inv [OF inv]] show ?thesis
    by (simp add: users_dashboards)
next
  case SAC
  with out have "d' = outcome_state (view_sac_dashboard e ev d)" "s' = s" by (simp_all add: dashboard_def)
  with dashboard_frame [OF inv s view_sac_dashboard_inv [OF inv]] show ?thesis
    by (simp add: users_dashboards)
next
  case Accounts
  with out have "d' = outcome_state (view_accounts e ev d)" "s' = s" by (simp_all add: dashboard_def)
  with dashboard_frame [OF inv s view_accounts_inv [OF inv]] show ?thesis
    by (simp add: users_dashboards)
next
  case SS_HOD
  with out have "d' = outcome_state (view_approver_dashboard SS_HOD Pending_SS_HOD Pending_SAC e ev d)"
    "s' = s" by (simp_all add: dashboard_def)
  with dashboard_frame [OF inv s view_approver_dashboard_inv [OF inv]] show ?thesis
    by (simp add: users_dashboards approver_instance_def)
next
  case ED
  with out have "d' = outcome_state (view_approver_dashboard ED Pending_ED Pending_GMD e ev d)"
    "s' = s" by (simp_all add: dashboard_def)
  with dashboard_frame [OF inv s view_approver_dashboard_inv [OF inv]] show ?thesis
    by (simp add: users_dashboards approver_instance_def)
next
  case GMD
  with out have "d' = outcome_state (view_approver_dashboard GMD Pending_GMD Approved e ev d)"
    "s' = s" by (simp_all add: dashboard_def)
  with dashboard_frame [OF inv s view_approver_dashboard_inv [OF inv]] show ?thesis
    by (simp add: users_dashboards approver_instance_def)
qed

lemma sess_ok_logout: "sess_ok d s \<Longrightarrow> sess_ok d (logout s)"
  by (simp add: sess_ok_def logout_def)

lemma main_inv:
  assumes inv: "db_inv d" and s: "sess_ok d s"
    and out: "outcome_state (main h e ev d s) = (d', s')"
  shows "db_inv d' \<and> sess_ok d' s' \<and> users_kept d d'"
proof (cases "logged_in s")
  case False
  show ?thesis
  proof (cases "\<exists>u p. ev = Login u p")
    case True
    then obtain u p where "ev = Login u p" by blast
    with False out login_function_inv [OF inv s] show ?thesis by (simp add: main_def)
  next
    case nl: False
    with False out inv s show ?thesis by (auto simp: main_def split: event.splits)
  qed
next
  case True
  then obtain cu where cu: "get_user d (current_user_key s) = Some cu"
    using s by (auto simp: sess_ok_def split: option.splits)
  show ?thesis
  proof (cases "force_reset cu = 1")
    case fr: True
    show ?thesis
    proof (cases "\<exists>p1 p2. ev = ChangePassword p1 p2")
      case True
      then obtain p1 p2 where "ev = ChangePassword p1 p2" by blast
      with \<open>logged_in s\<close> cu fr out change_password_flow_inv [OF inv s] show ?thesis
        by (simp add: main_def)
    next
      case False
      with \<open>logged_in s\<close> cu fr out inv s show ?thesis
        by (auto simp: main_def split: event.splits)
    qed
  next
    case fr: False
    from True s obtain u where u: "user_data s = Some u"
      by (auto simp: sess_ok_def split: option.splits)
    show ?thesis
    proof (cases "ev = Logout")
      case True
      with \<open>logged_in s\<close> cu fr u out inv s show ?thesis
        by (auto simp: main_def sess_ok_logout)
    next
      case False
      with \<open>logged_in s\<close> cu fr u out have "outcome_state (dashboard h e u ev d s) = (d', s')"
        by (simp add: main_def split: event.splits)
      from dashboard_inv [OF inv s this] show ?thesis .
    qed
  qed
qed

lemma list_all_AList_update:
  "list_all P al \<Longrightarrow> P (k, v) \<Longrightarrow> list_all P (AList.update k v al)"
  by (induction al) auto

lemma db_inv_init_db: "db_inv d \<Longrightarrow> init_db h d = d"
  by (simp add: db_inv_def init_db_present)

lemma sess_ok_init_session [simp]: "sess_ok d init_session"
  by (simp add: sess_ok_def init_session_def)

lemma session_of_ok: "app_inv a \<Longrightarrow> sess_ok (store a) (session_of a sid)"
  by (auto simp: app_inv_def session_of_def list_all_iff dest: map_of_SomeD split: option.splits)

lemma next_app_eq:
  assumes db: "db_inv (store a)"
  shows "next_app h e sid ev a =
    (case outcome_state (main h e ev (store a) (session_of a sid)) of (d', s') \<Rightarrow>
       \<lparr>store = d', sessions = AList.update sid s' (sessions a)\<rparr>)"
  using db by (simp add: next_app_def rerun_def db_inv_init_db)

lemma next_app_inv:
  assumes inv: "app_inv a"
  shows "app_inv (next_app h e sid ev a) \<and> users_kept (store a) (store (next_app h e sid ev a))"
proof -
  obtain d' s' where out: "outcome_state (main h e ev (store a) (session_of a sid)) = (d', s')"
    using prod.exhaust by metis
  have db: "db_inv (store a)" using inv by (simp add: app_inv_def)
  from main_inv [OF db session_of_ok [OF inv] out]
  have m: "db_inv d'" "sess_ok d' s'" "users_kept (store a) d'" by simp_all
  then have pk: "pk_ok username (users d')" by (simp add: db_inv_def db_wf_def)
  have "list_all (\<lambda>(i, t). sess_ok (store a) t) (sessions a)"
    using inv by (simp add: app_inv_def)
  then have "list_all (\<lambda>(i, t). sess_ok d' t) (sessions a)"
    using sess_ok_kept [OF _ m(3) pk] by (simp add: list_all_iff split_def)
  then have "list_all (\<lambda>(i, t). sess_ok d' t) (AList.update sid s' (sessions a))"
    using m(2) by (simp add: list_all_AList_update)
  with m show ?thesis
    by (simp add: next_app_eq [OF db] out app_inv_def)
qed

lemma app_inv_init: "app_inv (init_app h)"
proof -
  have "db_wf (init_db h empty_db)" by (rule db_wf_init_db [OF db_wf_empty])
  moreover have "requests (init_db h empty_db) = [] \<and> payments (init_db h empty_db) = []"
    by (simp add: init_db_def empty_db_def split: option.splits)
  ultimately show ?thesis
    by (simp add: app_inv_def init_app_def db_inv_def get_user_init_db)
qed

lemma reachable_app_inv: "reachable h a \<Longrightarrow> app_inv a"
  by (induction rule: reachable.induct) (simp_all add: app_inv_init next_app_inv)

section \<open>Which exceptions a rerun can raise\<close>

lemma outcome_error_map_outcome [simp]: "outcome_error (map_outcome f x) = outcome_error x"
  by (cases x) simp_all

lemma process_cart_submission_error:
  "outcome_error (process_cart_submission e u d s) = Some err \<Longrightarrow> err = IntegrityError"
  using process_cart_submission_effect [where e = e and u = u and d = d and s = s]
  by (auto split: outcome.splits)

lemma of_sql_insert_payment_error:
  "outcome_error (of_sql (insert_payment p d) d') = Some err \<Longrightarrow> err = IntegrityError"
  by (cases "insert_payment p d") (auto simp: insert_payment_def tbl_insert_def split: if_splits)

text \<open>
  Besides \<open>IntegrityError\<close> from a colliding id, a dashboard can only stop on an invoice
  that is not an image.
\<close>

lemma dashboard_error:
  "outcome_error (dashboard h e u ev d s) = Some err \<Longrightarrow> err = IntegrityError \<or> err = UnidentifiedImageError"
  by (auto simp: dashboard_def view_staff_portal_def view_approver_dashboard_def view_sac_dashboard_def
      view_accounts_def Let_def split: role.splits event.splits option.splits if_splits
      dest: process_cart_submission_error of_sql_insert_payment_error loop_end_error)

lemma main_error:
  "sess_ok d s \<Longrightarrow> outcome_error (main h e ev d s) = Some err \<Longrightarrow>
   err = IntegrityError \<or> err = UnidentifiedImageError"
  by (auto simp: main_def sess_ok_def split: option.splits event.splits if_splits dest: dashboard_error)

end
