(* ===== verification/Refinement.thy ===== *)
theory Refinement
  imports Invariants
begin

text \<open>
  The program refines the workflow of Workflow.thy: read through \<open>status_table\<close> (the
  (request id, status) pairs of the requests table in rowid order), every rerun of
  src/Facility.py from a state satisfying \<open>db_inv\<close> is a step of \<open>abs_step\<close>. Each
  handler's status change is one \<open>route\<close> transition of one row (the row the clicked
  button belongs to, unique by the primary key), a submission appends rows in an entry
  status, and every other statement leaves the requests table alone. The theory also
  shows that every request not in a final status can be moved by some dashboard event
  (\<open>progress_step\<close>), and that no rerun removes or rewrites audit entries
  (\<open>audit_main\<close>).
\<close>

text \<open>The role whose dashboard acts on a request in a given status, as \<open>main()\<close> dispatches.\<close>

fun status_owner :: "status \<Rightarrow> role" where
  "status_owner Pending_Dept_HOD = Dept_HOD"
| "status_owner Pending_Admin = Admin"
| "status_owner Pending_SS_HOD = SS_HOD"
| "status_owner Pending_SAC = SAC"
| "status_owner Pending_ED = ED"
| "status_owner Pending_GMD = GMD"
| "status_owner _ = Superuser"

section \<open>Steps of the status table\<close>

lemma abs_step_append:
  "abs_step xs ys \<Longrightarrow> list_all (\<lambda>(k, s). entry_status s) zs \<Longrightarrow> abs_step xs (ys @ zs)"
  by (simp add: abs_step_def)

lemma abs_step_same: "requests d' = requests d \<Longrightarrow> abs_step (status_table d) (status_table d')"
  by (simp add: status_table_def)

lemma abs_step_tbl_update:
  assumes pk: "pk_ok req_id rs" and r: "r \<in> set rs" and key: "keeps_key req_id f"
    and st: "route (status r) (status (f r))"
  shows "abs_step (map (\<lambda>q. (req_id q, status q)) rs)
                  (map (\<lambda>q. (req_id q, status q)) (tbl_update req_id (req_id r) f rs))"
proof -
  have "list_all2 (\<lambda>(k, s) (k', s'). k' = k \<and> (s' = s \<or> route s s'))
          (map (\<lambda>q. (req_id q, status q)) rs)
          (map (\<lambda>q. (req_id q, status q)) (map (\<lambda>q. if req_id q = req_id r then f q else q) rs))"
    unfolding list.rel_map
  proof (rule list.rel_refl_strong)
    fix q assume q: "q \<in> set rs"
    show "(\<lambda>(k, s) (k', s'). k' = k \<and> (s' = s \<or> route s s'))
            (req_id q, status q) (req_id (if req_id q = req_id r then f q else q),
                                  status (if req_id q = req_id r then f q else q))"
    proof (cases "req_id q = req_id r")
      case True
      with pk_unique [OF pk q r] have "q = r" .
      with st key show ?thesis by (simp add: keeps_key_def)
    qed simp
  qed
  then show ?thesis
    by (simp add: abs_step_def tbl_update_def)
qed

lemma set_request_abs:
  "db_inv d \<Longrightarrow> r \<in> set (requests d) \<Longrightarrow> keeps_key req_id f \<Longrightarrow> route (status r) (status (f r)) \<Longrightarrow>
   abs_step (status_table d) (status_table (set_request (req_id r) f d))"
  by (simp add: status_table_def set_request_def abs_step_tbl_update db_inv_pk)

lemma set_status_abs:
  "db_inv d \<Longrightarrow> r \<in> set (requests d) \<Longrightarrow> route (status r) st \<Longrightarrow>
   abs_step (status_table d) (status_table (set_status (req_id r) st d))"
  unfolding set_status_def by (rule set_request_abs) (simp_all add: keeps_key_def)

section \<open>Each handler is a step of the workflow\<close>

lemma shown_set_status_abs:
  assumes inv: "db_inv d" and sh: "shown rid (filter Q (requests d))"
    and st: "\<And>r. Q r \<Longrightarrow> route (status r) st"
  shows "abs_step (status_table d) (status_table (set_status rid st d))"
proof -
  from task_row [OF inv sh] obtain r where "r \<in> set (requests d)" "req_id r = rid" "Q r"
    by blast
  with set_status_abs [OF inv] st show ?thesis by blast
qed

lemma requests_unchanged:
  "requests (outcome_state (view_accounts e ev d)) = requests d"
  "requests (view_superuser h ev d) = requests d"
  "requests (fst (login_function h ts u p d s)) = requests d"
  "requests (fst (change_password_flow h p1 p2 d s)) = requests d"
  "requests (outcome_state (of_sql (insert_payment pm d) d)) = requests d"
  by (auto simp: view_accounts_def view_superuser_def login_function_def change_password_flow_def loop_end_def
      set_payment_def insert_user_def insert_payment_def log_action_def set_user_def Let_def
      tbl_insert_def split: event.splits option.splits sum.splits if_splits)

lemma status_table_insert_payment [simp]:
  "status_table (outcome_state (of_sql (insert_payment pm d) d)) = status_table d"
  by (simp add: status_table_def requests_unchanged)

lemma view_hod_dashboard_abs:
  "db_inv d \<Longrightarrow> abs_step (status_table d) (status_table (view_hod_dashboard u ev d))"
  unfolding view_hod_dashboard_def hod_tasks_def
  by (auto split: event.splits intro: shown_set_status_abs simp: route_iff)

lemma view_admin_dashboard_abs:
  assumes inv: "db_inv d"
  shows "abs_step (status_table d) (status_table (view_admin_dashboard ev d))"
proof -
  have row: "r \<in> set (requests d) \<and> req_id r = rid \<and> status r = Pending_Admin"
    if "tbl_lookup req_id rid (admin_tasks d) = Some r" for rid r
    using lookup_row [OF inv that [unfolded admin_tasks_def]] by simp
  have quote: "keeps_key req_id (quote_update v c img)" "status (quote_update v c img r) = Pending_SS_HOD"
    for v c img r by (simp_all add: keeps_key_def quote_update_def)
  show ?thesis
    by (auto simp: view_admin_dashboard_def route_iff quote split: event.splits option.splits
        dest!: row intro: set_status_abs [OF inv] set_request_abs [OF inv])
qed

lemma view_approver_dashboard_abs:
  assumes inv: "db_inv d" and inst: "approver_instance rl trig nxt"
  shows "abs_step (status_table d) (status_table (outcome_state (view_approver_dashboard rl trig nxt e ev d)))"
proof -
  have row: "r \<in> set (requests d) \<and> req_id r = rid \<and> status r = trig"
    if "tbl_lookup req_id rid (rendered e invoice_img (filter (\<lambda>r. status r = trig) (requests d))) = Some r"
    for rid r
    using lookup_row [OF inv tbl_lookup_rendered [OF that]] by simp
  have "route trig nxt" "route trig Declined" "rl = GMD \<Longrightarrow> nxt = Approved"
    using approver_instance_cases [OF inst] by (auto simp: route_iff)
  then show ?thesis
    by (auto simp: view_approver_dashboard_def approver_tasks_def Let_def requests_unchanged
        split: event.splits option.splits dest!: row dest: shown_rendered
        intro: set_status_abs [OF inv] shown_set_status_abs [OF inv])
qed

lemma view_sac_dashboard_abs:
  assumes inv: "db_inv d"
  shows "abs_step (status_table d) (status_table (outcome_state (view_sac_dashboard e ev d)))"
proof -
  have "abs_step (status_table d) (status_table (set_request rid (sac_update c nt) d))"
    if "shown rid (sac_tasks d)" for rid c nt
  proof -
    from task_row [OF inv] that obtain r where "r \<in> set (requests d)" "req_id r = rid"
      "status r = Pending_SAC" by (auto simp: sac_tasks_def)
    with set_request_abs [OF inv, of r "sac_update c nt"] show ?thesis
      by (simp add: keeps_key_def sac_update_def route_iff)
  qed
  then show ?thesis
    by (auto simp: view_sac_dashboard_def Let_def split: event.splits dest: shown_rendered)
qed

lemma only_inserts_abs:
  assumes ins: "only_inserts rs d d'" and rows: "list_all (\<lambda>r. entry_status (status r)) rs"
  shows "abs_step (status_table d) (status_table d')"
proof -
  from ins obtain zs where zs: "requests d' = requests d @ zs"
    and pre: "prefix (requests d @ zs) (requests d @ rs)"
    by (auto simp: only_inserts_def prefix_def)
  from pre have "set zs \<subseteq> set rs"
    by (simp add: set_mono_prefix)
  with rows have "list_all (\<lambda>(k, s). entry_status s) (map (\<lambda>r. (req_id r, status r)) zs)"
    by (auto simp: list_all_iff)
  from abs_step_append [OF abs_step_refl this] zs show ?thesis
    by (simp add: status_table_def)
qed

lemma cart_rows_entry: "list_all (\<lambda>r. entry_status (status r)) (cart_rows e u c)"
  by (auto simp: list_all_iff entry_status_def dest!: cart_rows_route)

lemma process_cart_submission_abs:
  assumes out: "outcome_state (process_cart_submission e u d s) = (d', s')"
  shows "abs_step (status_table d) (status_table d')"
proof -
  have "only_inserts (cart_rows e u (cart s)) d d'"
    using process_cart_submission_effect [where e = e and u = u and d = d and s = s] out
    by (auto split: outcome.splits dest: full_insert_only_inserts stopped_insert_only_inserts)
  from only_inserts_abs [OF this cart_rows_entry] show ?thesis .
qed

lemma view_staff_portal_abs:
  assumes out: "outcome_state (view_staff_portal e u ev d s) = (d', s')"
  shows "abs_step (status_table d) (status_table d')"
proof (cases "ev = SubmitCart \<and> cart s \<noteq> []")
  case True
  with out have "outcome_state (process_cart_submission e u d s) = (d', s')"
    by (simp add: view_staff_portal_def)
  then show ?thesis by (rule process_cart_submission_abs)
next
  case False
  with out have "d' = d"
    by (auto simp: view_staff_portal_def split: event.splits if_splits)
  then show ?thesis by simp
qed

lemma dashboard_abs:
  assumes inv: "db_inv d" and out: "outcome_state (dashboard h e u ev d s) = (d', s')"
  shows "abs_step (status_table d) (status_table d')"
proof (cases "role u")
  case Staff
  with out view_staff_portal_abs show ?thesis by (simp add: dashboard_def)
next
  case Dept_HOD
  with out view_hod_dashboard_abs [OF inv] show ?thesis by (auto simp: dashboard_def)
next
  case Admin
  with out view_admin_dashboard_abs [OF inv] show ?thesis by (auto simp: dashboard_def)
next
  case SAC
  with out view_sac_dashboard_abs [OF inv, of e ev] show ?thesis by (auto simp: dashboard_def)
next
  case Accounts
  with out abs_step_same show ?thesis by (auto simp: dashboard_def requests_unchanged)
next
  case Superuser
  with out abs_step_same show ?thesis by (auto simp: dashboard_def requests_unchanged)
next
  case SS_HOD
  with out view_approver_dashboard_abs [OF inv, of SS_HOD Pending_SS_HOD Pending_SAC e ev]
  show ?thesis by (auto simp: dashboard_def approver_instance_def)
next
  case ED
  with out view_approver_dashboard_abs [OF inv, of ED Pending_ED Pending_GMD e ev]
  show ?thesis by (auto simp: dashboard_def approver_instance_def)
next
  case GMD
  with out view_approver_dashboard_abs [OF inv, of GMD Pending_GMD Approved e ev]
  show ?thesis by (auto simp: dashboard_def approver_instance_def)
qed

lemma main_abs:
  assumes inv: "db_inv d" and out: "outcome_state (main h e ev d s) = (d', s')"
  shows "abs_step (status_table d) (status_table d')"
proof -
  have lg: "requests d' = requests d" if "login_function h ts u p d s = (d', s')" for ts u p
    using requests_unchanged(3) [of h ts u p d s] that by simp
  have cp: "requests d' = requests d" if "change_password_flow h p1 p2 d s = (d', s')" for p1 p2
    using requests_unchanged(4) [of h p1 p2 d s] that by simp
  have "(\<exists>u. outcome_state (dashboard h e u ev d s) = (d', s')) \<or>
        requests d' = requests d"
    using out
    by (auto simp: main_def split: if_splits event.splits option.splits dest: lg cp)
  then show ?thesis
    using dashboard_abs [OF inv] abs_step_same by blast
qed

lemma next_app_abs:
  assumes inv: "app_inv a"
  shows "abs_step (status_table (store a)) (status_table (store (next_app h e sid ev a)))"
proof -
  obtain d' s' where out: "outcome_state (main h e ev (store a) (session_of a sid)) = (d', s')"
    using prod.exhaust by metis
  have db: "db_inv (store a)" using inv by (simp add: app_inv_def)
  from main_abs [OF db out] show ?thesis
    by (simp add: next_app_eq [OF db] out)
qed

section \<open>Progress of a single request\<close>

lemma tbl_lookup_filter_row:
  "pk_ok key rs \<Longrightarrow> r \<in> set rs \<Longrightarrow> Q r \<Longrightarrow> tbl_lookup key (key r) (filter Q rs) = Some r"
  by (rule tbl_lookup_pk) (auto simp: pk_ok_def distinct_map_filter)

lemma shown_row_filter: "r \<in> set rs \<Longrightarrow> Q r \<Longrightarrow> shown (req_id r) (filter Q rs)"
  by (auto simp: shown_def)

lemma lookup_set_request:
  "db_inv d \<Longrightarrow> r \<in> set (requests d) \<Longrightarrow> keeps_key req_id f \<Longrightarrow>
   tbl_lookup req_id (req_id r) (requests (set_request (req_id r) f d)) = Some (f r)"
  by (simp add: set_request_def tbl_lookup_tbl_update tbl_lookup_pk db_inv_pk)

lemma lookup_set_status:
  "db_inv d \<Longrightarrow> r \<in> set (requests d) \<Longrightarrow>
   tbl_lookup req_id (req_id r) (requests (set_status (req_id r) st d)) = Some (r\<lparr>status := st\<rparr>)"
  unfolding set_status_def by (rule lookup_set_request) (simp_all add: keeps_key_def)

lemma rendered_requests:
  "list_all (\<lambda>q. renders e (invoice_img q)) (requests d) \<Longrightarrow>
   rendered e invoice_img (filter Q (requests d)) = filter Q (requests d)"
  by (rule rendered_all) (simp add: list_all_iff)

text \<open>
  Every request that is not in a final status can be moved along \<open>route\<close> by one event
  of the dashboard of a user whose role owns the status (for the department head: whose
  email is the request's approver email), as long as the invoices render.
\<close>

lemma progress_step:
  assumes inv: "db_inv d" and r: "r \<in> set (requests d)" and nt: "\<not> terminal (status r)"
    and own: "role u = status_owner (status r)"
    and hod: "status r = Pending_Dept_HOD \<Longrightarrow> email u = approver_email r"
    and img: "list_all (\<lambda>q. renders e (invoice_img q)) (requests d)"
  shows "\<exists>ev r'. tbl_lookup req_id (req_id r) (requests (fst (outcome_state (dashboard h e u ev d s)))) = Some r' \<and>
                 route (status r) (status r')"
proof -
  have pk: "pk_ok req_id (requests d)" using inv by (rule db_inv_pk)
  have lk: "tbl_lookup req_id (req_id r) (filter (\<lambda>q. status q = status r) (requests d)) = Some r"
    by (rule tbl_lookup_filter_row [OF pk r]) simp
  have rend: "rendered e invoice_img (filter Q (requests d)) = filter Q (requests d)" for Q
    using img by (rule rendered_requests)
  have ss: "tbl_lookup req_id (req_id r) (requests (set_status (req_id r) st d)) = Some (r\<lparr>status := st\<rparr>)" for st
    by (rule lookup_set_status [OF inv r])
  consider "status r = Pending_Dept_HOD" | "status r = Pending_Admin" | "status r = Pending_SS_HOD"
    | "status r = Pending_SAC" | "status r = Pending_ED" | "status r = Pending_GMD"
    using nt by (cases "status r") (simp_all add: terminal_def)
  then show ?thesis
  proof cases
    case 1
    have "shown (req_id r) (hod_tasks (email u) d)"
      using r 1 hod by (auto simp: hod_tasks_def shown_def)
    with own 1 have "dashboard h e u (Approve (req_id r)) d s = Normal (set_status (req_id r) Pending_Admin d, s)"
      by (simp add: dashboard_def view_hod_dashboard_def)
    with ss 1 show ?thesis by (intro exI [of _ "Approve (req_id r)"]) (simp add: route_iff)
  next
    case 2
    have adm: "tbl_lookup req_id (req_id r) (admin_tasks d) = Some r"
      using lk 2 by (simp add: admin_tasks_def)
    show ?thesis
    proof (cases "category r = Stationary")
      case True
      with adm own 2
      have "dashboard h e u (Issue (req_id r)) d s = Normal (set_status (req_id r) Completed_Fulfilled d, s)"
        by (simp add: dashboard_def view_admin_dashboard_def)
      with ss 2 show ?thesis by (intro exI [of _ "Issue (req_id r)"]) (simp add: route_iff)
    next
      case False
      let ?q = "quote_update ''vendor'' 1 (Some [])"
      from False adm own 2
      have "dashboard h e u (Quote (req_id r) ''vendor'' 1 (Some [])) d s = Normal (set_request (req_id r) ?q d, s)"
        by (simp add: dashboard_def view_admin_dashboard_def)
      moreover have "tbl_lookup req_id (req_id r) (requests (set_request (req_id r) ?q d)) = Some (?q r)"
        by (rule lookup_set_request [OF inv r]) (simp add: keeps_key_def quote_update_def)
      ultimately show ?thesis using 2
        by (intro exI [of _ "Quote (req_id r) ''vendor'' 1 (Some [])"]) (simp add: route_iff quote_update_def)
    qed
  next
    case 3
    with lk own rend have "dashboard h e u (Approve (req_id r)) d s = Normal (set_status (req_id r) Pending_SAC d, s)"
      by (simp add: dashboard_def view_approver_dashboard_def approver_tasks_def Let_def)
    with ss 3 show ?thesis by (intro exI [of _ "Approve (req_id r)"]) (simp add: route_iff)
  next
    case 4
    let ?q = "sac_update 0 []"
    have "shown (req_id r) (rendered e invoice_img (sac_tasks d))"
      using r 4 rend by (auto simp: sac_tasks_def shown_def)
    with own 4 have "dashboard h e u (Validate (req_id r) 0 []) d s = Normal (set_request (req_id r) ?q d, s)"
      by (simp add: dashboard_def view_sac_dashboard_def Let_def)
    moreover have "tbl_lookup req_id (req_id r) (requests (set_request (req_id r) ?q d)) = Some (?q r)"
      by (rule lookup_set_request [OF inv r]) (simp add: keeps_key_def sac_update_def)
    ultimately show ?thesis using 4
      by (intro exI [of _ "Validate (req_id r) 0 []"]) (simp add: route_iff sac_update_def)
  next
    case 5
    with lk own rend have "dashboard h e u (Approve (req_id r)) d s = Normal (set_status (req_id r) Pending_GMD d, s)"
      by (simp add: dashboard_def view_approver_dashboard_def approver_tasks_def Let_def)
    with ss 5 show ?thesis by (intro exI [of _ "Approve (req_id r)"]) (simp add: route_iff)
  next
    case 6
    with lk own rend have "requests (fst (outcome_state (dashboard h e u (Approve (req_id r)) d s))) =
        requests (set_status (req_id r) Approved d)"
      by (simp add: dashboard_def view_approver_dashboard_def approver_tasks_def requests_unchanged Let_def)
    with ss 6 show ?thesis by (intro exI [of _ "Approve (req_id r)"]) (simp add: route_iff)
  qed
qed

lemma progress_main:
  assumes inv: "db_inv d" and li: "logged_in s" and ud: "user_data s = Some u"
    and cu: "get_user d (current_user_key s) = Some c" and fr: "force_reset c \<noteq> 1"
    and r: "r \<in> set (requests d)" and nt: "\<not> terminal (status r)"
    and own: "role u = status_owner (status r)"
    and hod: "status r = Pending_Dept_HOD \<Longrightarrow> email u = approver_email r"
    and img: "list_all (\<lambda>q. renders e (invoice_img q)) (requests d)"
  shows "\<exists>ev r'. tbl_lookup req_id (req_id r) (requests (fst (outcome_state (main h e ev d s)))) = Some r' \<and>
                 route (status r) (status r')"
proof -
  from progress_step [OF inv r nt own hod img, of h s] obtain ev r' where
    ev: "tbl_lookup req_id (req_id r) (requests (fst (outcome_state (dashboard h e u ev d s)))) = Some r'"
      "route (status r) (status r')" by blast
  then have "ev \<noteq> Logout"
    using lookup_set_status [OF inv r] by (auto simp: dashboard_def view_hod_dashboard_def
      view_admin_dashboard_def view_approver_dashboard_def view_sac_dashboard_def view_accounts_def
      Let_def loop_end_def tbl_lookup_pk [OF db_inv_pk [OF inv] r] view_staff_portal_def
      requests_unchanged route_iff split: role.splits if_splits option.splits)
  with li ud cu fr have "main h e ev d s = dashboard h e u ev d s"
    by (simp add: main_def split: event.splits)
  with ev show ?thesis by (intro exI [of _ ev] exI [of _ r']) simp
qed

section \<open>The audit trail\<close>

lemma audit_unchanged:
  "audit (view_hod_dashboard u ev d) = audit d"
  "audit (view_admin_dashboard ev d) = audit d"
  "audit (outcome_state (view_approver_dashboard rl trig nxt e ev d)) = audit d"
  "audit (outcome_state (view_sac_dashboard e ev d)) = audit d"
  "audit (outcome_state (view_accounts e ev d)) = audit d"
  "audit (view_superuser h ev d) = audit d"
  "audit (fst (change_password_flow h p1 p2 d s)) = audit d"
  "audit (init_db h d) = audit d"
  by (auto simp: view_hod_dashboard_def view_admin_dashboard_def view_approver_dashboard_def
      view_sac_dashboard_def view_accounts_def view_superuser_def change_password_flow_def init_db_def
      store_frame_defs insert_user_def insert_payment_def tbl_insert_def Let_def
      split: event.splits option.splits sum.splits if_splits)

lemma audit_login: "prefix (audit d) (audit (fst (login_function h ts u p d s)))"
  by (auto simp: login_function_def log_action_def Let_def split: option.splits)

lemma audit_staff_portal:
  "prefix (audit d) (audit (fst (outcome_state (view_staff_portal e u ev d s))))"
proof -
  have "prefix (audit d) (audit (fst (outcome_state (process_cart_submission e u d s))))"
    using process_cart_submission_effect [where e = e and u = u and d = d and s = s]
    by (auto simp: full_insert_def stopped_insert_def split: outcome.splits)
  then show ?thesis
    by (auto simp: view_staff_portal_def split: event.splits)
qed

lemma audit_dashboard: "prefix (audit d) (audit (fst (outcome_state (dashboard h e u ev d s))))"
  by (simp add: dashboard_def audit_unchanged audit_staff_portal split: role.splits)

lemma audit_main: "prefix (audit d) (audit (fst (outcome_state (main h e ev d s))))"
  by (simp add: main_def audit_unchanged audit_login audit_dashboard split: option.splits event.splits)

end
