(* ===== verification/Spec2Isabelle.thy ===== *)
theory Spec2Isabelle
  imports Refinement
begin

text \<open>
  \<^bold>\<open>A verification model of src/Facility.py.\<close>
  The program is a Streamlit procurement workflow over one SQLite database. Staff fill a
  cart and submit it (\<open>view_staff_portal\<close>, \<open>process_cart_submission\<close>); each request
  then moves by button clicks of the role dashboards through the statuses
  Pending Dept HOD, Pending Admin, Pending SS HOD, Pending SAC, Pending ED, Pending GMD,
  Approved (or Declined, or, at the admin, Completed (Fulfilled)/(Resolved)); the GMD's
  approval inserts a payment that Accounts marks Paid. \<open>main()\<close> dispatches on the
  session's login state, on the fresh \<open>force_reset\<close> flag and on the user's role. Every
  browser interaction is one rerun of the whole script: module code (\<open>conn = init_db()\<close>)
  then \<open>main()\<close>; the database is shared by all sessions, \<open>st.session_state\<close> is per
  session.

  \<^bold>\<open>Theories.\<close>
  \<^item> Prelude: \<open>py_error\<close> (IntegrityError, TypeError, KeyError and PIL's
    UnidentifiedImageError), the rerun result
    \<open>outcome\<close> (\<open>Raised\<close> keeps the committed state), and tables as row lists with a key:
    \<open>tbl_insert\<close>/\<open>tbl_update\<close>/\<open>tbl_lookup\<close> model \<open>run_query\<close>'s INSERT, UPDATE ... WHERE
    key = ?, and single-row SELECT.
  \<^item> Model: the string vocabularies as datatypes (\<open>status\<close>, \<open>role\<close>, \<open>category\<close>) with
    their texts, \<open>STATIONARY_ITEMS\<close>, \<open>CATEGORY_OPTIONS\<close>, the row records, \<open>str.lower\<close>.
  \<^item> Store: the database record (four tables) and \<open>init_db\<close>, \<open>get_user\<close>,
    \<open>log_action\<close>, \<open>check_hash\<close> and one definition per SQL statement of the program.
  \<^item> Session: \<open>st.session_state\<close>, the events a rerun can carry, \<open>login_function\<close>,
    \<open>change_password_flow\<close>, Logout.
  \<^item> Cart: the staff portal and \<open>process_cart_submission\<close> (stationery merged into one
    request, one request per other entry, CUG issues straight to the admin), with the
    rows a submission writes (\<open>cart_rows\<close>) as its specification.
  \<^item> Dashboards: \<open>view_hod_dashboard\<close>, \<open>view_admin_dashboard\<close>,
    \<open>view_approver_dashboard\<close> (SS HOD, ED, GMD), \<open>view_sac_dashboard\<close>,
    \<open>view_accounts\<close>, \<open>view_superuser\<close> and the report queries. A button acts only if its
    row is in the dashboard's query at the rerun (\<open>shown\<close>, lookups in the task lists)
    and, on the dashboards that show invoices, only if \<open>st.image\<close> rendered the invoices of
    that row and of every row before it (\<open>renders\<close>, \<open>rendered\<close>); otherwise the rerun
    ends with the image exception (\<open>loop_end\<close>).
  \<^item> Workflow: the abstract specification: \<open>route\<close> (one rule per button) and
    \<open>abs_step\<close>, the allowed change of the (id, status) table in one rerun.
  \<^item> App: \<open>dashboard\<close> and \<open>main\<close>, the application state (database and sessions by
    id), \<open>rerun\<close>, \<open>next_app\<close>, \<open>run\<close> and the reachable states \<open>reachable\<close>.
  \<^item> Invariants: \<open>db_inv\<close> (primary keys, audit ids, the superuser row, each request
    consistent with its status, each payment backed by an approved request, one payment
    per request), \<open>sess_ok\<close> (a logged-in session names an existing user with its
    identity fields), \<open>users_kept\<close>; preserved by every handler, by \<open>main\<close>, by every
    rerun, hence true in every reachable state (\<open>reachable_app_inv\<close>); and the exceptions a
    rerun can raise.
  \<^item> Refinement: every handler and every rerun from a \<open>db_inv\<close> state is an
    \<open>abs_step\<close> of the status table (\<open>next_app_abs\<close>); a logged-in owner of a pending
    request can move it (\<open>progress_main\<close>); the audit trail only grows (\<open>audit_main\<close>).
  \<^item> This theory: the properties spanning the components and the witnesses, which run
    the model on concrete data, among them \<open>demo_app\<close>, a whole workflow from the empty
    database to a payment.

  \<^bold>\<open>Modelling choices.\<close> The hash (SHA-256) is a parameter \<open>h\<close>; \<open>uuid4()[:8]\<close>,
  \<open>date.today()\<close> and \<open>datetime.now()\<close> come from an \<open>env\<close> record per rerun, so id
  collisions are possible and modelled; so does \<open>image_ok\<close>, whether PIL decodes given
  bytes, so the properties hold for every decoder. \<open>str.lower\<close> is modelled on ASCII
  letters only (\<open>py_lower\<close>). Python floats are \<open>real\<close> (no rounding is
  relevant to the properties), counts are \<open>nat\<close>/\<open>int\<close>. Uploaded invoice bytes are a
  string. No loop of the program is unbounded: the cart loop is structural recursion, so
  no fuel is needed.

  \<^bold>\<open>What the properties show.\<close> The program refines the workflow, per rerun (C1)
  and along whole runs (C24), and a pending request whose invoices render can always be
  moved by a logged-in user owning its status (C12); payments are always backed by an
  approved request with its amount and vendor, one per request (C2, C8); reruns from
  reachable states never raise TypeError or KeyError (C4); cart submission is specified
  exactly on both outcomes (C5-C7); the handlers act only on their queue and as documented
  (C11, C15-C19, C28-C32); stationery, final statuses, costed requests, the superuser, the
  sessions and the reports are constrained in every reachable state (C9, C10, C14,
  C21-C23), and the audit trail is append-only (C13); password change and login compose
  (C26, C27). Some properties record defects: a GMD approval whose payment id collides
  leaves an approved request with no payment (C3); a failing submission leaves a partial
  insert and the cart (C6); SAC costs are unbounded (C19); an invoice that is not an image
  blocks its approver's queue (C20); the report filters on Paid and Ready for Accounts are
  dead (C23); a logout keeps the cart for the next user of the browser session (C25).

  \<^bold>\<open>Not modelled.\<close> Rendering other than \<open>st.image\<close> (widgets, tables, CSV
  download) and the admin's Analysis tab (\<open>get_db_df\<close>) only display state and do not
  raise on the data the program stores. Sessions are interleaved rerun by
  rerun: the statements of two reruns running at the same time in Streamlit's threads are
  not interleaved with each other, and SQLite's own failures (locked database, disk
  errors) are outside the model.
\<close>

section \<open>Sample data for the witnesses\<close>

definition sample_env :: env where
  "sample_env = \<lparr>uuid = (\<lambda>k. replicate (Suc k) CHR ''x''), today = ''2025-01-06'', now = ''2025-01-06 09:00:00'',
     image_ok = (\<lambda>b. take 4 b \<noteq> ''%PDF'')\<rparr>"

definition sample_staff :: user where
  "sample_staff = \<lparr>username = ''ann'', password = ''h'', role = Staff, name = ''Ann'', email = ''ann@co.com'',
     dept = ''Ops'', hod_email = ''hod@co.com'', force_reset = 0\<rparr>"

definition sample_cart :: "cart_item list" where
  "sample_cart = [\<lparr>item_type = Stationary, item_name = ''Biro'', qty = 3\<rparr>,
     \<lparr>item_type = Communication, item_name = ''CUG Issue'', qty = 1\<rparr>,
     \<lparr>item_type = Facility, item_name = ''AC Repair'', qty = 1\<rparr>]"

definition sample_request :: request where
  "sample_request = new_request ''x'' sample_staff Facility ''Door Repair'' Pending_Dept_HOD ''Pending'' ''2025-01-02''"

text \<open>
  A complete run of the program from the empty database: the superuser (logging in as
  \<open>SUPER\<close>) creates one user per role, a staff member submits a cart of three
  entries, and the chain approves two of them up to the GMD, who approves the first.
  \<open>sample_env\<close> draws the same ids in every rerun, so the ids collide later.
\<close>

definition demo_hash :: hash where "demo_hash p = ''sha256:'' @ p"

definition demo_script :: "(env \<times> nat \<times> event) list" where
  "demo_script =
    [(sample_env, 0, Login ''SUPER'' ''123''),
     (sample_env, 0, CreateUser ''Ann'' ''t1'' ''Ann'' ''ann@co.com'' Staff ''Ops'' ''hod@co.com''),
     (sample_env, 0, CreateUser ''hod'' ''t2'' ''Hod'' ''hod@co.com'' Dept_HOD ''Ops'' ''''),
     (sample_env, 0, CreateUser ''adm'' ''t3'' ''Adm'' ''adm@co.com'' Admin ''Facility'' ''''),
     (sample_env, 0, CreateUser ''ss'' ''t4'' ''Ss'' ''ss@co.com'' SS_HOD ''Support'' ''''),
     (sample_env, 0, CreateUser ''sac'' ''t5'' ''Sac'' ''sac@co.com'' SAC ''Audit'' ''''),
     (sample_env, 0, CreateUser ''ed'' ''t6'' ''Ed'' ''ed@co.com'' ED ''Board'' ''''),
     (sample_env, 0, CreateUser ''gmd'' ''t7'' ''Gmd'' ''gmd@co.com'' GMD ''Board'' ''''),
     (sample_env, 1, Login ''ann'' ''t1''), (sample_env, 1, ChangePassword ''pw'' ''pw''),
     (sample_env, 1, AddItem Stationary ''Biro'' 2),
     (sample_env, 1, AddItem Facility ''AC Repair'' 1),
     (sample_env, 1, AddItem Furniture ''Chair Repair'' 1),
     (sample_env, 1, SubmitCart),
     (sample_env, 2, Login ''hod'' ''t2''), (sample_env, 2, ChangePassword ''pw'' ''pw''),
     (sample_env, 2, Approve ''xx''), (sample_env, 2, Approve ''xxx''),
     (sample_env, 3, Login ''adm'' ''t3''), (sample_env, 3, ChangePassword ''pw'' ''pw''),
     (sample_env, 3, Issue ''x''),
     (sample_env, 3, Quote ''xx'' ''Vendco'' 5000 (Some ''invoice1'')),
     (sample_env, 3, Quote ''xxx'' ''Chairs Ltd'' 800 (Some ''invoice2'')),
     (sample_env, 4, Login ''ss'' ''t4''), (sample_env, 4, ChangePassword ''pw'' ''pw''),
     (sample_env, 4, Approve ''xx''), (sample_env, 4, Approve ''xxx''),
     (sample_env, 5, Login ''sac'' ''t5''), (sample_env, 5, ChangePassword ''pw'' ''pw''),
     (sample_env, 5, Validate ''xx'' 4000 ''negotiated''), (sample_env, 5, Validate ''xxx'' 800 ''''),
     (sample_env, 6, Login ''ed'' ''t6''), (sample_env, 6, ChangePassword ''pw'' ''pw''),
     (sample_env, 6, Approve ''xx''), (sample_env, 6, Approve ''xxx''),
     (sample_env, 7, Login ''gmd'' ''t7''), (sample_env, 7, ChangePassword ''pw'' ''pw''),
     (sample_env, 7, Approve ''xx'')]"

definition demo_app :: app where "demo_app = run demo_hash demo_script (init_app demo_hash)"

section \<open>Properties spanning the components\<close>

lemma reachable_db_inv: "reachable h a \<Longrightarrow> db_inv (store a)"
  using reachable_app_inv by (simp add: app_inv_def)

lemma reachable_super:
  "reachable h a \<Longrightarrow> \<exists>u. get_user (store a) ''super'' = Some u \<and> role u = Superuser"
proof (induction rule: reachable.induct)
  case init
  have "get_user (init_db h empty_db) ''super'' = Some (superuser_row h)"
    by (simp add: init_db_def empty_db_def get_user_def tbl_lookup_def superuser_row_def)
  then show ?case by (simp add: init_app_def superuser_row_def)
next
  case (step a e sid ev)
  then obtain u where u: "get_user (store a) ''super'' = Some u" "role u = Superuser" by blast
  from reachable_app_inv [OF step.hyps] have inv: "app_inv a" .
  from next_app_inv [OF inv] have kept: "users_kept (store a) (store (next_app h e sid ev a))"
    and pk: "pk_ok username (users (store (next_app h e sid ev a)))"
    by (simp_all add: app_inv_def db_inv_def db_wf_def)
  from get_user_kept [OF u(1) kept pk] u(2) show ?case
    by (auto simp: ident_def)
qed

text \<open>
  C1: the program implements the workflow: in every reachable state, any rerun of
  any session, with any event, changes the table of (request id, status) pairs by a step
  of \<open>abs_step\<close>: existing requests keep their ids and order and either keep their
  status or make one transition of \<open>route\<close>, and new requests enter in an entry status.
\<close>

theorem rerun_refines_workflow:
  "reachable h a \<Longrightarrow> abs_step (status_table (store a)) (status_table (store (next_app h e sid ev a)))"
  using next_app_abs reachable_app_inv by blast

text \<open>
  C2: in every reachable state every payment row belongs to an approved
  request and carries that request's (negotiated) amount and vendor.
\<close>

theorem reachable_payment_sound:
  assumes "reachable h a" and "p \<in> set (payments (store a))"
  shows "\<exists>r \<in> set (requests (store a)). req_id r = pay_req_id p \<and> status r = Approved \<and>
           amount r = pay_amount p \<and> vendor r = pay_vendor p"
  using reachable_db_inv [OF assms(1)] assms(2)
  by (fastforce simp: db_inv_def pay_ok_def pays_for_def list_all_iff list_ex_iff)

text \<open>C8: in every reachable state no request has two payment rows.\<close>

theorem reachable_one_payment_per_request:
  "reachable h a \<Longrightarrow> distinct (map pay_req_id (payments (store a)))"
  using reachable_db_inv by (simp add: db_inv_def)

text \<open>
  C4: from a reachable state a rerun never stops on \<open>TypeError\<close> or
  \<open>KeyError\<close> (the session always refers to an existing user and holds its data); the
  only exceptions that can escape are \<open>IntegrityError\<close> from a colliding 8-character id
  and \<open>UnidentifiedImageError\<close> from an invoice that is not an image.
\<close>

theorem reachable_rerun_errors:
  assumes "reachable h a" and "outcome_error (rerun h e sid ev a) = Some err"
  shows "err = IntegrityError \<or> err = UnidentifiedImageError"
proof -
  from reachable_app_inv [OF assms(1)] have inv: "app_inv a" .
  then have "db_inv (store a)" by (simp add: app_inv_def)
  with assms(2) have "outcome_error (main h e ev (store a) (session_of a sid)) = Some err"
    by (simp add: rerun_def db_inv_init_db)
  from main_error [OF session_of_ok [OF inv] this] show ?thesis .
qed

text \<open>
  C9: in every reachable state a stationery request is either waiting for the
  admin or fulfilled: it never enters the costed approval chain.
\<close>

theorem reachable_stationary_not_costed:
  assumes "reachable h a" and "r \<in> set (requests (store a))" and "category r = Stationary"
  shows "status r = Pending_Admin \<or> status r = Completed_Fulfilled"
  using reachable_db_inv [OF assms(1)] assms(2,3) by (auto simp: db_inv_def req_ok_def list_all_iff)

text \<open>
  C10: a request that has reached a final status (approved, declined, fulfilled,
  resolved) keeps it in every later rerun.
\<close>

theorem terminal_status_stable:
  assumes "reachable h a" and "(k, st) \<in> set (status_table (store a))" and "terminal st"
  shows "(k, st) \<in> set (status_table (store (next_app h e sid ev a)))"
proof -
  from abs_step_mem [OF next_app_abs [OF reachable_app_inv [OF assms(1)]] assms(2)]
  obtain st' where "(k, st') \<in> set (status_table (store (next_app h e sid ev a)))"
    "st' = st \<or> route st st'" by blast
  with terminal_no_route [OF assms(3)] show ?thesis by auto
qed

text \<open>
  C23: no request ever has the status \<open>Paid\<close> or \<open>Ready for Accounts\<close> (these
  are payment statuses), so in every reachable state the HOD's spend report is the
  approved requests of the department and the SAC's savings report only ever shows
  approved requests and requests waiting for the ED or GMD.
\<close>

theorem reachable_reports:
  assumes "reachable h a"
  shows "hod_spend dp (store a) = filter (\<lambda>r. department r = dp \<and> status r = Approved) (requests (store a)) \<and>
         savings_rows (store a) = filter (\<lambda>r. amount r < initial_cost r \<and>
           status r \<in> {Approved, Pending_ED, Pending_GMD}) (requests (store a))"
proof -
  have "\<forall>r \<in> set (requests (store a)). status r \<noteq> Paid \<and> status r \<noteq> Ready_for_Accounts"
    using reachable_db_inv [OF assms] by (auto simp: db_inv_def req_ok_def list_all_iff)
  then show ?thesis
    by (auto simp: hod_spend_def savings_rows_def intro!: filter_cong)
qed

text \<open>
  C21: the default superuser can never be lost or demoted: in every reachable
  state the \<open>super\<close> row exists with the role Superuser.
\<close>

theorem superuser_never_lost:
  "reachable h a \<Longrightarrow> \<exists>u. get_user (store a) ''super'' = Some u \<and> role u = Superuser"
  using reachable_super by blast

text \<open>
  C22: in every reachable state a logged-in session refers to an existing
  user, and the role it dispatches on is that user's role in the database.
\<close>

theorem reachable_session_user:
  assumes "reachable h a" and "(sid, s) \<in> set (sessions a)" and "logged_in s"
  shows "\<exists>u u'. get_user (store a) (current_user_key s) = Some u \<and> user_data s = Some u' \<and>
           role u' = role u \<and> username u' = username u"
proof -
  from reachable_app_inv [OF assms(1)] assms(2) have "sess_ok (store a) s"
    by (auto simp: app_inv_def list_all_iff)
  with assms(3) show ?thesis
    by (auto simp: sess_ok_def ident_def split: option.splits dest: get_user_Some)
qed

text \<open>
  C3: when the fresh payment id of a GMD approval is already taken, the
  approval is committed but the payment insert raises \<open>IntegrityError\<close>: the request is
  left approved with no payment at all, so it never reaches the accounts queue, and it
  has left the GMD's queue, so the GMD cannot retry.
\<close>

theorem gmd_approve_collision:
  assumes inv: "db_inv d"
    and r: "tbl_lookup req_id rid (rendered e invoice_img (approver_tasks Pending_GMD d)) = Some r"
    and used: "uuid e 0 \<in> payment_id ` set (payments d)"
  shows "view_approver_dashboard GMD Pending_GMD Approved e (Approve rid) d =
           Raised IntegrityError (set_status rid Approved d) \<and>
         tbl_lookup req_id rid (requests (set_status rid Approved d)) = Some (r\<lparr>status := Approved\<rparr>) \<and>
         rid \<notin> pay_req_id ` set (payments (set_status rid Approved d))"
proof -
  have r': "tbl_lookup req_id rid (filter (\<lambda>q. status q = Pending_GMD) (requests d)) = Some r"
    using tbl_lookup_rendered [OF r] by (simp add: approver_tasks_def)
  from tbl_lookup_Some_mem [OF r'] have row: "r \<in> set (requests d)" "req_id r = rid"
    "status r = Pending_GMD" by simp_all
  have "view_approver_dashboard GMD Pending_GMD Approved e (Approve rid) d =
          Raised IntegrityError (set_status rid Approved d)"
    using r used row by (simp add: view_approver_dashboard_def insert_payment_def tbl_insert_def gmd_payment_def
        Let_def set_status_def set_request_def)
  moreover have "tbl_lookup req_id rid (requests (set_status rid Approved d)) = Some (r\<lparr>status := Approved\<rparr>)"
    using set_request_lookup [OF db_inv_pk [OF inv] r']
    by (simp add: set_status_def keeps_key_def)
  moreover have "rid \<notin> pay_req_id ` set (payments (set_status rid Approved d))"
    using unpaid_request [OF inv row(1)] row by (simp add: set_status_def set_request_def)
  ultimately show ?thesis by blast
qed

text \<open>
  C12: no request is stuck while its invoices render: in every reachable state, a
  logged-in session whose user owns the status of a pending request (the role of that
  status; for the department head, the request's approver) moves the request one
  transition along the workflow with one rerun of the program.
\<close>

theorem pending_request_can_progress:
  assumes "reachable h a" and "session_of a sid = s" and "logged_in s" and "user_data s = Some u"
    and "get_user (store a) (current_user_key s) = Some c" and "force_reset c \<noteq> 1"
    and "r \<in> set (requests (store a))" and "\<not> terminal (status r)"
    and "role u = status_owner (status r)"
    and "status r = Pending_Dept_HOD \<longrightarrow> email u = approver_email r"
    and "list_all (\<lambda>q. renders e (invoice_img q)) (requests (store a))"
  shows "\<exists>ev r'. tbl_lookup req_id (req_id r) (requests (store (next_app h e sid ev a))) = Some r' \<and>
           route (status r) (status r')"
proof -
  have db: "db_inv (store a)" by (rule reachable_db_inv [OF assms(1)])
  have st: "store (next_app h e sid ev a) = fst (outcome_state (main h e ev (store a) s))" for ev
    using assms(2) by (simp add: next_app_eq [OF db] split: prod.splits)
  from progress_main [OF db assms(3-9) _ assms(11)] assms(10) show ?thesis
    by (simp add: st)
qed

text \<open>
  C24: along any sequence of reruns from a reachable state, a request keeps its id
  and its status either stays or moves forward along a chain of workflow transitions.
\<close>

theorem run_status_history:
  assumes "reachable h a" and "(k, st) \<in> set (status_table (store a))"
  shows "\<exists>st'. (k, st') \<in> set (status_table (store (run h evs a))) \<and> (st' = st \<or> route\<^sup>+\<^sup>+ st st')"
  using assms
proof (induction evs arbitrary: a st)
  case Nil
  then show ?case by auto
next
  case (Cons x evs)
  obtain e sid ev where x: "x = (e, sid, ev)" by (cases x) blast
  from abs_step_mem [OF next_app_abs [OF reachable_app_inv [OF Cons.prems(1)]] Cons.prems(2)]
  obtain st1 where st1: "(k, st1) \<in> set (status_table (store (next_app h e sid ev a)))"
    "st1 = st \<or> route st st1" by blast
  from Cons.IH [OF reachable.step [OF Cons.prems(1)] st1(1)] obtain st' where
    "(k, st') \<in> set (status_table (store (run h evs (next_app h e sid ev a))))"
    "st' = st1 \<or> route\<^sup>+\<^sup>+ st1 st'" by blast
  with st1(2) x show ?case
    by (auto intro: tranclp_into_tranclp2)
qed

text \<open>
  C13: the audit trail is append-only: a rerun of any session with any event only
  adds entries at its end.
\<close>

theorem audit_append_only: "prefix (audit (store a)) (audit (store (next_app h e sid ev a)))"
proof -
  have "store (next_app h e sid ev a) = fst (outcome_state (main h e ev (init_db h (store a)) (session_of a sid)))"
    by (simp add: next_app_def rerun_def split_def)
  with audit_main [of "init_db h (store a)" h e ev "session_of a sid"] show ?thesis
    by (simp add: audit_unchanged)
qed

text \<open>
  C14: in every reachable state a request in the costed part of the chain (from
  Pending SS HOD to Approved) has a vendor, a positive initial quote and an invoice.
\<close>

theorem reachable_costed_requests:
  assumes "reachable h a" and "r \<in> set (requests (store a))"
    and "status r \<in> {Pending_SS_HOD, Pending_SAC, Pending_ED, Pending_GMD, Approved}"
  shows "vendor r \<noteq> [] \<and> 0 < initial_cost r \<and> invoice_img r \<noteq> None"
  using reachable_db_inv [OF assms(1)] assms(2,3)
  by (auto simp: db_inv_def req_ok_def quoted_def list_all_iff)

section \<open>Witnesses\<close>

lemma demo_reachable: "reachable demo_hash demo_app"
  unfolding demo_app_def by (rule reachable_run [OF reachable.init])

theorem rerun_refines_workflow_witness:
  "reachable demo_hash demo_app \<and>
   abs_step (status_table (store demo_app)) (status_table (store (next_app demo_hash sample_env 7 (Approve ''xxx'') demo_app)))"
  using rerun_refines_workflow [OF demo_reachable] demo_reachable by blast

theorem reachable_payment_sound_witness:
  "reachable demo_hash demo_app \<and>
   \<lparr>payment_id = ''x'', pay_req_id = ''xx'', pay_amount = 4000, pay_status = Ready_for_Accounts,
     pay_vendor = ''Vendco''\<rparr> \<in> set (payments (store demo_app)) \<and>
   (\<exists>r \<in> set (requests (store demo_app)). req_id r = ''xx'' \<and> status r = Approved \<and>
      amount r = 4000 \<and> vendor r = ''Vendco'')"
proof -
  have p: "\<lparr>payment_id = ''x'', pay_req_id = ''xx'', pay_amount = 4000, pay_status = Ready_for_Accounts,
     pay_vendor = ''Vendco''\<rparr> \<in> set (payments (store demo_app))"
    by code_simp
  from reachable_payment_sound [OF demo_reachable p] p demo_reachable show ?thesis by simp
qed

theorem reachable_one_payment_per_request_witness:
  "reachable demo_hash demo_app \<and> distinct (map pay_req_id (payments (store demo_app)))"
  using reachable_one_payment_per_request [OF demo_reachable] demo_reachable by blast

theorem reachable_rerun_errors_witness:
  "reachable demo_hash demo_app \<and>
   outcome_error (rerun demo_hash sample_env 7 (Approve ''xxx'') demo_app) = Some IntegrityError"
proof -
  have e: "outcome_error (rerun demo_hash sample_env 7 (Approve ''xxx'') demo_app) = Some IntegrityError"
    by code_simp
  from reachable_rerun_errors [OF demo_reachable e] e demo_reachable show ?thesis by simp
qed

theorem reachable_stationary_not_costed_witness:
  "reachable demo_hash demo_app \<and>
   the (tbl_lookup req_id ''x'' (requests (store demo_app))) \<in> set (requests (store demo_app)) \<and>
   category (the (tbl_lookup req_id ''x'' (requests (store demo_app)))) = Stationary \<and>
   (status (the (tbl_lookup req_id ''x'' (requests (store demo_app)))) = Pending_Admin \<or>
    status (the (tbl_lookup req_id ''x'' (requests (store demo_app)))) = Completed_Fulfilled)"
proof -
  have m: "the (tbl_lookup req_id ''x'' (requests (store demo_app))) \<in> set (requests (store demo_app))"
    by code_simp
  have c: "category (the (tbl_lookup req_id ''x'' (requests (store demo_app)))) = Stationary"
    by code_simp
  from reachable_stationary_not_costed [OF demo_reachable m c] m c demo_reachable show ?thesis by simp
qed

theorem terminal_status_stable_witness:
  "reachable demo_hash demo_app \<and> (''x'', Completed_Fulfilled) \<in> set (status_table (store demo_app)) \<and>
   terminal Completed_Fulfilled \<and>
   (''x'', Completed_Fulfilled) \<in> set (status_table (store (next_app demo_hash sample_env 3 (Issue ''x'') demo_app)))"
proof -
  have m: "(''x'', Completed_Fulfilled) \<in> set (status_table (store demo_app))" by code_simp
  have t: "terminal Completed_Fulfilled" by (simp add: terminal_def)
  from terminal_status_stable [OF demo_reachable m t] m t demo_reachable show ?thesis by simp
qed

theorem reachable_reports_witness:
  "reachable demo_hash demo_app \<and>
   hod_spend ''Ops'' (store demo_app) =
     filter (\<lambda>r. department r = ''Ops'' \<and> status r = Approved) (requests (store demo_app))"
  using reachable_reports [OF demo_reachable, of "''Ops''"] demo_reachable by blast

theorem superuser_never_lost_witness:
  "reachable demo_hash demo_app \<and> (\<exists>u. get_user (store demo_app) ''super'' = Some u \<and> role u = Superuser)"
  using superuser_never_lost [OF demo_reachable] demo_reachable by blast

theorem reachable_session_user_witness:
  "reachable demo_hash demo_app \<and> (7, session_of demo_app 7) \<in> set (sessions demo_app) \<and>
   logged_in (session_of demo_app 7) \<and>
   (\<exists>u u'. get_user (store demo_app) (current_user_key (session_of demo_app 7)) = Some u \<and>
      user_data (session_of demo_app 7) = Some u' \<and> role u' = role u \<and> username u' = username u)"
proof -
  have m: "(7, session_of demo_app 7) \<in> set (sessions demo_app)" by code_simp
  have l: "logged_in (session_of demo_app 7)" by code_simp
  from reachable_session_user [OF demo_reachable m l] m l demo_reachable show ?thesis by blast
qed

theorem gmd_approve_collision_witness:
  "db_inv (store demo_app) \<and>
   tbl_lookup req_id ''xxx'' (rendered sample_env invoice_img (approver_tasks Pending_GMD (store demo_app))) =
     Some (the (tbl_lookup req_id ''xxx'' (requests (store demo_app)))) \<and>
   uuid sample_env 0 \<in> payment_id ` set (payments (store demo_app)) \<and>
   view_approver_dashboard GMD Pending_GMD Approved sample_env (Approve ''xxx'') (store demo_app) =
     Raised IntegrityError (set_status ''xxx'' Approved (store demo_app)) \<and>
   ''xxx'' \<notin> pay_req_id ` set (payments (set_status ''xxx'' Approved (store demo_app)))"
proof -
  have inv: "db_inv (store demo_app)" by (rule reachable_db_inv [OF demo_reachable])
  have r: "tbl_lookup req_id ''xxx'' (rendered sample_env invoice_img (approver_tasks Pending_GMD (store demo_app))) =
     Some (the (tbl_lookup req_id ''xxx'' (requests (store demo_app))))" by code_simp
  have u: "uuid sample_env 0 \<in> payment_id ` set (payments (store demo_app))" by code_simp
  from gmd_approve_collision [OF inv r u] inv r u show ?thesis by simp
qed


lemma sample_cart_facts:
  "stat_items sample_cart = [\<lparr>item_type = Stationary, item_name = ''Biro'', qty = 3\<rparr>]"
  "ids_needed sample_cart = 3"
  by (simp_all add: sample_cart_def stat_items_def ids_needed_def other_items_def)

theorem pending_request_can_progress_witness:
  "reachable demo_hash demo_app \<and> logged_in (session_of demo_app 7) \<and>
   role (the (user_data (session_of demo_app 7))) = GMD \<and>
   status (the (tbl_lookup req_id ''xxx'' (requests (store demo_app)))) = Pending_GMD \<and>
   (\<exists>ev r'. tbl_lookup req_id ''xxx'' (requests (store (next_app demo_hash sample_env 7 ev demo_app))) = Some r' \<and>
      route Pending_GMD (status r'))"
proof -
  let ?s = "session_of demo_app 7" and ?r = "the (tbl_lookup req_id ''xxx'' (requests (store demo_app)))"
  let ?u = "the (user_data ?s)" and ?c = "the (get_user (store demo_app) (current_user_key ?s))"
  have l: "logged_in ?s" by code_simp
  have ud: "user_data ?s = Some ?u" by code_simp
  have cu: "get_user (store demo_app) (current_user_key ?s) = Some ?c" by code_simp
  have fr: "force_reset ?c \<noteq> 1" by code_simp
  have m: "?r \<in> set (requests (store demo_app))" by code_simp
  have st: "status ?r = Pending_GMD" by code_simp
  have i: "req_id ?r = ''xxx''" by code_simp
  have t: "\<not> terminal (status ?r)" using st by (simp add: terminal_def)
  have rl: "role ?u = status_owner (status ?r)" by code_simp
  have hd: "status ?r = Pending_Dept_HOD \<longrightarrow> email ?u = approver_email ?r" using st by simp
  have im: "list_all (\<lambda>q. renders sample_env (invoice_img q)) (requests (store demo_app))" by code_simp
  have ro: "role ?u = GMD" using rl st by simp
  from pending_request_can_progress [OF demo_reachable refl l ud cu fr m t rl hd im] st i ro l
  show ?thesis by (simp add: demo_reachable)
qed

theorem reachable_costed_requests_witness:
  "reachable demo_hash demo_app \<and>
   the (tbl_lookup req_id ''xx'' (requests (store demo_app))) \<in> set (requests (store demo_app)) \<and>
   status (the (tbl_lookup req_id ''xx'' (requests (store demo_app)))) = Approved \<and>
   0 < initial_cost (the (tbl_lookup req_id ''xx'' (requests (store demo_app))))"
proof -
  let ?r = "the (tbl_lookup req_id ''xx'' (requests (store demo_app)))"
  have m: "?r \<in> set (requests (store demo_app))" by code_simp
  have s: "status ?r = Approved" by code_simp
  then have "status ?r \<in> {Pending_SS_HOD, Pending_SAC, Pending_ED, Pending_GMD, Approved}" by simp
  from reachable_costed_requests [OF demo_reachable m this] m s demo_reachable show ?thesis by simp
qed

theorem mark_paid_clears_queue_witness:
  "''x'' \<in> set (map (payment_id \<circ> fst) (rendered sample_env (invoice_img \<circ> snd) (accounts_tasks (store demo_app)))) \<and>
   (\<exists>d'. view_accounts sample_env (MarkPaid ''x'') (store demo_app) = Normal d' \<and>
      ''x'' \<notin> set (map (payment_id \<circ> fst) (accounts_tasks d')))"
proof -
  have m: "''x'' \<in> set (map (payment_id \<circ> fst) (rendered sample_env (invoice_img \<circ> snd) (accounts_tasks (store demo_app))))"
    by code_simp
  from Dashboards.mark_paid_clears_queue [OF m] m show ?thesis by blast
qed

theorem image_blocks_approver_queue_witness:
  "approver_tasks Pending_SS_HOD (empty_db\<lparr>requests := [sample_request\<lparr>status := Pending_SS_HOD,
      invoice_img := Some ''%PDF-1.4''\<rparr>]\<rparr>) = [sample_request\<lparr>status := Pending_SS_HOD, invoice_img := Some ''%PDF-1.4''\<rparr>] \<and>
   \<not> renders sample_env (invoice_img (sample_request\<lparr>status := Pending_SS_HOD, invoice_img := Some ''%PDF-1.4''\<rparr>)) \<and>
   view_approver_dashboard SS_HOD Pending_SS_HOD Pending_SAC sample_env (Approve ''x'')
     (empty_db\<lparr>requests := [sample_request\<lparr>status := Pending_SS_HOD, invoice_img := Some ''%PDF-1.4''\<rparr>]\<rparr>) =
   Raised UnidentifiedImageError
     (empty_db\<lparr>requests := [sample_request\<lparr>status := Pending_SS_HOD, invoice_img := Some ''%PDF-1.4''\<rparr>]\<rparr>)"
proof -
  let ?q = "sample_request\<lparr>status := Pending_SS_HOD, invoice_img := Some ''%PDF-1.4''\<rparr>"
  have t: "approver_tasks Pending_SS_HOD (empty_db\<lparr>requests := [?q]\<rparr>) = ?q # []"
    by (simp add: approver_tasks_def)
  have b: "\<not> renders sample_env (invoice_img ?q)" by code_simp
  from Dashboards.image_blocks_approver_queue [OF t b] t b show ?thesis by simp
qed

theorem run_status_history_witness:
  "reachable demo_hash demo_app \<and> (''xxx'', Pending_GMD) \<in> set (status_table (store demo_app)) \<and>
   (\<exists>st'. (''xxx'', st') \<in> set (status_table (store (run demo_hash [(sample_env, 7, Decline ''xxx'')] demo_app))) \<and>
      (st' = Pending_GMD \<or> route\<^sup>+\<^sup>+ Pending_GMD st'))"
proof -
  have m: "(''xxx'', Pending_GMD) \<in> set (status_table (store demo_app))" by code_simp
  from run_status_history [OF demo_reachable m] m demo_reachable show ?thesis by blast
qed

theorem change_password_then_login_witness:
  "get_user (empty_db\<lparr>users := [sample_staff]\<rparr>) ''ann'' = Some sample_staff \<and>
   py_lower ''ann'' = ''ann'' \<and>
   logged_in (snd (login_function demo_hash ''t'' ''ann'' ''secret''
     (fst (change_password_flow demo_hash ''secret'' ''secret'' (empty_db\<lparr>users := [sample_staff]\<rparr>)
       (init_session\<lparr>logged_in := True, current_user_key := ''ann''\<rparr>))) init_session))"
proof -
  let ?d = "empty_db\<lparr>users := [sample_staff]\<rparr>" and ?s = "init_session\<lparr>logged_in := True, current_user_key := ''ann''\<rparr>"
  have u: "get_user ?d (current_user_key ?s) = Some sample_staff"
    by (simp add: get_user_def tbl_lookup_def sample_staff_def init_session_def)
  have l: "py_lower (current_user_key ?s) = current_user_key ?s" by code_simp
  have cp: "change_password_flow demo_hash ''secret'' ''secret'' ?d ?s =
    (fst (change_password_flow demo_hash ''secret'' ''secret'' ?d ?s), snd (change_password_flow demo_hash ''secret'' ''secret'' ?d ?s))"
    by simp
  have p: "''secret'' \<noteq> []" by simp
  from Session.change_password_then_login [OF u l p cp, of "''t''" init_session] u l show ?thesis
    by (simp add: init_session_def)
qed

theorem hod_only_own_requests_witness:
  "pk_ok req_id [sample_request\<lparr>req_id := ''a'', approver_email := ''ops2@co.com''\<rparr>, sample_request] \<and>
   sample_request\<lparr>req_id := ''a'', approver_email := ''ops2@co.com''\<rparr> \<in>
     set (requests (view_hod_dashboard (sample_staff\<lparr>role := Dept_HOD, email := ''hod@co.com''\<rparr>) (Approve ''a'')
       (empty_db\<lparr>requests := [sample_request\<lparr>req_id := ''a'', approver_email := ''ops2@co.com''\<rparr>, sample_request]\<rparr>)))"
proof -
  let ?r = "sample_request\<lparr>req_id := ''a'', approver_email := ''ops2@co.com''\<rparr>"
  let ?d = "empty_db\<lparr>requests := [?r, sample_request]\<rparr>"
  have pk: "pk_ok req_id (requests ?d)" by code_simp
  have m: "?r \<in> set (requests ?d)" by simp
  have o: "approver_email ?r \<noteq> email (sample_staff\<lparr>role := Dept_HOD, email := ''hod@co.com''\<rparr>) \<or>
           status ?r \<noteq> Pending_Dept_HOD" by simp
  from Dashboards.hod_only_own_requests [OF pk m o, of "Approve ''a''"] pk show ?thesis by simp
qed

theorem admin_quote_sets_cost_witness:
  "tbl_lookup req_id ''x'' (requests (view_admin_dashboard (Quote ''x'' ''Vendco'' 5000 (Some ''inv''))
      (empty_db\<lparr>requests := [sample_request\<lparr>status := Pending_Admin\<rparr>]\<rparr>))) =
   Some (sample_request\<lparr>vendor := ''Vendco'', amount := 5000, initial_cost := 5000, invoice_img := Some ''inv'',
     status := Pending_SS_HOD\<rparr>)"
proof -
  let ?d = "empty_db\<lparr>requests := [sample_request\<lparr>status := Pending_Admin\<rparr>]\<rparr>"
  have pk: "pk_ok req_id (requests ?d)" by code_simp
  have r: "tbl_lookup req_id ''x'' (admin_tasks ?d) = Some (sample_request\<lparr>status := Pending_Admin\<rparr>)"
    by code_simp
  have ok: "category (sample_request\<lparr>status := Pending_Admin\<rparr>) \<noteq> Stationary" by code_simp
  from Dashboards.admin_quote_sets_cost [OF pk r ok, of "''Vendco''" 5000 "Some ''inv''"] show ?thesis by simp
qed

theorem admin_quote_rejects_witness:
  "view_admin_dashboard (Quote ''x'' ''Vendco'' 0 (Some ''inv'')) (empty_db\<lparr>requests := [sample_request\<lparr>status := Pending_Admin\<rparr>]\<rparr>) =
   empty_db\<lparr>requests := [sample_request\<lparr>status := Pending_Admin\<rparr>]\<rparr>"
  using Dashboards.admin_quote_rejects [of "''Vendco''" 0 "Some ''inv''"] by simp

theorem sac_validate_any_cost_witness:
  "\<exists>d'. view_sac_dashboard sample_env (Validate ''x'' (-500) ''cheaper'')
      (empty_db\<lparr>requests := [sample_request\<lparr>status := Pending_SAC\<rparr>]\<rparr>) = Normal d' \<and>
   tbl_lookup req_id ''x'' (requests d') =
   Some (sample_request\<lparr>amount := -500, sac_note := ''cheaper'', status := Pending_ED\<rparr>)"
proof -
  let ?d = "empty_db\<lparr>requests := [sample_request\<lparr>status := Pending_SAC\<rparr>]\<rparr>"
  have pk: "pk_ok req_id (requests ?d)" by code_simp
  have r: "tbl_lookup req_id ''x'' (rendered sample_env invoice_img (sac_tasks ?d)) =
      Some (sample_request\<lparr>status := Pending_SAC\<rparr>)"
    by code_simp
  from Dashboards.sac_validate_any_cost [OF pk r, of "-500" "''cheaper''"] show ?thesis by simp
qed

theorem gmd_approve_fresh_witness:
  "\<exists>d'. view_approver_dashboard GMD Pending_GMD Approved sample_env (Approve ''x'')
     (empty_db\<lparr>requests := [sample_request\<lparr>status := Pending_GMD, amount := 900, vendor := ''Vendco''\<rparr>]\<rparr>) =
     Normal d' \<and>
   tbl_lookup req_id ''x'' (requests d') =
     Some (sample_request\<lparr>status := Approved, amount := 900, vendor := ''Vendco''\<rparr>) \<and>
   payments d' = [\<lparr>payment_id = ''x'', pay_req_id = ''x'', pay_amount = 900,
                   pay_status = Ready_for_Accounts, pay_vendor = ''Vendco''\<rparr>]"
proof -
  let ?r = "sample_request\<lparr>status := Pending_GMD, amount := 900, vendor := ''Vendco''\<rparr>"
  let ?d = "empty_db\<lparr>requests := [?r]\<rparr>"
  have pk: "pk_ok req_id (requests ?d)" by code_simp
  have r: "tbl_lookup req_id ''x'' (rendered sample_env invoice_img (approver_tasks Pending_GMD ?d)) = Some ?r"
    by code_simp
  have f: "uuid sample_env 0 \<notin> payment_id ` set (payments ?d)" by (simp add: empty_db_def)
  have u: "uuid sample_env 0 = ''x''" by (simp add: sample_env_def)
  from Dashboards.gmd_approve_fresh [OF pk r f] u show ?thesis by (auto simp: empty_db_def)
qed

theorem create_user_appends_witness:
  "users (view_superuser demo_hash (CreateUser ''Bob'' ''tmp'' ''Bob'' ''bob@co.com'' Staff ''Ops'' ''hod@co.com'') empty_db) =
   [\<lparr>username = ''bob'', password = ''sha256:tmp'', role = Staff, name = ''Bob'', email = ''bob@co.com'',
     dept = ''Ops'', hod_email = ''hod@co.com'', force_reset = 1\<rparr>]"
proof -
  have h: "Staff \<in> set creatable_roles" "py_lower ''Bob'' \<noteq> []" "''tmp'' \<noteq> []"
    "get_user empty_db (py_lower ''Bob'') = None"
    by (simp_all add: creatable_roles_def empty_db_def get_user_def tbl_lookup_def)
  have l: "py_lower ''Bob'' = ''bob''" by code_simp
  from Dashboards.create_user_appends [OF h, of demo_hash "''Bob''" "''bob@co.com''" "''Ops''" "''hod@co.com''"] l
  show ?thesis by (simp add: empty_db_def demo_hash_def)
qed

theorem create_user_duplicate_witness:
  "view_superuser demo_hash (CreateUser ''ANN'' ''tmp'' ''Ann 2'' ''ann2@co.com'' Admin ''Ops'' '''')
     (empty_db\<lparr>users := [sample_staff]\<rparr>) = empty_db\<lparr>users := [sample_staff]\<rparr>"
proof -
  have "get_user (empty_db\<lparr>users := [sample_staff]\<rparr>) (py_lower ''ANN'') \<noteq> None" by code_simp
  from Dashboards.create_user_duplicate [OF this] show ?thesis .
qed

theorem superuser_creates_no_superuser_witness:
  "new_user_row demo_hash ''bob'' ''tmp'' ''Bob'' ''bob@co.com'' Staff ''Ops'' ''hod@co.com'' \<in>
     set (users (view_superuser demo_hash (CreateUser ''Bob'' ''tmp'' ''Bob'' ''bob@co.com'' Staff ''Ops'' ''hod@co.com'') empty_db)) \<and>
   new_user_row demo_hash ''bob'' ''tmp'' ''Bob'' ''bob@co.com'' Staff ''Ops'' ''hod@co.com'' \<notin> set (users empty_db) \<and>
   force_reset (new_user_row demo_hash ''bob'' ''tmp'' ''Bob'' ''bob@co.com'' Staff ''Ops'' ''hod@co.com'') = 1"
proof -
  have m: "new_user_row demo_hash ''bob'' ''tmp'' ''Bob'' ''bob@co.com'' Staff ''Ops'' ''hod@co.com'' \<in>
     set (users (view_superuser demo_hash (CreateUser ''Bob'' ''tmp'' ''Bob'' ''bob@co.com'' Staff ''Ops'' ''hod@co.com'') empty_db))"
    by code_simp
  have n: "new_user_row demo_hash ''bob'' ''tmp'' ''Bob'' ''bob@co.com'' Staff ''Ops'' ''hod@co.com'' \<notin> set (users empty_db)"
    by (simp add: empty_db_def)
  from Dashboards.superuser_creates_no_superuser [OF m n] m n show ?thesis by simp
qed

theorem force_reset_gate_witness:
  "main demo_hash sample_env SubmitCart (empty_db\<lparr>users := [sample_staff\<lparr>force_reset := 1\<rparr>]\<rparr>)
     (init_session\<lparr>logged_in := True, current_user_key := ''ann'', cart := sample_cart\<rparr>) =
   Normal (empty_db\<lparr>users := [sample_staff\<lparr>force_reset := 1\<rparr>]\<rparr>,
     init_session\<lparr>logged_in := True, current_user_key := ''ann'', cart := sample_cart\<rparr>)"
proof -
  let ?d = "empty_db\<lparr>users := [sample_staff\<lparr>force_reset := 1\<rparr>]\<rparr>"
  let ?s = "init_session\<lparr>logged_in := True, current_user_key := ''ann'', cart := sample_cart\<rparr>"
  have h: "logged_in ?s" "get_user ?d (current_user_key ?s) = Some (sample_staff\<lparr>force_reset := 1\<rparr>)"
    "force_reset (sample_staff\<lparr>force_reset := 1\<rparr>) = 1" "\<forall>p1 p2. SubmitCart \<noteq> ChangePassword p1 p2"
    by (simp_all add: get_user_def tbl_lookup_def sample_staff_def init_session_def)
  from App.force_reset_gate [OF h, of demo_hash sample_env] show ?thesis .
qed

theorem cart_survives_logout_login_witness:
  "cart (snd (login_function demo_hash ''t'' ''bob'' ''pw'' (empty_db\<lparr>users := [sample_staff,
      sample_staff\<lparr>username := ''bob'', password := demo_hash ''pw''\<rparr>]\<rparr>)
     (init_session\<lparr>logged_in := False, current_user_key := ''ann'', user_data := Some sample_staff, cart := sample_cart\<rparr>))) =
   sample_cart \<and>
   logged_in (snd (login_function demo_hash ''t'' ''bob'' ''pw'' (empty_db\<lparr>users := [sample_staff,
      sample_staff\<lparr>username := ''bob'', password := demo_hash ''pw''\<rparr>]\<rparr>)
     (init_session\<lparr>logged_in := False, current_user_key := ''ann'', user_data := Some sample_staff, cart := sample_cart\<rparr>)))"
proof -
  let ?d = "empty_db\<lparr>users := [sample_staff, sample_staff\<lparr>username := ''bob'', password := demo_hash ''pw''\<rparr>]\<rparr>"
  let ?s = "init_session\<lparr>logged_in := True, current_user_key := ''ann'', user_data := Some sample_staff, cart := sample_cart\<rparr>"
  have h: "logged_in ?s" "get_user ?d (current_user_key ?s) = Some sample_staff"
    "force_reset sample_staff \<noteq> 1" "user_data ?s = Some sample_staff"
    by (simp_all add: get_user_def tbl_lookup_def sample_staff_def init_session_def)
  have l: "logged_in (snd (login_function demo_hash ''t'' ''bob'' ''pw'' ?d (?s\<lparr>logged_in := False\<rparr>)))"
    by code_simp
  from App.cart_survives_logout_login [OF h, of demo_hash sample_env "''t''" "''bob''" "''pw''"] l
  show ?thesis by (simp add: init_session_def)
qed

theorem process_cart_submission_fresh_witness:
  "cart (init_session\<lparr>cart := sample_cart\<rparr>) \<noteq> [] \<and>
   ids_fresh sample_env 0 (ids_needed (cart (init_session\<lparr>cart := sample_cart\<rparr>))) empty_db \<and>
   (\<exists>d'. process_cart_submission sample_env sample_staff empty_db (init_session\<lparr>cart := sample_cart\<rparr>) =
          Normal (d', init_session) \<and> length (requests d') = 3)"
proof -
  have h1: "cart (init_session\<lparr>cart := sample_cart\<rparr>) \<noteq> []"
    by (simp add: sample_cart_def)
  have h2: "ids_fresh sample_env 0 (ids_needed (cart (init_session\<lparr>cart := sample_cart\<rparr>))) empty_db"
    by code_simp
  show ?thesis
    using process_cart_submission_fresh [OF h1 h2, of sample_staff] h1 h2
    by (auto simp: empty_db_def init_session_def sample_cart_facts)
qed


theorem process_cart_submission_raises_witness:
  "\<exists>d' s'. process_cart_submission sample_env sample_staff (empty_db\<lparr>requests := [sample_request\<lparr>req_id := ''xx''\<rparr>]\<rparr>)
      (init_session\<lparr>cart := sample_cart\<rparr>) = Raised IntegrityError (d', s') \<and>
    s' = init_session\<lparr>cart := sample_cart\<rparr> \<and>
    requests d' = [sample_request\<lparr>req_id := ''xx''\<rparr>, stat_row sample_env sample_staff (stat_items sample_cart)]"
proof -
  let ?d = "empty_db\<lparr>requests := [sample_request\<lparr>req_id := ''xx''\<rparr>]\<rparr>"
  let ?s = "init_session\<lparr>cart := sample_cart\<rparr>"
  have "outcome_error (process_cart_submission sample_env sample_staff ?d ?s) = Some IntegrityError"
    by code_simp
  then obtain d' s' where eq: "process_cart_submission sample_env sample_staff ?d ?s = Raised IntegrityError (d', s')"
    by (auto simp: outcome_error_Some)
  from process_cart_submission_raises [OF eq] obtain k where k: "k < ids_needed (cart ?s)"
    "requests d' = requests ?d @ take k (cart_rows sample_env sample_staff (cart ?s))"
    "req_id (cart_rows sample_env sample_staff (cart ?s) ! k) \<in> req_id ` set (requests d')"
    and s': "s' = ?s" by blast
  have rows: "cart_rows sample_env sample_staff sample_cart =
      [stat_row sample_env sample_staff (stat_items sample_cart),
       new_request ''xx'' sample_staff Communication ''CUG Issue'' Pending_Admin ''Pending'' ''2025-01-06'',
       new_request ''xxx'' sample_staff Facility ''AC Repair'' Pending_Dept_HOD ''Pending'' ''2025-01-06'']"
    by code_simp
  have "k = 1"
  proof -
    from k(1) consider "k = 0" | "k = 1" | "k = 2" by (simp add: sample_cart_facts) arith
    then show ?thesis
    proof cases
      case 1
      with k(2,3) rows show ?thesis by (simp add: empty_db_def stat_row_def sample_env_def)
    next
      case 3
      with k(2,3) rows show ?thesis by (simp add: empty_db_def stat_row_def sample_env_def)
    qed
  qed
  with k(2) rows eq s' show ?thesis by (auto simp: empty_db_def)
qed

theorem submission_routes_rows_witness:
  "\<exists>d' s'. process_cart_submission sample_env sample_staff empty_db (init_session\<lparr>cart := sample_cart\<rparr>) = Normal (d', s') \<and>
     length (requests d') = 3 \<and>
     (\<forall>r \<in> set (requests d'). user_key r = ''ann'' \<and> approver_email r = ''hod@co.com'')"
proof -
  have "outcome_error (process_cart_submission sample_env sample_staff empty_db (init_session\<lparr>cart := sample_cart\<rparr>)) = None"
    by code_simp
  then obtain d' s' where eq: "process_cart_submission sample_env sample_staff empty_db (init_session\<lparr>cart := sample_cart\<rparr>) = Normal (d', s')"
    by (auto simp: outcome_error_None)
  from submission_routes_rows [OF eq] eq show ?thesis
    by (auto simp: empty_db_def sample_cart_facts sample_staff_def)
qed

end
